theory Spec2Isabelle
  imports Main
begin

section \<open>Data model of the device worker (lrs\_device.c, lrs\_device.h)\<close>

text \<open>
  The device worker of the Local Resource Scheduler is embedded as functions over an explicit
  state \<open>world\<close>. Every call that leaves the file (clock, library adapter, filesystem
  adapter, I/O adapter, DSS, allocation of a response) is an external call: its answer is read
  from a script, and the call and its return code are appended to a history. Every write to
  \<open>ld_op_status\<close> is appended to the same history, so that orderings between calls and
  state changes can be stated.
\<close>

record timespec =
  tv_sec :: int
  tv_nsec :: int

datatype dev_op_status =
  PHO_DEV_OP_ST_FAILED | PHO_DEV_OP_ST_EMPTY | PHO_DEV_OP_ST_LOADED | PHO_DEV_OP_ST_MOUNTED

datatype rsc_adm_status =
  PHO_RSC_ADM_ST_LOCKED | PHO_RSC_ADM_ST_UNLOCKED | PHO_RSC_ADM_ST_FAILED

datatype fs_status =
  PHO_FS_STATUS_BLANK | PHO_FS_STATUS_EMPTY | PHO_FS_STATUS_USED | PHO_FS_STATUS_FULL

datatype sub_request_status =
  SUB_REQUEST_TODO | SUB_REQUEST_DONE | SUB_REQUEST_ERROR | SUB_REQUEST_CANCEL

datatype thread_state = THREAD_RUNNING | THREAD_STOPPING | THREAD_STOPPED

datatype med_location = MED_LOC_UNKNOWN | MED_LOC_DRIVE | MED_LOC_SLOT | MED_LOC_ARM | MED_LOC_IMPEXP

datatype dss_type = DSS_DEVICE | DSS_MEDIA

text \<open>The bits of the \<open>fields\<close> mask given to \<open>dss_media_set\<close>; the mask is a set.\<close>

datatype dss_media_field =
  ADM_STATUS | FS_STATUS | FS_LABEL | NB_OBJ | NB_OBJ_ADD | LOGC_SPC_USED | LOGC_SPC_USED_ADD
  | PHYS_SPC_USED | PHYS_SPC_FREE

datatype req_kind = REQ_FORMAT | REQ_READ | REQ_WRITE | REQ_RELEASE | REQ_OTHER

text \<open>\<open>struct ldm_fs_space\<close>: \<open>spc_readonly\<close> is the bit \<open>spc_flags & PHO_FS_READONLY\<close>.\<close>

record ldm_fs_space =
  spc_used :: nat
  spc_avail :: nat
  spc_readonly :: bool

text \<open>\<open>struct media_info\<close>, the fields the worker reads or writes.\<close>

record media_info =
  mi_name :: string
  mi_adm_status :: rsc_adm_status
  mi_fs_status :: fs_status
  mi_fs_label :: string
  mi_nb_obj :: int
  mi_logc_spc_used :: nat
  mi_phys_spc_used :: nat
  mi_phys_spc_free :: nat

datatype rsc_family = PHO_RSC_DISK | PHO_RSC_TAPE | PHO_RSC_DIR | PHO_RSC_RADOS_POOL

record dev_info =
  di_name :: string
  di_family :: rsc_family
  di_adm_status :: rsc_adm_status

text \<open>
  \<open>struct sub_request\<close>. The parent pointer \<open>reqc\<close> is the key of the parent in the
  store \<open>reqcs\<close>; the places where the source sets it to NULL just before freeing the
  sub-request are modelled at \<open>sub_request_free\<close>.
\<close>

record sub_request =
  sr_reqc :: nat
  sr_medium_index :: nat
  sr_failure_on_medium :: bool

record tosync_medium =
  tm_status :: sub_request_status
  tm_name :: string
  tm_written_size :: nat
  tm_client_rc :: int

record rwalloc_medium =
  rm_status :: sub_request_status
  rm_alloc_medium :: "media_info option"

text \<open>
  \<open>struct req_container\<close>. The source keeps the per-kind parameters in a union; here each
  kind has its own fields.
\<close>

record req_container =
  rq_kind :: req_kind
  rq_received_at :: timespec
  rq_release_rc :: int
  rq_tosync_media :: "tosync_medium list"
  rq_rwalloc_rc :: int
  rq_rwalloc_media :: "rwalloc_medium list"
  rq_rwalloc_respc :: bool
  rq_n_med_ids :: nat
  rq_n_required :: nat
  rq_medium_to_format :: "media_info option"
  rq_format_unlock :: bool

datatype resp =
  RespError nat int
  | RespRelease nat "string list"
  | RespFormat nat
  | RespRwalloc nat

text \<open>The external calls, with the arguments the properties below speak about.\<close>

datatype call =
  ClockGettime
  | ThreadSignalTimedWait timespec
  | GetFsAdapter
  | GetIoAdapter
  | IoaMediumSync
  | LdmFsDf
  | LdmFsUmount
  | LdmFsMounted
  | LdmFsMount
  | LdmFsFormat
  | Basename
  | MountPoint
  | GetLibAdapter
  | CfgLibDevice
  | LdmLibOpen
  | LdmLibMediaLookup string
  | LdmLibMediaMove med_location med_location
  | LdmLibClose
  | DssMediaSet media_info "dss_media_field set"
  | DssDeviceUpdateAdmStatus dev_info
  | DssUnlock dss_type string
  | QueueErrorResponse nat int
  | AllocResponse nat
  | FillRwallocResp nat
  | RwallocCancelDoneDevices nat
  | SchedReqFree "nat option"
  | FormatMediumRemove "string option"

datatype event =
  Ext call int
  | OpStatus dev_op_status

text \<open>What an external call answers: its return code and, for the calls that fill an output
  argument, the value written there.\<close>

record reply =
  rp_rc :: int
  rp_now :: timespec
  rp_space :: ldm_fs_space
  rp_addr :: med_location
  rp_path :: string

record world =
  script :: "nat \<Rightarrow> reply"
  trace :: "event list"
  running :: bool
  sync_time_ms :: timespec
  sync_nb_req :: nat
  sync_wsize_kb :: nat
  ld_dss_dev_info :: dev_info
  ld_lib_dev_addr :: med_location
  ld_op_status :: dev_op_status
  ld_dss_media_info :: "media_info option"
  ld_mnt_path :: string
  ld_sub_request :: "sub_request option"
  ld_ongoing_io :: bool
  ld_needs_sync :: bool
  thread_state :: thread_state
  thread_status :: int
  tosync_array :: "sub_request list"
  oldest_tosync :: timespec
  tosync_size :: nat
  ld_last_client_rc :: int
  ld_response_queue :: "resp list"
  sched_req_queue :: "nat list"
  sched_retry_queue :: "sub_request list"
  reqcs :: "nat \<Rightarrow> req_container"
  diff_below :: "timespec \<Rightarrow> timespec \<Rightarrow> timespec"

definition ext :: "call \<Rightarrow> world \<Rightarrow> reply \<times> world" where
  "ext c w =
     (let r = script w (length (trace w))
      in (r, w\<lparr>trace := trace w @ [Ext c (rp_rc r)]\<rparr>))"

definition set_op_status :: "dev_op_status \<Rightarrow> world \<Rightarrow> world" where
  "set_op_status s w = w\<lparr>ld_op_status := s, trace := trace w @ [OpStatus s]\<rparr>"

text \<open>GNU \<open>a ? : b\<close>.\<close>

definition elvis :: "int \<Rightarrow> int \<Rightarrow> int" where
  "elvis a b = (if a \<noteq> 0 then a else b)"

definition EINVAL :: int where "EINVAL = 22"
definition EBUSY :: int where "EBUSY = 16"
definition ENOSPC :: int where "ENOSPC = 28"
definition ENOMEM :: int where "ENOMEM = 12"

section \<open>Time\<close>

text \<open>
  Modelled from the spec: \<open>add_timespec\<close>, \<open>diff_timespec\<close> and \<open>cmp_timespec\<close> are
  declared in the common header and their bodies are not among the sources. The header says:
  the sum with the nanoseconds kept below one second; \<open>a - b\<close>, assuming \<open>a \<ge> b\<close>; and
  the comparison answering -1, 0 or 1. For \<open>a < b\<close> the header says nothing: what
  \<open>diff_timespec\<close> returns there is a parameter of the model, the function \<open>below\<close>,
  which the state carries in its field \<open>diff_below\<close>.
\<close>

definition NSEC_PER_SEC :: int where "NSEC_PER_SEC = 1000000000"

definition add_timespec :: "timespec \<Rightarrow> timespec \<Rightarrow> timespec" where
  "add_timespec a b =
     (let s = tv_sec a + tv_sec b; n = tv_nsec a + tv_nsec b
      in if n \<ge> NSEC_PER_SEC then \<lparr>tv_sec = s + 1, tv_nsec = n - NSEC_PER_SEC\<rparr>
         else \<lparr>tv_sec = s, tv_nsec = n\<rparr>)"

definition cmp_timespec :: "timespec \<Rightarrow> timespec \<Rightarrow> int" where
  "cmp_timespec a b =
     (if tv_sec a < tv_sec b then -1
      else if tv_sec a > tv_sec b then 1
      else if tv_nsec a < tv_nsec b then -1
      else if tv_nsec a > tv_nsec b then 1
      else 0)"

definition diff_timespec ::
    "(timespec \<Rightarrow> timespec \<Rightarrow> timespec) \<Rightarrow> timespec \<Rightarrow> timespec \<Rightarrow> timespec" where
  "diff_timespec below a b =
     (if cmp_timespec a b = -1 then below a b
      else
        (let s = tv_sec a - tv_sec b; n = tv_nsec a - tv_nsec b
         in if n < 0 then \<lparr>tv_sec = s - 1, tv_nsec = n + NSEC_PER_SEC\<rparr>
            else \<lparr>tv_sec = s, tv_nsec = n\<rparr>))"

definition MINSLEEP :: timespec where
  "MINSLEEP = \<lparr>tv_sec = 0, tv_nsec = 10000000\<rparr>"

definition is_older_or_equal :: "timespec \<Rightarrow> timespec \<Rightarrow> bool" where
  "is_older_or_equal a b =
     (if tv_sec a > tv_sec b \<or> (tv_sec a = tv_sec b \<and> tv_nsec a > tv_nsec b) then False
      else True)"

text \<open>The value of a time in nanoseconds, and the times \<open>clock_gettime\<close> and the
  configuration produce: nanoseconds within one second.\<close>

definition ts_ns :: "timespec \<Rightarrow> int" where
  "ts_ns t = tv_sec t * NSEC_PER_SEC + tv_nsec t"

definition ts_norm :: "timespec \<Rightarrow> bool" where
  "ts_norm t = (0 \<le> tv_nsec t \<and> tv_nsec t < NSEC_PER_SEC)"

definition ts_unset :: "timespec \<Rightarrow> bool" where
  "ts_unset t = (tv_sec t = 0 \<and> tv_nsec t = 0)"

text \<open>\<open>is_past\<close>: when the clock cannot be read the answer is true.\<close>

definition is_past :: "timespec \<Rightarrow> world \<Rightarrow> bool \<times> world" where
  "is_past t w =
     (let (r, w1) = ext ClockGettime w
      in if rp_rc r \<noteq> 0 then (True, w1)
         else (is_older_or_equal t (rp_now r), w1))"

text \<open>
  Modelled from the spec: \<open>thread_is_stopping\<close> and \<open>thread_is_stopped\<close> belong to the
  thread header, which is not among the sources; the thread handle has the states RUNNING,
  STOPPING and STOPPED, and the predicates test the state.
\<close>

definition thread_is_stopping :: "world \<Rightarrow> bool" where
  "thread_is_stopping w = (thread_state w = THREAD_STOPPING)"

definition thread_is_stopped :: "world \<Rightarrow> bool" where
  "thread_is_stopped w = (thread_state w = THREAD_STOPPED)"

definition thread_is_running :: "world \<Rightarrow> bool" where
  "thread_is_running w = (thread_state w = THREAD_RUNNING)"

section \<open>The sync policy and the wakeup date\<close>

text \<open>\<open>check_needs_sync\<close>. The C operators \<open>&&\<close> and \<open>||\<close> evaluate from the left and
  stop early, so the clock is read only when the list is not empty and the count threshold is
  not reached.\<close>

definition check_needs_sync :: "world \<Rightarrow> world" where
  "check_needs_sync w =
     (let len = length (tosync_array w);
          (b1, w1) =
            (if len > 0 then
               (if len \<ge> sync_nb_req w then (True, w)
                else
                  (let (p, w') = is_past (add_timespec (oldest_tosync w) (sync_time_ms w)) w
                   in if p then (True, w') else (tosync_size w \<ge> sync_wsize_kb w, w')))
             else (False, w));
          b2 = (b1 \<or> (\<not> running w1 \<and> len > 0));
          b3 = (b2 \<or> (thread_is_stopping w1 \<and> len > 0));
          b4 = (b3 \<or> ld_last_client_rc w1 \<noteq> 0)
      in w1\<lparr>ld_needs_sync := b4\<rparr>)"

text \<open>\<open>compute_wakeup_date\<close>: \<open>Inl\<close> is the error code of a clock that cannot be read
  (the scripted code stands for \<open>-errno\<close>), \<open>Inr\<close> the date.\<close>

definition compute_wakeup_date :: "world \<Rightarrow> (int + timespec) \<times> world" where
  "compute_wakeup_date w =
     (let (r, w1) = ext ClockGettime w
      in if rp_rc r \<noteq> 0 then (Inl (rp_rc r), w1)
         else
           (let now = rp_now r
            in if tv_sec (oldest_tosync w1) = 0 \<and> tv_nsec (oldest_tosync w1) = 0
               then (Inr (add_timespec now (sync_time_ms w1)), w1)
               else
                 (let date = add_timespec (oldest_tosync w1) (sync_time_ms w1);
                      diff = diff_timespec (diff_below w1) date now
                  in if cmp_timespec diff MINSLEEP = -1
                     then (Inr (add_timespec MINSLEEP now), w1)
                     else (Inr date, w1))))"

text \<open>\<open>dev_wait_for_signal\<close>; the timed wait on the condition variable is external, and its
  argument is the date.\<close>

definition dev_wait_for_signal :: "world \<Rightarrow> int \<times> world" where
  "dev_wait_for_signal w =
     (case compute_wakeup_date w of
        (Inl rc, w1) \<Rightarrow> (rc, w1)
      | (Inr date, w1) \<Rightarrow> (let (r, w2) = ext (ThreadSignalTimedWait date) w1 in (rp_rc r, w2)))"

section \<open>Responses and the pending-sync list\<close>

text \<open>
  Modelled from the spec: \<open>sched_req_free\<close> and \<open>queue_error_response\<close> belong to the
  scheduler, which is not among the sources. Freeing a container is recorded as an external
  call (the container stays in the store); queuing an error response allocates the response,
  which can fail, and on success pushes an error response carrying the code for the request.
\<close>

definition sched_req_free :: "nat option \<Rightarrow> world \<Rightarrow> world" where
  "sched_req_free r w = snd (ext (SchedReqFree r) w)"

text \<open>\<open>sub_request_free\<close>; the argument is the parent pointer the sub-request holds when
  it is freed (\<open>None\<close> where the source has set it to NULL before).\<close>

definition sub_request_free :: "nat option \<Rightarrow> world \<Rightarrow> world" where
  "sub_request_free r w = sched_req_free r w"

definition queue_error_response :: "int \<Rightarrow> nat \<Rightarrow> world \<Rightarrow> int \<times> world" where
  "queue_error_response rc rid w =
     (let (r, w1) = ext (QueueErrorResponse rid rc) w
      in if rp_rc r \<noteq> 0 then (rp_rc r, w1)
         else (0, w1\<lparr>ld_response_queue := ld_response_queue w1 @ [RespError rid rc]\<rparr>))"

text \<open>\<open>queue_release_response\<close>: the allocations and the copies of the medium names are
  one step that can fail; its failure is answered by an error response.\<close>

definition queue_release_response :: "nat \<Rightarrow> world \<Rightarrow> int \<times> world" where
  "queue_release_response rid w =
     (let (r, w1) = ext (AllocResponse rid) w
      in if rp_rc r \<noteq> 0 then queue_error_response (rp_rc r) rid w1
         else
           (0, w1\<lparr>ld_response_queue :=
                    ld_response_queue w1
                      @ [RespRelease rid (map tm_name (rq_tosync_media (reqcs w1 rid)))]\<rparr>))"

fun tosync_ended_from :: "tosync_medium list \<Rightarrow> bool" where
  "tosync_ended_from [] = True"
| "tosync_ended_from (m # ms) =
     (if tm_status m = SUB_REQUEST_TODO then False else tosync_ended_from ms)"

definition is_request_tosync_ended :: "req_container \<Rightarrow> bool" where
  "is_request_tosync_ended req = tosync_ended_from (rq_tosync_media req)"

text \<open>The write \<open>tosync_media[medium_index].status = st\<close>. The index of a queued
  sub-request is within the array; outside it the source writes out of bounds and the model
  leaves the array as it is.\<close>

definition set_tosync_status :: "nat \<Rightarrow> sub_request_status \<Rightarrow> req_container \<Rightarrow> req_container" where
  "set_tosync_status i st rq =
     (if i < length (rq_tosync_media rq)
      then rq\<lparr>rq_tosync_media := (rq_tosync_media rq)[i := (rq_tosync_media rq ! i)\<lparr>tm_status := st\<rparr>]\<rparr>
      else rq)"

text \<open>The body of the loop of \<open>clean_tosync_array\<close>, for the entry \<open>req\<close> just removed
  from the end of the array.\<close>

definition clean_tosync_body :: "int \<Rightarrow> sub_request \<Rightarrow> int \<Rightarrow> world \<Rightarrow> int \<times> world" where
  "clean_tosync_body rc req internal_rc w =
     (let rid = sr_reqc req;
          rq = reqcs w rid;
          (should_send_error, rq1) =
            (if rc = 0 then (False, set_tosync_status (sr_medium_index req) SUB_REQUEST_DONE rq)
             else
               (let (sse, rq') =
                      (if rq_release_rc rq = 0 then (True, rq\<lparr>rq_release_rc := rc\<rparr>)
                       else (False, rq))
                in (sse, set_tosync_status (sr_medium_index req) SUB_REQUEST_ERROR rq')));
          is_tosync_ended = is_request_tosync_ended rq1;
          w1 = w\<lparr>reqcs := (reqcs w)(rid := rq1)\<rparr>;
          (irc1, w2) =
            (if should_send_error then
               (let (rc2, w') = queue_error_response rc rid w1
                in (if rc2 \<noteq> 0 then elvis internal_rc rc2 else internal_rc, w'))
             else (internal_rc, w1));
          (irc2, reqc_ptr, w3) =
            (if is_tosync_ended then
               (if rq_release_rc (reqcs w2 rid) = 0 then
                  (let (rc2, w') = queue_release_response rid w2
                   in (if rc2 \<noteq> 0 then elvis irc1 rc2 else irc1, Some rid, w'))
                else (irc1, Some rid, w2))
             else (irc1, None, w2))
      in (irc2, sub_request_free reqc_ptr w3))"

function clean_tosync_while :: "int \<Rightarrow> int \<Rightarrow> world \<Rightarrow> int \<times> world" where
  "clean_tosync_while rc internal_rc w =
     (if tosync_array w = [] then (internal_rc, w)
      else
        (let req = last (tosync_array w);
             (irc, w1) =
               clean_tosync_body rc req internal_rc (w\<lparr>tosync_array := butlast (tosync_array w)\<rparr>)
         in clean_tosync_while rc irc w1))"
  by pat_completeness auto
termination
proof (relation "measure (\<lambda>(rc, irc, w). length (tosync_array w))")
  show "wf (measure (\<lambda>(rc, irc, w). length (tosync_array w)))" by simp
next
  fix rc internal_rc :: int and w :: world and req x irc w1
  assume ne: "tosync_array w \<noteq> []" and req: "req = last (tosync_array w)"
    and x: "x = clean_tosync_body rc req internal_rc (w\<lparr>tosync_array := butlast (tosync_array w)\<rparr>)"
    and p: "(irc, w1) = x"
  have "tosync_array (snd (clean_tosync_body rc req internal_rc w')) = tosync_array w'" for w'
    by (simp add: clean_tosync_body_def queue_error_response_def queue_release_response_def
          sub_request_free_def sched_req_free_def ext_def Let_def split_def)
  note frame = this [of "w\<lparr>tosync_array := butlast (tosync_array w)\<rparr>"]
  have "w1 = snd x" using p [symmetric] by simp
  then have "tosync_array w1 = butlast (tosync_array w)"
    using frame x by simp
  then show "((rc, irc, w1), rc, internal_rc, w) \<in> measure (\<lambda>(rc, irc, w). length (tosync_array w))"
    using ne by simp
qed

declare clean_tosync_while.simps [simp del]

definition clean_tosync_array :: "int \<Rightarrow> world \<Rightarrow> int \<times> world" where
  "clean_tosync_array rc w =
     (let (internal_rc, w1) = clean_tosync_while rc 0 w
      in (internal_rc,
          w1\<lparr>tosync_size := 0, oldest_tosync := \<lparr>tv_sec = 0, tv_nsec = 0\<rparr>,
             ld_needs_sync := False\<rparr>))"

text \<open>Counting, in a history, the calls that queue an error response for the request
  \<open>rid\<close>, and in a response queue the error responses for it.\<close>

fun is_error_call :: "nat \<Rightarrow> event \<Rightarrow> bool" where
  "is_error_call rid (Ext (QueueErrorResponse r c) x) = (r = rid)"
| "is_error_call rid _ = False"

definition error_calls :: "nat \<Rightarrow> event list \<Rightarrow> nat" where
  "error_calls rid tr = length (filter (is_error_call rid) tr)"

fun is_error_resp :: "nat \<Rightarrow> resp \<Rightarrow> bool" where
  "is_error_resp rid (RespError r c) = (r = rid)"
| "is_error_resp rid _ = False"

definition error_resps :: "nat \<Rightarrow> resp list \<Rightarrow> nat" where
  "error_resps rid q = length (filter (is_error_resp rid) q)"

section \<open>Sync of the medium and update of its statistics\<close>

definition EFAULT :: int where "EFAULT = 14"

text \<open>
  The operations on the loaded medium dereference \<open>ld_dss_media_info\<close>. The worker calls
  them on a device that holds a medium; with a NULL pointer the source has no defined
  behaviour, and the model answers \<open>-EFAULT\<close> and leaves the state as it is.
\<close>

definition with_medium :: "world \<Rightarrow> (media_info \<Rightarrow> int \<times> world) \<Rightarrow> int \<times> world" where
  "with_medium w f = (case ld_dss_media_info w of None \<Rightarrow> (- EFAULT, w) | Some m \<Rightarrow> f m)"

definition medium_sync :: "world \<Rightarrow> int \<times> world" where
  "medium_sync w =
     (let (r, w1) = ext GetIoAdapter w
      in if rp_rc r \<noteq> 0 then (rp_rc r, w1)
         else (let (r2, w2) = ext IoaMediumSync w1 in (rp_rc r2, w2)))"

text \<open>\<open>lrs_dev_media_update\<close> on the medium \<open>m\<close>: the code, the medium as updated in memory,
  and the state after the external calls. The mask given to \<open>dss_media_set\<close> is in the
  recorded call.\<close>

definition lrs_dev_media_update ::
    "media_info \<Rightarrow> nat \<Rightarrow> int \<Rightarrow> int \<Rightarrow> world \<Rightarrow> int \<times> media_info \<times> world" where
  "lrs_dev_media_update m size_written media_rc nb_new_obj w =
     (let (m1, fields1) =
            (if mi_fs_status m = PHO_FS_STATUS_EMPTY \<and> media_rc = 0
             then (m\<lparr>mi_fs_status := PHO_FS_STATUS_USED\<rparr>, {FS_STATUS})
             else (m, {}));
          (r, w1) = ext GetFsAdapter w;
          (rc1, m2, fields2, w2) =
            (if rp_rc r \<noteq> 0 then
               (elvis 0 (rp_rc r), m1\<lparr>mi_adm_status := PHO_RSC_ADM_ST_FAILED\<rparr>,
                insert ADM_STATUS fields1, w1)
             else
               (let (r2, w') = ext LdmFsDf w1
                in if rp_rc r2 \<noteq> 0 then
                     (elvis 0 (rp_rc r2), m1\<lparr>mi_adm_status := PHO_RSC_ADM_ST_FAILED\<rparr>,
                      insert ADM_STATUS fields1, w')
                   else
                     (let m' = m1\<lparr>mi_phys_spc_used := spc_used (rp_space r2),
                                   mi_phys_spc_free := spc_avail (rp_space r2)\<rparr>;
                          f' = insert PHYS_SPC_USED (insert PHYS_SPC_FREE fields1)
                      in if mi_phys_spc_free m' = 0
                         then (0, m'\<lparr>mi_fs_status := PHO_FS_STATUS_FULL\<rparr>, insert FS_STATUS f', w')
                         else (0, m', f', w'))));
          (m3, fields3) =
            (if media_rc \<noteq> 0
             then (m2\<lparr>mi_adm_status := PHO_RSC_ADM_ST_FAILED\<rparr>, insert ADM_STATUS fields2)
             else
               (let (m', f') =
                      (if nb_new_obj \<noteq> 0
                       then (m2\<lparr>mi_nb_obj := nb_new_obj\<rparr>, insert NB_OBJ_ADD fields2)
                       else (m2, fields2))
                in if size_written \<noteq> 0
                   then (m'\<lparr>mi_logc_spc_used := size_written\<rparr>, insert LOGC_SPC_USED_ADD f')
                   else (m', f')));
          (r3, w3) = ext (DssMediaSet m3 fields3) w2;
          rc = (if rp_rc r3 \<noteq> 0 then elvis rc1 (rp_rc r3) else rc1)
      in (rc, m3, w3))"

definition dev_sync :: "world \<Rightarrow> int \<times> world" where
  "dev_sync w =
     with_medium w (\<lambda>m.
       let (rc, w1) =
             (if ld_last_client_rc w = 0 then medium_sync w else (ld_last_client_rc w, w));
           (rc2, m', w2) =
             lrs_dev_media_update m (tosync_size w1) rc (int (length (tosync_array w1))) w1;
           w3 = w2\<lparr>ld_dss_media_info := Some m', ld_last_client_rc := 0\<rparr>;
           rc = (if rc2 \<noteq> 0 then elvis rc rc2 else rc);
           (rc3, w4) = clean_tosync_array rc w3;
           rc = (if rc3 \<noteq> 0 then elvis rc rc3 else rc)
       in (rc, w4))"

section \<open>The operations of the device state machine\<close>

text \<open>\<open>dss_medium_release\<close> and \<open>dss_device_release\<close>: the unlock in the DSS is external;
  cleaning the lock structure in memory is not modelled.\<close>

definition dss_medium_release :: "media_info \<Rightarrow> world \<Rightarrow> int \<times> world" where
  "dss_medium_release medium w =
     (let (r, w1) = ext (DssUnlock DSS_MEDIA (mi_name medium)) w in (rp_rc r, w1))"

definition dss_device_release :: "dev_info \<Rightarrow> world \<Rightarrow> int \<times> world" where
  "dss_device_release dev w =
     (let (r, w1) = ext (DssUnlock DSS_DEVICE (di_name dev)) w in (rp_rc r, w1))"

text \<open>\<open>wrap_lib_open\<close>. When the library device is missing from the configuration the
  source returns the code of the adapter lookup, which is 0 there. The operation log is not
  modelled.\<close>

definition wrap_lib_open :: "rsc_family \<Rightarrow> world \<Rightarrow> int \<times> world" where
  "wrap_lib_open dev_type w =
     (if dev_type \<noteq> PHO_RSC_TAPE \<and> dev_type \<noteq> PHO_RSC_RADOS_POOL
      then (let (r, w1) = ext GetLibAdapter w in (rp_rc r, w1))
      else
        (let (r, w1) = ext GetLibAdapter w
         in if rp_rc r \<noteq> 0 then (rp_rc r, w1)
            else
              (let (r2, w2) = ext CfgLibDevice w1
               in if rp_rc r2 \<noteq> 0 then (rp_rc r, w2)
                  else (let (r3, w3) = ext LdmLibOpen w2 in (rp_rc r3, w3)))))"

text \<open>\<open>dev_umount\<close>.\<close>

definition dev_umount :: "world \<Rightarrow> int \<times> world" where
  "dev_umount w =
     with_medium w (\<lambda>m.
       let (r, w1) = ext GetFsAdapter w
       in if rp_rc r \<noteq> 0 then (rp_rc r, set_op_status PHO_DEV_OP_ST_FAILED w1)
          else
            (let (r2, w2) = ext LdmFsUmount w1;
                 rc = rp_rc r2;
                 (rc2, w3) = clean_tosync_array rc w2
             in if rc \<noteq> 0 then (rc, set_op_status PHO_DEV_OP_ST_FAILED w3)
                else
                  (let w4 = (set_op_status PHO_DEV_OP_ST_LOADED w3)\<lparr>ld_mnt_path := []\<rparr>
                   in if rc2 \<noteq> 0 then (rc2, set_op_status PHO_DEV_OP_ST_FAILED w4)
                      else (0, w4))))"

text \<open>\<open>dev_unload\<close>. The medium is moved to a slot the library chooses.\<close>

definition dev_unload :: "world \<Rightarrow> int \<times> world" where
  "dev_unload w =
     with_medium w (\<lambda>m.
       let (rc0, w1) = wrap_lib_open (di_family (ld_dss_dev_info w)) w
       in if rc0 \<noteq> 0 then (rc0, set_op_status PHO_DEV_OP_ST_FAILED w1)
          else
            (let (r, w2) = ext (LdmLibMediaMove (ld_lib_dev_addr w1) MED_LOC_UNKNOWN) w1;
                 rc = rp_rc r;
                 (medium_to_unlock_free, w3) =
                   (if rc \<noteq> 0 then (None, w2)
                    else (Some m,
                          (set_op_status PHO_DEV_OP_ST_EMPTY w2)\<lparr>ld_dss_media_info := None\<rparr>));
                 (r2, w4) = ext LdmLibClose w3;
                 rc = (if rp_rc r2 \<noteq> 0 then elvis rc (rp_rc r2) else rc)
             in if rc = 0 then
                  (case medium_to_unlock_free of
                     Some mu \<Rightarrow> dss_medium_release mu w4
                   | None \<Rightarrow> (- EFAULT, w4))
                else (rc, set_op_status PHO_DEV_OP_ST_FAILED w4)))"

text \<open>\<open>dev_empty\<close>.\<close>

definition dev_empty :: "world \<Rightarrow> int \<times> world" where
  "dev_empty w =
     (if ld_op_status w = PHO_DEV_OP_ST_EMPTY then (0, w)
      else
        (let (rc, w1) =
               (if ld_op_status w = PHO_DEV_OP_ST_MOUNTED then dev_umount w else (0, w))
         in if rc \<noteq> 0 then (rc, w1)
            else if ld_op_status w1 = PHO_DEV_OP_ST_LOADED then dev_unload w1
            else (- EINVAL, w1)))"

text \<open>\<open>dss_set_medium_to_failed\<close> and \<open>fail_release_free_medium\<close>. The medium is
  passed by value; the result is what the pointer of the caller holds afterwards (\<open>None\<close>
  when the medium is freed).\<close>

definition dss_set_medium_to_failed :: "media_info \<Rightarrow> world \<Rightarrow> int \<times> media_info \<times> world" where
  "dss_set_medium_to_failed media_info w =
     (let m1 = media_info\<lparr>mi_adm_status := PHO_RSC_ADM_ST_FAILED\<rparr>;
          (r, w1) = ext (DssMediaSet m1 {ADM_STATUS}) w
      in (rp_rc r, m1, w1))"

definition fail_release_free_medium ::
    "media_info \<Rightarrow> bool \<Rightarrow> world \<Rightarrow> media_info option \<times> world" where
  "fail_release_free_medium medium free_medium w =
     (let (rc, m1, w1) = dss_set_medium_to_failed medium w;
          w2 = (if rc \<noteq> 0 then w1 else snd (dss_medium_release m1 w1))
      in (if free_medium then None else Some m1, w2))"

text \<open>What \<open>dev_load\<close> gives back: its code, the three output flags, and what the medium
  pointer of the caller holds afterwards.\<close>

record load_out =
  lo_rc :: int
  lo_failure_on_dev :: bool
  lo_failure_on_medium :: bool
  lo_can_retry :: bool
  lo_medium :: "media_info option"

text \<open>The label \<open>out_close\<close> of \<open>dev_load\<close>.\<close>

definition dev_load_close :: "load_out \<Rightarrow> world \<Rightarrow> load_out \<times> world" where
  "dev_load_close lo w =
     (let (r, w1) = ext LdmLibClose w
      in if rp_rc r \<noteq> 0
         then (lo\<lparr>lo_failure_on_dev := True, lo_rc := elvis (lo_rc lo) (rp_rc r)\<rparr>,
               set_op_status PHO_DEV_OP_ST_FAILED w1)
         else (lo, w1))"

definition dev_load :: "media_info \<Rightarrow> bool \<Rightarrow> bool \<Rightarrow> world \<Rightarrow> load_out \<times> world" where
  "dev_load medium release_medium_on_dev_only_failure free_medium w =
     (let (rc0, w1) = wrap_lib_open (di_family (ld_dss_dev_info w)) w
      in if rc0 \<noteq> 0 then
           (let w2 = set_op_status PHO_DEV_OP_ST_FAILED w1;
                w3 = (if release_medium_on_dev_only_failure
                      then snd (dss_medium_release medium w2) else w2)
            in (\<lparr>lo_rc = rc0, lo_failure_on_dev = True, lo_failure_on_medium = False,
                 lo_can_retry = False, lo_medium = Some medium\<rparr>, w3))
         else
           (let (r, w2) = ext (LdmLibMediaLookup (mi_name medium)) w1
            in if rp_rc r \<noteq> 0 then
                 (let (mo, w3) = fail_release_free_medium medium free_medium w2
                  in dev_load_close
                       \<lparr>lo_rc = rp_rc r, lo_failure_on_dev = False, lo_failure_on_medium = True,
                        lo_can_retry = False, lo_medium = mo\<rparr> w3)
               else
                 (let medium_addr = rp_addr r;
                      (r2, w3) = ext (LdmLibMediaMove medium_addr (ld_lib_dev_addr w2)) w2;
                      rc = rp_rc r2
                  in if rc = - EINVAL \<and> medium_addr = MED_LOC_DRIVE
                        \<and> ld_lib_dev_addr w3 = MED_LOC_DRIVE then
                       dev_load_close
                         \<lparr>lo_rc = - EBUSY, lo_failure_on_dev = False,
                          lo_failure_on_medium = False, lo_can_retry = True,
                          lo_medium = Some medium\<rparr> w3
                     else if rc \<noteq> 0 then
                       (let w4 = set_op_status PHO_DEV_OP_ST_FAILED w3;
                            (mo, w5) = fail_release_free_medium medium free_medium w4
                        in dev_load_close
                             \<lparr>lo_rc = rc, lo_failure_on_dev = True, lo_failure_on_medium = True,
                              lo_can_retry = False, lo_medium = mo\<rparr> w5)
                     else
                       (let w4 = (set_op_status PHO_DEV_OP_ST_LOADED w3)
                                   \<lparr>ld_dss_media_info := Some medium\<rparr>
                        in dev_load_close
                             \<lparr>lo_rc = 0, lo_failure_on_dev = False,
                              lo_failure_on_medium = False, lo_can_retry = False,
                              lo_medium = (if free_medium then None else Some medium)\<rparr> w4))))"

text \<open>\<open>dev_mount\<close>. A failing \<open>Basename\<close> or \<open>MountPoint\<close> stands for a NULL result.\<close>

definition dev_mount :: "world \<Rightarrow> int \<times> world" where
  "dev_mount w =
     with_medium w (\<lambda>m.
       let (r, w1) = ext GetFsAdapter w
       in if rp_rc r \<noteq> 0 then (rp_rc r, w1)
          else
            (let (r2, w2) = ext LdmFsMounted w1
             in if rp_rc r2 = 0
                then (0, (set_op_status PHO_DEV_OP_ST_MOUNTED (w2\<lparr>ld_mnt_path := rp_path r2\<rparr>)))
                else
                  (let (r3, w3) = ext Basename w2
                   in if rp_rc r3 \<noteq> 0 then (- EINVAL, w3)
                      else
                        (let (r4, w4) = ext MountPoint w3
                         in if rp_rc r4 \<noteq> 0 then (- ENOMEM, w4)
                            else
                              (let (r5, w5) = ext LdmFsMount w4
                               in if rp_rc r5 \<noteq> 0 then (rp_rc r5, w5)
                                  else (0, (set_op_status PHO_DEV_OP_ST_MOUNTED w5)
                                             \<lparr>ld_mnt_path := rp_path r4\<rparr>))))))"

text \<open>\<open>dev_mount_is_writable\<close>. The two error returns give a non-zero code where a
  \<open>bool\<close> is expected, which reads as true.\<close>

definition dev_mount_is_writable :: "world \<Rightarrow> bool \<times> world" where
  "dev_mount_is_writable w =
     (let (r, w1) = ext GetFsAdapter w
      in if rp_rc r \<noteq> 0 then (True, w1)
         else
           (let (r2, w2) = ext LdmFsDf w1
            in if rp_rc r2 \<noteq> 0 then (True, w2)
               else (\<not> spc_readonly (rp_space r2), w2)))"

section \<open>Handling a format sub-request\<close>

text \<open>\<open>dev_format\<close>. The medium name is taken to fit the label.\<close>

definition dev_format :: "bool \<Rightarrow> world \<Rightarrow> int \<times> world" where
  "dev_format unlock w =
     with_medium w (\<lambda>medium.
       let (r, w1) = ext LdmFsFormat w
       in if rp_rc r \<noteq> 0 then (rp_rc r, w1)
          else
            (let space = rp_space r;
                 m1 = medium\<lparr>mi_fs_label := mi_name medium, mi_nb_obj := 0, mi_logc_spc_used := 0,
                             mi_phys_spc_used := spc_used space, mi_phys_spc_free := spc_avail space,
                             mi_fs_status := PHO_FS_STATUS_EMPTY\<rparr>;
                 fields = {FS_LABEL, NB_OBJ, LOGC_SPC_USED, PHYS_SPC_USED, PHYS_SPC_FREE, FS_STATUS};
                 (m2, fields2) =
                   (if unlock
                    then (m1\<lparr>mi_adm_status := PHO_RSC_ADM_ST_UNLOCKED\<rparr>, insert ADM_STATUS fields)
                    else (m1, fields));
                 w2 = w1\<lparr>ld_dss_media_info := Some m2\<rparr>;
                 (r2, w3) = ext (DssMediaSet m2 fields2) w2
             in (rp_rc r2, w3)))"

definition queue_format_response :: "nat \<Rightarrow> world \<Rightarrow> int \<times> world" where
  "queue_format_response rid w =
     (let (r, w1) = ext (AllocResponse rid) w
      in if rp_rc r \<noteq> 0 then queue_error_response (rp_rc r) rid w1
         else (0, w1\<lparr>ld_response_queue := ld_response_queue w1 @ [RespFormat rid]\<rparr>))"

text \<open>
  The label \<open>out\<close> of \<open>dev_handle_format\<close>: the sub-request slot is cleared, the medium
  leaves the set of ongoing formats (scheduler code, recorded as an external call), and the
  sub-request is freed with the parent pointer it still holds. Freeing the medium structure
  is a matter of memory only and is not modelled.
\<close>

definition format_out :: "int \<Rightarrow> nat option \<Rightarrow> media_info \<Rightarrow> world \<Rightarrow> int \<times> world" where
  "format_out rc reqc_ptr medium_to_format w =
     (let w1 = w\<lparr>ld_sub_request := None\<rparr>;
          w2 = snd (ext (FormatMediumRemove (Some (mi_name medium_to_format))) w1)
      in (rc, sub_request_free reqc_ptr w2))"

text \<open>The label \<open>out_response\<close>.\<close>

definition format_out_response :: "int \<Rightarrow> nat \<Rightarrow> media_info \<Rightarrow> world \<Rightarrow> int \<times> world" where
  "format_out_response rc rid medium_to_format w =
     (if rc \<noteq> 0 then
        (let (rc2, w1) = queue_error_response rc rid w
         in format_out rc (Some rid) medium_to_format w1)
      else
        (let (rc1, w1) = queue_format_response rid w
         in format_out rc1 (Some rid) medium_to_format w1))"

text \<open>\<open>dev_handle_format\<close>. The worker calls it with a pending sub-request whose request
  holds the medium to format; without them the source dereferences NULL.\<close>

definition dev_handle_format :: "world \<Rightarrow> int \<times> world" where
  "dev_handle_format w =
     (case ld_sub_request w of
        None \<Rightarrow> (- EFAULT, w)
      | Some subreq \<Rightarrow>
          (let rid = sr_reqc subreq
           in case rq_medium_to_format (reqcs w rid) of
                None \<Rightarrow> (- EFAULT, w)
              | Some medium_to_format \<Rightarrow>
                  if ld_op_status w = PHO_DEV_OP_ST_LOADED
                     \<and> map_option mi_name (ld_dss_media_info w) = Some (mi_name medium_to_format)
                  then
                    (let (rc, w1) = dev_format (rq_format_unlock (reqcs w rid)) w
                     in format_out_response rc rid medium_to_format w1)
                  else
                    (let (rc, w1) = dev_empty w
                     in if rc \<noteq> 0 then
                          format_out rc None medium_to_format
                            (w1\<lparr>sched_req_queue := sched_req_queue w1 @ [rid]\<rparr>)
                        else
                          (let (lo, w2) = dev_load medium_to_format True False w1;
                               w3 = w2\<lparr>ld_sub_request :=
                                         Some (subreq\<lparr>sr_failure_on_medium :=
                                                         lo_failure_on_medium lo\<rparr>)\<rparr>
                           in if lo_rc lo = - EBUSY \<and> lo_can_retry lo then (0, w3)
                              else
                                (let w4 = w3\<lparr>reqcs := (reqcs w3)
                                            (rid := (reqcs w3 rid)\<lparr>rq_medium_to_format := None\<rparr>)\<rparr>
                                 in if lo_rc lo \<noteq> 0 then
                                      (if lo_failure_on_dev lo
                                       then format_out_response (lo_rc lo) rid medium_to_format w4
                                       else
                                         (let (rc1, w5) = queue_error_response (lo_rc lo) rid w4
                                          in format_out rc1 (Some rid) medium_to_format w5))
                                    else
                                      (let (rc1, w5) =
                                             dev_format (rq_format_unlock (reqcs w4 rid)) w4
                                       in format_out_response rc1 rid medium_to_format w5))))))"

section \<open>Handling a read or write allocation sub-request\<close>

text \<open>
  Modelled from the spec: \<open>is_rwalloc_ended\<close> and \<open>rwalloc_cancel_DONE_devices\<close> belong to
  the scheduler, which is not among the sources. A parent is complete when every sub-request
  has a terminal status (DONE, ERROR or CANCEL); cancelling the siblings that are DONE acts on
  other devices and is recorded as an external call.
\<close>

definition is_rwalloc_ended :: "req_container \<Rightarrow> bool" where
  "is_rwalloc_ended reqc = list_all (\<lambda>m. rm_status m \<noteq> SUB_REQUEST_TODO) (rq_rwalloc_media reqc)"

text \<open>Reading and writing \<open>media[medium_index]\<close>. The index of a dispatched sub-request is
  within the array; outside it the model reads no medium and writes nothing.\<close>

definition alloc_medium_at :: "nat \<Rightarrow> req_container \<Rightarrow> media_info option" where
  "alloc_medium_at i reqc =
     (if i < length (rq_rwalloc_media reqc) then rm_alloc_medium (rq_rwalloc_media reqc ! i)
      else None)"

definition upd_rwalloc_medium ::
    "nat \<Rightarrow> (rwalloc_medium \<Rightarrow> rwalloc_medium) \<Rightarrow> req_container \<Rightarrow> req_container" where
  "upd_rwalloc_medium i f reqc =
     (if i < length (rq_rwalloc_media reqc)
      then reqc\<lparr>rq_rwalloc_media := (rq_rwalloc_media reqc)[i := f (rq_rwalloc_media reqc ! i)]\<rparr>
      else reqc)"

definition upd_reqc :: "nat \<Rightarrow> (req_container \<Rightarrow> req_container) \<Rightarrow> world \<Rightarrow> world" where
  "upd_reqc rid f w = w\<lparr>reqcs := (reqcs w)(rid := f (reqcs w rid))\<rparr>"

text \<open>\<open>locked_cancel_rwalloc_on_error\<close>: whether the sub-request is cancelled, and
  \<open>*ended\<close>.\<close>

definition locked_cancel_rwalloc_on_error :: "sub_request \<Rightarrow> world \<Rightarrow> (bool \<times> bool) \<times> world" where
  "locked_cancel_rwalloc_on_error sub_request w =
     (let rid = sr_reqc sub_request
      in if rq_rwalloc_rc (reqcs w rid) = 0 then ((False, False), w)
         else
           (let w1 = upd_reqc rid
                       (upd_rwalloc_medium (sr_medium_index sub_request)
                          (\<lambda>m. m\<lparr>rm_status := SUB_REQUEST_CANCEL, rm_alloc_medium := None\<rparr>)) w
            in ((True, is_rwalloc_ended (reqcs w1 rid)), w1)))"

text \<open>\<open>cancel_subrequest_on_error\<close>: whether the sub-request is cancelled, and the parent
  pointer it holds afterwards.\<close>

definition cancel_subrequest_on_error :: "sub_request \<Rightarrow> world \<Rightarrow> (bool \<times> nat option) \<times> world" where
  "cancel_subrequest_on_error sub_request w =
     (let rid = sr_reqc sub_request
      in if rq_kind (reqcs w rid) = REQ_FORMAT then ((False, Some rid), w)
         else
           (let ((canceled, ended), w1) = locked_cancel_rwalloc_on_error sub_request w
            in if canceled
               then ((True, None), if ended then sched_req_free (Some rid) w1 else w1)
               else ((False, Some rid), w1)))"

text \<open>\<open>fill_rwalloc_resp_container\<close>: the copies of the root path and of the medium name
  are one step that can fail; the content of the response is not modelled.\<close>

definition fill_rwalloc_resp_container :: "sub_request \<Rightarrow> world \<Rightarrow> int \<times> world" where
  "fill_rwalloc_resp_container sub_request w =
     with_medium w (\<lambda>m.
       let (r, w1) = ext (FillRwallocResp (sr_reqc sub_request)) w in (rp_rc r, w1))"

definition rwalloc_can_be_requeued :: "sub_request \<Rightarrow> world \<Rightarrow> bool" where
  "rwalloc_can_be_requeued sub_request w =
     (let reqc = reqcs w (sr_reqc sub_request)
      in if rq_kind reqc = REQ_WRITE then True
         else if \<not> sr_failure_on_medium sub_request then True
         else if rq_n_med_ids reqc > rq_n_required reqc then True
         else False)"

text \<open>What \<open>handle_rwalloc_sub_request_result\<close> gives back: its code, the two output flags,
  and the parent pointer the sub-request holds afterwards.\<close>

record rwalloc_out =
  ro_rc :: int
  ro_requeued :: bool
  ro_canceled :: bool
  ro_reqc :: "nat option"

text \<open>The labels \<open>out_free\<close> and \<open>try_send_response\<close> of
  \<open>handle_rwalloc_sub_request_result\<close>.\<close>

definition rwalloc_out_free ::
    "int \<Rightarrow> bool \<Rightarrow> bool \<Rightarrow> bool \<Rightarrow> bool \<Rightarrow> sub_request \<Rightarrow> world \<Rightarrow> rwalloc_out \<times> world" where
  "rwalloc_out_free rc requeued canceled free_medium ended sub_request w =
     (let rid = sr_reqc sub_request;
          w1 = (if free_medium
                then upd_reqc rid
                       (upd_rwalloc_medium (sr_medium_index sub_request)
                          (\<lambda>m. m\<lparr>rm_alloc_medium := None\<rparr>)) w
                else w)
      in if ended
         then (\<lparr>ro_rc = rc, ro_requeued = requeued, ro_canceled = canceled, ro_reqc = None\<rparr>,
               sched_req_free (Some rid) w1)
         else (\<lparr>ro_rc = rc, ro_requeued = requeued, ro_canceled = canceled, ro_reqc = Some rid\<rparr>,
               w1))"

definition rwalloc_try_send ::
    "int \<Rightarrow> int \<Rightarrow> sub_request \<Rightarrow> world \<Rightarrow> rwalloc_out \<times> world" where
  "rwalloc_try_send rc sub_request_rc sub_request w =
     (let rid = sr_reqc sub_request;
          ended = is_rwalloc_ended (reqcs w rid);
          w1 = (if sub_request_rc = 0 \<and> ended
                then upd_reqc rid (\<lambda>q. q\<lparr>rq_rwalloc_respc := False\<rparr>)
                       (w\<lparr>ld_response_queue := ld_response_queue w @ [RespRwalloc rid]\<rparr>)
                else w)
      in rwalloc_out_free rc False False True ended sub_request w1)"

definition handle_rwalloc_sub_request_result ::
    "sub_request \<Rightarrow> int \<Rightarrow> world \<Rightarrow> rwalloc_out \<times> world" where
  "handle_rwalloc_sub_request_result sub_request sub_request_rc w =
     (let rid = sr_reqc sub_request;
          idx = sr_medium_index sub_request;
          ((canceled, ended), w1) = locked_cancel_rwalloc_on_error sub_request w
      in if canceled then rwalloc_out_free 0 False True True ended sub_request w1
         else
           (let (go_send, src, rc, w2) =
                  (if sub_request_rc = 0 then
                     (let w' = upd_reqc rid
                                 (upd_rwalloc_medium idx (\<lambda>m. m\<lparr>rm_status := SUB_REQUEST_DONE\<rparr>)) w1;
                          (frc, w'') = fill_rwalloc_resp_container sub_request w'
                      in if frc = 0 then (True, 0, 0, w'')
                         else (False, frc, frc,
                               upd_reqc rid
                                 (upd_rwalloc_medium idx
                                    (\<lambda>m. m\<lparr>rm_status := SUB_REQUEST_TODO\<rparr>)) w''))
                   else (False, sub_request_rc, 0, w1))
            in if go_send then rwalloc_try_send 0 0 sub_request w2
               else if rwalloc_can_be_requeued sub_request w2 then
                 rwalloc_out_free rc True False (sr_failure_on_medium sub_request) False sub_request
                   (w2\<lparr>sched_retry_queue := sched_retry_queue w2 @ [sub_request]\<rparr>)
               else
                 (let w3 = upd_reqc rid
                             (\<lambda>q. upd_rwalloc_medium idx (\<lambda>m. m\<lparr>rm_status := SUB_REQUEST_ERROR\<rparr>)
                                    (q\<lparr>rq_rwalloc_rc := src\<rparr>)) w2;
                      (rc1, w4) = queue_error_response src rid w3;
                      w5 = snd (ext (RwallocCancelDoneDevices rid) w4)
                  in rwalloc_try_send rc1 src sub_request w5)))"

text \<open>The labels \<open>out_free\<close> and \<open>alloc_result\<close> of \<open>dev_handle_read_write\<close>. At
  \<open>out_free\<close> a sub-request that is not requeued is freed after its parent pointer has been
  set to NULL.\<close>

definition rw_out_free :: "int \<Rightarrow> bool \<Rightarrow> bool \<Rightarrow> bool \<Rightarrow> world \<Rightarrow> int \<times> world" where
  "rw_out_free rc failure_on_device io_ended sub_request_requeued w =
     (let w1 = (if \<not> io_ended \<and> \<not> sub_request_requeued then w\<lparr>ld_ongoing_io := True\<rparr> else w);
          w2 = w1\<lparr>ld_sub_request := None\<rparr>;
          w3 = (if \<not> sub_request_requeued then sub_request_free None w2 else w2)
      in (if \<not> failure_on_device then 0 else rc, w3))"

definition rw_alloc_result :: "int \<Rightarrow> bool \<Rightarrow> bool \<Rightarrow> sub_request \<Rightarrow> world \<Rightarrow> int \<times> world" where
  "rw_alloc_result rc failure_on_device io_ended sub_request w =
     (let (ro, w1) = handle_rwalloc_sub_request_result sub_request rc w;
          io_ended1 = (io_ended \<or> ro_canceled ro);
          (fod, rc1) =
            (if ro_rc ro \<noteq> 0 \<and> \<not> failure_on_device then (True, ro_rc ro)
             else (failure_on_device, rc))
      in rw_out_free rc1 fod io_ended1 (ro_requeued ro) w1)"

text \<open>\<open>dev_handle_read_write\<close> from the label \<open>mount\<close> on. When the update of the DSS to
  FULL fails the function returns at once, leaving the sub-request in its slot.\<close>

definition rw_mount :: "sub_request \<Rightarrow> world \<Rightarrow> int \<times> world" where
  "rw_mount sub_request w =
     (let (rc, w1) = dev_mount w
      in if rc \<noteq> 0 then
           (let w2 = set_op_status PHO_DEV_OP_ST_FAILED w1;
                sr1 = sub_request\<lparr>sr_failure_on_medium := True\<rparr>;
                w3 = (case ld_dss_media_info w2 of
                        None \<Rightarrow> w2
                      | Some m \<Rightarrow>
                          (let (mo, w') = fail_release_free_medium m True w2
                           in w'\<lparr>ld_dss_media_info := mo\<rparr>))
            in rw_alloc_result rc True True sr1 w3)
         else if rq_kind (reqcs w1 (sr_reqc sub_request)) = REQ_WRITE then
           (let (writable, w2) = dev_mount_is_writable w1
            in if \<not> writable then
                 (case ld_dss_media_info w2 of
                    None \<Rightarrow> (- EFAULT, w2)
                  | Some m \<Rightarrow>
                      (let sr1 = sub_request\<lparr>sr_failure_on_medium := True\<rparr>;
                           m1 = m\<lparr>mi_fs_status := PHO_FS_STATUS_FULL\<rparr>;
                           w3 = w2\<lparr>ld_dss_media_info := Some m1\<rparr>;
                           (r, w4) = ext (DssMediaSet m1 {FS_STATUS}) w3
                       in if rp_rc r \<noteq> 0
                          then (rp_rc r, w4\<lparr>ld_sub_request := Some sr1\<rparr>)
                          else rw_alloc_result (- ENOSPC) False True sr1 w4))
               else rw_alloc_result 0 False False sub_request w2)
         else rw_alloc_result 0 False False sub_request w1)"

definition dev_handle_read_write :: "world \<Rightarrow> int \<times> world" where
  "dev_handle_read_write w =
     (case ld_sub_request w of
        None \<Rightarrow> (- EFAULT, w)
      | Some sub_request \<Rightarrow>
          (let rid = sr_reqc sub_request;
               idx = sr_medium_index sub_request;
               ((canceled, ptr), w0) = cancel_subrequest_on_error sub_request w
           in if canceled then rw_out_free 0 False True False w0
              else
                (case alloc_medium_at idx (reqcs w0 rid) of
                   None \<Rightarrow>
                     if ld_op_status w0 = PHO_DEV_OP_ST_MOUNTED
                     then rw_alloc_result 0 False False sub_request w0
                     else if ld_op_status w0 = PHO_DEV_OP_ST_LOADED
                     then rw_mount sub_request w0
                     else rw_alloc_result (- EINVAL) False True
                            (sub_request\<lparr>sr_failure_on_medium := True\<rparr>) w0
                 | Some medium_to_alloc \<Rightarrow>
                     (let (rc, w1) = dev_empty w0
                      in if rc \<noteq> 0 then rw_alloc_result rc True True sub_request w1
                         else
                           (let (lo, w2) = dev_load medium_to_alloc False True w1;
                                sr1 = sub_request\<lparr>sr_failure_on_medium := lo_failure_on_medium lo\<rparr>;
                                w3 = w2\<lparr>ld_sub_request := Some sr1\<rparr>
                            in if lo_rc lo = - EBUSY \<and> lo_can_retry lo then (0, w3)
                               else
                                 (let w4 = (if lo_rc lo = 0 \<or> sr_failure_on_medium sr1
                                            then upd_reqc rid
                                                   (upd_rwalloc_medium idx
                                                      (\<lambda>m. m\<lparr>rm_alloc_medium := None\<rparr>)) w3
                                            else w3)
                                  in if lo_rc lo \<noteq> 0
                                     then rw_alloc_result (lo_rc lo) (lo_failure_on_dev lo) True sr1 w4
                                     else rw_mount sr1 w4))))))"

section \<open>Scrubbing the pending-sync list\<close>

definition update_oldest_tosync :: "timespec \<Rightarrow> timespec \<Rightarrow> timespec" where
  "update_oldest_tosync oldest_to_update candidate =
     (if (tv_sec oldest_to_update = 0 \<and> tv_nsec oldest_to_update = 0)
         \<or> is_older_or_equal candidate oldest_to_update
      then candidate else oldest_to_update)"

definition update_queue_oldest_tosync :: "world \<Rightarrow> world" where
  "update_queue_oldest_tosync w =
     (if length (tosync_array w) = 0 then w\<lparr>oldest_tosync := \<lparr>tv_sec = 0, tv_nsec = 0\<rparr>\<rparr>
      else
        w\<lparr>oldest_tosync :=
             foldl (\<lambda>oldest req. update_oldest_tosync oldest (rq_received_at (reqcs w (sr_reqc req))))
               (oldest_tosync w) (tosync_array w)\<rparr>)"

text \<open>\<open>g_ptr_array_remove_index_fast\<close>: the last element takes the place of the removed
  one.\<close>

definition remove_index_fast :: "'a list \<Rightarrow> nat \<Rightarrow> 'a list" where
  "remove_index_fast xs i =
     (if i < length xs
      then (if Suc i = length xs then butlast xs else (butlast xs)[i := last xs])
      else xs)"

definition written_size_at :: "nat \<Rightarrow> req_container \<Rightarrow> nat" where
  "written_size_at i reqc =
     (if i < length (rq_tosync_media reqc) then tm_written_size (rq_tosync_media reqc ! i) else 0)"

text \<open>The loop of \<open>remove_canceled_sync\<close>, from index \<open>n - 1\<close> down to 0; the subtraction
  on \<open>size_t\<close> wraps. An entry whose request is not ended is removed without being freed.\<close>

fun remove_canceled_loop :: "nat \<Rightarrow> bool \<Rightarrow> world \<Rightarrow> bool \<times> world" where
  "remove_canceled_loop 0 need_oldest_update w = (need_oldest_update, w)"
| "remove_canceled_loop (Suc i) need_oldest_update w =
     (if i < length (tosync_array w) then
        (let req_tosync = tosync_array w ! i;
             rid = sr_reqc req_tosync
         in if rq_release_rc (reqcs w rid) \<noteq> 0 then
              (let ws = written_size_at (sr_medium_index req_tosync) (reqcs w rid);
                   w1 = w\<lparr>tosync_array := remove_index_fast (tosync_array w) i,
                          tosync_size :=
                            (tosync_size w + 2 ^ 64 - ws mod 2 ^ 64) mod 2 ^ 64\<rparr>;
                   w2 = upd_reqc rid
                          (set_tosync_status (sr_medium_index req_tosync) SUB_REQUEST_CANCEL) w1;
                   w3 = (if is_request_tosync_ended (reqcs w2 rid)
                         then sub_request_free (Some rid) w2 else w2)
               in remove_canceled_loop i True w3)
            else remove_canceled_loop i need_oldest_update w)
      else remove_canceled_loop i need_oldest_update w)"

definition remove_canceled_sync :: "world \<Rightarrow> world" where
  "remove_canceled_sync w =
     (let (need_oldest_update, w1) = remove_canceled_loop (length (tosync_array w)) False w
      in if need_oldest_update then update_queue_oldest_tosync w1 else w1)"

section \<open>The end of the device thread\<close>

text \<open>\<open>cancel_pending_format\<close>. The function reads the format parameters of the pending
  request whatever its kind.\<close>

definition cancel_pending_format :: "world \<Rightarrow> world" where
  "cancel_pending_format w =
     (case ld_sub_request w of
        None \<Rightarrow> w
      | Some subreq \<Rightarrow>
          (let rid = sr_reqc subreq
           in if thread_status w \<noteq> 0 \<and> rq_medium_to_format (reqcs w rid) = None then
                (let w1 = snd (ext (FormatMediumRemove (map_option mi_name (ld_dss_media_info w))) w);
                     (rc, w2) = queue_error_response (thread_status w1) rid w1;
                     w3 = sub_request_free (Some rid) w2
                 in w3\<lparr>ld_sub_request := None\<rparr>)
              else
                (let (rc, w1) =
                       (case rq_medium_to_format (reqcs w rid) of
                          Some medium_to_format \<Rightarrow>
                            (let wa = snd (ext (FormatMediumRemove (Some (mi_name medium_to_format))) w);
                                 (rc1, wb) = dss_medium_release medium_to_format wa;
                                 (rc2, wc) =
                                   (if rc1 \<noteq> 0 then
                                      (let (r, wd) =
                                             ext (DssMediaSet
                                                    (medium_to_format
                                                       \<lparr>mi_adm_status := PHO_RSC_ADM_ST_FAILED\<rparr>)
                                                    {ADM_STATUS}) wb
                                       in (rp_rc r, wd))
                                    else (rc1, wb))
                             in (rc2, upd_reqc rid (\<lambda>q. q\<lparr>rq_medium_to_format := None\<rparr>) wc))
                        | None \<Rightarrow>
                            (0, snd (ext (FormatMediumRemove
                                            (map_option mi_name (ld_dss_media_info w))) w)));
                     w2 = (if rc = 0
                           then w1\<lparr>sched_req_queue := sched_req_queue w1 @ [rid]\<rparr>
                           else
                             (let (rc3, we) = queue_error_response rc rid w1
                              in sub_request_free (Some rid) we))
                 in w2\<lparr>ld_sub_request := None\<rparr>)))"

definition dev_thread_end_mounted_medium :: "world \<Rightarrow> world" where
  "dev_thread_end_mounted_medium w =
     (if ld_op_status w \<noteq> PHO_DEV_OP_ST_MOUNTED then w
      else
        (let w1 = (if thread_status w = 0 then
                     (let (rc, w') = dev_umount w
                      in if rc \<noteq> 0 then w'\<lparr>thread_status := rc\<rparr> else w')
                   else w)
         in if thread_status w1 \<noteq> 0 then
              (case ld_dss_media_info w1 of
                 None \<Rightarrow> w1
               | Some m \<Rightarrow>
                   (let (mo, w2) = fail_release_free_medium m True w1
                    in w2\<lparr>ld_dss_media_info := mo\<rparr>))
            else w1))"

definition dev_thread_end_loaded_medium :: "world \<Rightarrow> world" where
  "dev_thread_end_loaded_medium w =
     (if ld_op_status w \<noteq> PHO_DEV_OP_ST_LOADED then w
      else
        (let w1 = (if thread_status w = 0 then
                     (case ld_dss_media_info w of
                        None \<Rightarrow> w
                      | Some m \<Rightarrow>
                          (let (rc, w') = dss_medium_release m w
                           in if rc \<noteq> 0 then w'\<lparr>thread_status := rc\<rparr>
                              else w'\<lparr>ld_dss_media_info := None\<rparr>))
                   else w)
         in if thread_status w1 \<noteq> 0 then
              (case ld_dss_media_info w1 of
                 None \<Rightarrow> w1\<lparr>ld_dss_media_info := None\<rparr>
               | Some m \<Rightarrow>
                   (let (mo, w2) = fail_release_free_medium m True w1
                    in w2\<lparr>ld_dss_media_info := mo\<rparr>))
            else w1\<lparr>ld_dss_media_info := None\<rparr>))"

text \<open>\<open>dev_thread_end_device\<close>. The device information is set when the device is created
  and never reset, so the test of its pointer is always true.\<close>

definition dev_thread_end_device :: "world \<Rightarrow> world" where
  "dev_thread_end_device w =
     (let w1 = (if thread_status w = 0 then
                  (let (rc, w') = dss_device_release (ld_dss_dev_info w) w
                   in if rc \<noteq> 0 then w'\<lparr>thread_status := rc\<rparr> else w')
                else w);
          w2 = (if thread_status w1 \<noteq> 0 then
                  (let (rc, wa) = clean_tosync_array (thread_status w1) w1;
                       wb = set_op_status PHO_DEV_OP_ST_FAILED wa;
                       d = (ld_dss_dev_info wb)\<lparr>di_adm_status := PHO_RSC_ADM_ST_FAILED\<rparr>;
                       wc = wb\<lparr>ld_dss_dev_info := d\<rparr>;
                       (r, wd) = ext (DssDeviceUpdateAdmStatus d) wc
                   in if rp_rc r \<noteq> 0 then wd else snd (dss_device_release d wd))
                else w1)
      in w2\<lparr>ld_ongoing_io := False\<rparr>)"

definition dev_thread_end :: "world \<Rightarrow> world" where
  "dev_thread_end w =
     (let w1 = (if thread_is_running w then w\<lparr>thread_state := THREAD_STOPPING\<rparr> else w);
          w2 = cancel_pending_format w1;
          w3 = dev_thread_end_mounted_medium w2;
          w4 = dev_thread_end_loaded_medium w3
      in dev_thread_end_device w4)"

section \<open>The main loop of the device thread\<close>

text \<open>One turn of the loop of \<open>lrs_dev_thread\<close>, in two parts: up to the switch to
  STOPPED, and from the sync on. \<open>EndThread\<close> is the jump to \<open>end_thread\<close>.\<close>

datatype loop_ctl = Continue | EndThread

definition dev_thread_prologue :: "world \<Rightarrow> world" where
  "dev_thread_prologue w =
     (let w1 = (case ld_sub_request w of
                  None \<Rightarrow> w
                | Some subreq \<Rightarrow>
                    (let ((canceled, ptr), w') = cancel_subrequest_on_error subreq w
                     in if canceled then (sub_request_free ptr w')\<lparr>ld_sub_request := None\<rparr>
                        else w'));
          w2 = remove_canceled_sync w1;
          w3 = (if \<not> ld_needs_sync w2 then check_needs_sync w2 else w2)
      in if thread_is_stopping w3 \<and> \<not> ld_ongoing_io w3 \<and> ld_sub_request w3 = None
            \<and> length (tosync_array w3) = 0
         then w3\<lparr>thread_state := THREAD_STOPPED\<rparr> else w3)"

definition dev_thread_wait :: "world \<Rightarrow> loop_ctl \<times> world" where
  "dev_thread_wait w =
     (if \<not> thread_is_stopped w then
        (let (rc, w1) = dev_wait_for_signal w
         in if rc < 0 then (EndThread, w1\<lparr>thread_status := rc\<rparr>) else (Continue, w1))
      else (Continue, w))"

definition dev_thread_work :: "world \<Rightarrow> loop_ctl \<times> world" where
  "dev_thread_work w =
     (if \<not> ld_ongoing_io w then
        (let (rc, w1) = (if ld_needs_sync w then dev_sync w else (0, w))
         in if rc \<noteq> 0 then (EndThread, w1\<lparr>thread_status := rc\<rparr>)
            else
              (case ld_sub_request w1 of
                 None \<Rightarrow> dev_thread_wait w1
               | Some subreq \<Rightarrow>
                   (let kind = rq_kind (reqcs w1 (sr_reqc subreq));
                        (rc1, w2) =
                          (if kind = REQ_FORMAT then dev_handle_format w1
                           else if kind = REQ_READ \<or> kind = REQ_WRITE then dev_handle_read_write w1
                           else (- EINVAL, w1))
                    in if rc1 \<noteq> 0 then (EndThread, w2\<lparr>thread_status := rc1\<rparr>)
                       else dev_thread_wait w2)))
      else dev_thread_wait w)"

definition dev_thread_iteration :: "world \<Rightarrow> loop_ctl \<times> world" where
  "dev_thread_iteration w = dev_thread_work (dev_thread_prologue w)"

text \<open>
  Modelled from the spec: between two steps of the worker the other threads publish to the
  device under its mutex (the pending sub-request slot, the pending sync list, the stop flag),
  complete requests and consume the queues. They do not touch what the worker owns: the
  operational status, the loaded medium and its mount path, the device information, and the
  history and the script of the external calls.
\<close>

definition interfere :: "world \<Rightarrow> world \<Rightarrow> bool" where
  "interfere w w' =
     (script w' = script w \<and> trace w' = trace w \<and> ld_op_status w' = ld_op_status w
      \<and> ld_dss_media_info w' = ld_dss_media_info w \<and> ld_mnt_path w' = ld_mnt_path w
      \<and> ld_dss_dev_info w' = ld_dss_dev_info w \<and> ld_lib_dev_addr w' = ld_lib_dev_addr w)"

text \<open>The states of a run of \<open>lrs_dev_thread\<close> started in \<open>w0\<close>: at the head of the loop
  (\<open>at_head\<close>), and after \<open>dev_thread_end\<close> (\<open>ended\<close>).\<close>

inductive at_head :: "world \<Rightarrow> world \<Rightarrow> bool" for w0 :: world where
  start: "at_head w0 w0"
| others: "at_head w0 w \<Longrightarrow> interfere w w' \<Longrightarrow> at_head w0 w'"
| turn: "at_head w0 w \<Longrightarrow> \<not> thread_is_stopped w \<Longrightarrow> dev_thread_iteration w = (Continue, w')
         \<Longrightarrow> at_head w0 w'"

inductive ended :: "world \<Rightarrow> world \<Rightarrow> bool" for w0 :: world where
  stopped: "at_head w0 w \<Longrightarrow> thread_is_stopped w \<Longrightarrow> ended w0 (dev_thread_end w)"
| failed: "at_head w0 w \<Longrightarrow> \<not> thread_is_stopped w \<Longrightarrow> dev_thread_iteration w = (EndThread, w')
           \<Longrightarrow> ended w0 (dev_thread_end w')"

section \<open>Reading a history\<close>

text \<open>The external calls fall in three classes: the calls that mount, unmount or move a
  medium; the DSS calls on status and locks; and all the others (clock, adapters, library
  lookups, exchanges with the scheduler and the response queue).\<close>

definition move_call :: "call \<Rightarrow> bool" where
  "move_call c =
     (case c of
        LdmFsUmount \<Rightarrow> True | LdmFsMount \<Rightarrow> True | LdmFsMounted \<Rightarrow> True
      | LdmLibMediaMove a b \<Rightarrow> True | _ \<Rightarrow> False)"

definition lock_call :: "call \<Rightarrow> bool" where
  "lock_call c =
     (case c of
        DssMediaSet m f \<Rightarrow> True | DssDeviceUpdateAdmStatus d \<Rightarrow> True | DssUnlock t n \<Rightarrow> True
      | _ \<Rightarrow> False)"

definition aux_event :: "event \<Rightarrow> bool" where
  "aux_event e =
     (case e of Ext c rc \<Rightarrow> \<not> move_call c \<and> \<not> lock_call c | OpStatus s \<Rightarrow> False)"

definition walk_event :: "event \<Rightarrow> bool" where
  "walk_event e = (case e of Ext c rc \<Rightarrow> move_call c | OpStatus s \<Rightarrow> True)"

definition lock_event :: "event \<Rightarrow> bool" where
  "lock_event e = (case e of Ext c rc \<Rightarrow> lock_call c | OpStatus s \<Rightarrow> False)"

text \<open>A predicate on events that holds of no call of the third class.\<close>

definition quiet :: "(event \<Rightarrow> bool) \<Rightarrow> bool" where
  "quiet P = (\<forall>e. aux_event e \<longrightarrow> \<not> P e)"

text \<open>Running a monitor over a history; \<open>None\<close> is a violation.\<close>

primrec monitor :: "('s \<Rightarrow> event \<Rightarrow> 's option) \<Rightarrow> 's \<Rightarrow> event list \<Rightarrow> 's option" where
  "monitor f s [] = Some s"
| "monitor f s (e # es) = (case f s e of None \<Rightarrow> None | Some s1 \<Rightarrow> monitor f s1 es)"

text \<open>The state machine of the operational status. An edge to a status other than FAILED
  needs the call that justifies it: a media move for load and unload, a mount (or the finding
  that the filesystem is mounted) for mount, an unmount for umount.\<close>

definition edge_call :: "dev_op_status \<Rightarrow> dev_op_status \<Rightarrow> call \<Rightarrow> bool" where
  "edge_call s s1 c =
     (if s = PHO_DEV_OP_ST_EMPTY \<and> s1 = PHO_DEV_OP_ST_LOADED
        then (case c of LdmLibMediaMove a b \<Rightarrow> True | _ \<Rightarrow> False)
      else if s = PHO_DEV_OP_ST_LOADED \<and> s1 = PHO_DEV_OP_ST_MOUNTED
        then (c = LdmFsMount \<or> c = LdmFsMounted)
      else if s = PHO_DEV_OP_ST_MOUNTED \<and> s1 = PHO_DEV_OP_ST_LOADED
        then c = LdmFsUmount
      else if s = PHO_DEV_OP_ST_LOADED \<and> s1 = PHO_DEV_OP_ST_EMPTY
        then (case c of LdmLibMediaMove a b \<Rightarrow> True | _ \<Rightarrow> False)
      else False)"

text \<open>The monitor of the state machine: the current status and the last mounting or moving
  call, when it has succeeded and no status has been written since.\<close>

definition walk_step ::
    "dev_op_status \<times> call option \<Rightarrow> event \<Rightarrow> (dev_op_status \<times> call option) option" where
  "walk_step st e =
     (case e of
        Ext c rc \<Rightarrow>
          Some (fst st, if move_call c then (if rc = 0 then Some c else None) else snd st)
      | OpStatus s1 \<Rightarrow>
          (if s1 = PHO_DEV_OP_ST_FAILED then Some (PHO_DEV_OP_ST_FAILED, None)
           else
             (case snd st of
                None \<Rightarrow> None
              | Some c \<Rightarrow> if edge_call (fst st) s1 c then Some (s1, None) else None)))"

text \<open>The statuses written in a history, in order.\<close>

definition op_writes :: "event list \<Rightarrow> dev_op_status list" where
  "op_writes tr = concat (map (\<lambda>e. case e of OpStatus s \<Rightarrow> [s] | Ext c rc \<Rightarrow> []) tr)"

text \<open>The calls of the physical sync of a medium: the lookup of the I/O adapter and the
  flush.\<close>

definition sync_call :: "event \<Rightarrow> bool" where
  "sync_call e =
     (case e of Ext c rc \<Rightarrow> c = GetIoAdapter \<or> c = IoaMediumSync | OpStatus s \<Rightarrow> False)"

text \<open>The DSS calls that mark a resource FAILED and give up its lock: the update of the
  admin status, with its answer \<open>r1\<close>, followed by the unlock, with its answer \<open>r2\<close>, only
  when the update has succeeded.\<close>

definition medium_failed_events :: "media_info \<Rightarrow> int \<Rightarrow> int \<Rightarrow> event list" where
  "medium_failed_events m r1 r2 =
     Ext (DssMediaSet (m\<lparr>mi_adm_status := PHO_RSC_ADM_ST_FAILED\<rparr>) {ADM_STATUS}) r1
     # (if r1 = 0 then [Ext (DssUnlock DSS_MEDIA (mi_name m)) r2] else [])"

definition device_failed_events :: "dev_info \<Rightarrow> int \<Rightarrow> int \<Rightarrow> event list" where
  "device_failed_events d r1 r2 =
     Ext (DssDeviceUpdateAdmStatus (d\<lparr>di_adm_status := PHO_RSC_ADM_ST_FAILED\<rparr>)) r1
     # (if r1 = 0 then [Ext (DssUnlock DSS_DEVICE (di_name d)) r2] else [])"

text \<open>A history agrees with the state machine when, replayed from the status \<open>s0\<close>, it
  violates no edge and ends in the current status of the device.\<close>

definition walk_ok :: "dev_op_status \<Rightarrow> world \<Rightarrow> bool" where
  "walk_ok s0 w =
     (case monitor walk_step (s0, None) (trace w) of
        None \<Rightarrow> False
      | Some st \<Rightarrow> fst st = ld_op_status w)"



section \<open>Concrete states\<close>

text \<open>A drive \<open>st0\<close> holding the mounted medium \<open>P00001\<close>, one release request with one
  medium, and a script in which every external call succeeds at time 100 s. Out of its
  documented domain the difference of two times is taken to be zero here.\<close>

definition reply0 :: reply where
  "reply0 =
     \<lparr>rp_rc = 0, rp_now = \<lparr>tv_sec = 100, tv_nsec = 0\<rparr>,
      rp_space = \<lparr>spc_used = 10, spc_avail = 1000, spc_readonly = False\<rparr>,
      rp_addr = MED_LOC_SLOT, rp_path = ''/mnt/phobos-st0''\<rparr>"

definition medium0 :: media_info where
  "medium0 =
     \<lparr>mi_name = ''P00001'', mi_adm_status = PHO_RSC_ADM_ST_UNLOCKED,
      mi_fs_status = PHO_FS_STATUS_EMPTY, mi_fs_label = ''P00001'', mi_nb_obj = 0,
      mi_logc_spc_used = 0, mi_phys_spc_used = 10, mi_phys_spc_free = 1000\<rparr>"

definition reqc0 :: req_container where
  "reqc0 =
     \<lparr>rq_kind = REQ_RELEASE, rq_received_at = \<lparr>tv_sec = 95, tv_nsec = 0\<rparr>,
      rq_release_rc = 0,
      rq_tosync_media =
        [\<lparr>tm_status = SUB_REQUEST_TODO, tm_name = ''P00001'', tm_written_size = 7,
          tm_client_rc = 0\<rparr>],
      rq_rwalloc_rc = 0, rq_rwalloc_media = [], rq_rwalloc_respc = False,
      rq_n_med_ids = 0, rq_n_required = 0, rq_medium_to_format = None,
      rq_format_unlock = False\<rparr>"

definition world0 :: world where
  "world0 =
     \<lparr>script = (\<lambda>_. reply0), trace = [], running = True,
      sync_time_ms = \<lparr>tv_sec = 10, tv_nsec = 0\<rparr>, sync_nb_req = 5, sync_wsize_kb = 1000,
      ld_dss_dev_info =
        \<lparr>di_name = ''st0'', di_family = PHO_RSC_TAPE, di_adm_status = PHO_RSC_ADM_ST_UNLOCKED\<rparr>,
      ld_lib_dev_addr = MED_LOC_DRIVE, ld_op_status = PHO_DEV_OP_ST_MOUNTED,
      ld_dss_media_info = Some medium0, ld_mnt_path = ''/mnt/phobos-st0'',
      ld_sub_request = None, ld_ongoing_io = False, ld_needs_sync = False,
      thread_state = THREAD_RUNNING, thread_status = 0,
      tosync_array = [], oldest_tosync = \<lparr>tv_sec = 0, tv_nsec = 0\<rparr>, tosync_size = 0,
      ld_last_client_rc = 0, ld_response_queue = [], sched_req_queue = [],
      sched_retry_queue = [], reqcs = (\<lambda>_. reqc0),
      diff_below = (\<lambda>a b. \<lparr>tv_sec = 0, tv_nsec = 0\<rparr>)\<rparr>"

text \<open>The same drive with one pending release, received at 95 s.\<close>

definition world_pending :: world where
  "world_pending =
     world0\<lparr>tosync_array := [\<lparr>sr_reqc = 0, sr_medium_index = 0, sr_failure_on_medium = False\<rparr>],
            oldest_tosync := \<lparr>tv_sec = 95, tv_nsec = 0\<rparr>, tosync_size := 7\<rparr>"

text \<open>Two pending releases of the two media of one request.\<close>

definition reqc_two :: req_container where
  "reqc_two =
     reqc0\<lparr>rq_tosync_media :=
              [\<lparr>tm_status = SUB_REQUEST_TODO, tm_name = ''P00001'', tm_written_size = 7,
                tm_client_rc = 0\<rparr>,
               \<lparr>tm_status = SUB_REQUEST_TODO, tm_name = ''P00001'', tm_written_size = 3,
                tm_client_rc = 0\<rparr>]\<rparr>"

definition world_two :: world where
  "world_two =
     world0\<lparr>tosync_array :=
              [\<lparr>sr_reqc = 0, sr_medium_index = 0, sr_failure_on_medium = False\<rparr>,
               \<lparr>sr_reqc = 0, sr_medium_index = 1, sr_failure_on_medium = False\<rparr>],
            oldest_tosync := \<lparr>tv_sec = 95, tv_nsec = 0\<rparr>, tosync_size := 10,
            reqcs := (\<lambda>_. reqc_two)\<rparr>"

text \<open>The mounted medium reports no space left.\<close>

definition world_full :: world where
  "world_full =
     world_pending\<lparr>script :=
       (\<lambda>_. reply0\<lparr>rp_space := \<lparr>spc_used = 1010, spc_avail = 0, spc_readonly = False\<rparr>\<rparr>)\<rparr>"

text \<open>A pending sub-request for the first medium of request 0, and a second medium.\<close>

definition sr0 :: sub_request where
  "sr0 = \<lparr>sr_reqc = 0, sr_medium_index = 0, sr_failure_on_medium = False\<rparr>"

definition medium1 :: media_info where
  "medium1 = medium0\<lparr>mi_name := ''P00002'', mi_fs_label := ''P00002''\<rparr>"

text \<open>The library finds the requested medium in another drive and refuses the move: the
  lookup is the fourth external call of \<open>dev_load\<close> on a tape drive and the move the
  fifth.\<close>

definition script_d2d :: "nat \<Rightarrow> reply" where
  "script_d2d n =
     (if n = 3 then reply0\<lparr>rp_addr := MED_LOC_DRIVE\<rparr>
      else if n = 4 then reply0\<lparr>rp_rc := - 22\<rparr>
      else reply0)"

definition world_d2d_format :: world where
  "world_d2d_format =
     world0\<lparr>script := script_d2d, ld_op_status := PHO_DEV_OP_ST_EMPTY,
            ld_dss_media_info := None, ld_mnt_path := [], ld_sub_request := Some sr0,
            reqcs := (\<lambda>_. reqc0\<lparr>rq_kind := REQ_FORMAT, rq_tosync_media := [],
                                 rq_medium_to_format := Some medium1\<rparr>)\<rparr>"


text \<open>A write allocation on the loaded medium, whose filesystem turns out to be mounted
  read-only.\<close>

definition world_ro :: world where
  "world_ro =
     world0\<lparr>script :=
              (\<lambda>_. reply0\<lparr>rp_space := \<lparr>spc_used = 1000, spc_avail = 10, spc_readonly = True\<rparr>\<rparr>),
            ld_op_status := PHO_DEV_OP_ST_LOADED, ld_mnt_path := [],
            ld_sub_request := Some sr0,
            reqcs := (\<lambda>_. reqc0\<lparr>rq_kind := REQ_WRITE, rq_tosync_media := [],
                                 rq_rwalloc_media :=
                                   [\<lparr>rm_status = SUB_REQUEST_TODO, rm_alloc_medium = None\<rparr>]\<rparr>)\<rparr>"


text \<open>The drive with its mounted medium, nothing pending, and the thread switched to
  STOPPED.\<close>

definition world_stopped :: world where
  "world_stopped = world0\<lparr>thread_state := THREAD_STOPPED\<rparr>"

text \<open>One pending release, and a client that has reported the error \<open>-5\<close> on the
  medium.\<close>

definition world_client_error :: world where
  "world_client_error = world_pending\<lparr>ld_last_client_rc := - 5\<rparr>"

text \<open>The stopped drive when the unmount fails: the second external call of the end of the
  thread answers \<open>-5\<close>.\<close>

definition world_umount_fails :: world where
  "world_umount_fails =
     world_stopped\<lparr>script := (\<lambda>n. if n = 1 then reply0\<lparr>rp_rc := - 5\<rparr> else reply0)\<rparr>"

text \<open>Loading the medium \<open>P00002\<close> for a format when the lookup in the library fails and
  the DSS then refuses the update: the fourth and fifth external calls answer \<open>-5\<close>.\<close>

definition world_lookup_fails :: world where
  "world_lookup_fails =
     world_d2d_format\<lparr>script := (\<lambda>n. if n = 3 \<or> n = 4 then reply0\<lparr>rp_rc := - 5\<rparr> else reply0)\<rparr>"

text \<open>A write allocation on the loaded medium when no filesystem adapter is found: the
  first external call answers \<open>-5\<close>.\<close>

definition world_mount_fails :: world where
  "world_mount_fails =
     world_ro\<lparr>script := (\<lambda>n. if n = 0 then reply0\<lparr>rp_rc := - 5\<rparr> else reply0)\<rparr>"

text \<open>The drive with its mounted medium, whose thread jumps to its end with the error
  \<open>-5\<close>.\<close>

definition world_failed :: world where
  "world_failed = world0\<lparr>thread_status := - 5\<rparr>"

text \<open>One pending release whose sync is overdue: the oldest release is at 87 s, the delay
  10 s and the time 100 s.\<close>

definition world_overdue :: world where
  "world_overdue = world_pending\<lparr>oldest_tosync := \<lparr>tv_sec = 87, tv_nsec = 0\<rparr>\<rparr>"

text \<open>Two pending releases on the drive: the older one, of request 1 received at 90 s, has
  been cancelled by an error on another device (its release code is \<open>-5\<close>); the other, of
  request 0, was received at 99 s. The oldest pending time recorded is 90 s.\<close>

definition reqc_cancelled :: req_container where
  "reqc_cancelled = reqc0\<lparr>rq_received_at := \<lparr>tv_sec = 90, tv_nsec = 0\<rparr>, rq_release_rc := - 5\<rparr>"

definition reqc_late :: req_container where
  "reqc_late = reqc0\<lparr>rq_received_at := \<lparr>tv_sec = 99, tv_nsec = 0\<rparr>\<rparr>"

definition world_stale :: world where
  "world_stale =
     world0\<lparr>tosync_array :=
              [\<lparr>sr_reqc = 1, sr_medium_index = 0, sr_failure_on_medium = False\<rparr>,
               \<lparr>sr_reqc = 0, sr_medium_index = 0, sr_failure_on_medium = False\<rparr>],
            oldest_tosync := \<lparr>tv_sec = 90, tv_nsec = 0\<rparr>, tosync_size := 14,
            reqcs := (\<lambda>n. if n = 1 then reqc_cancelled else reqc_late)\<rparr>"


text \<open>The drive of \<open>world_d2d_format\<close> at the head of the next turn of the loop, after the
  refused move and the wait.\<close>

definition world_d2d_retry :: world where
  "world_d2d_retry =
     world_d2d_format
       \<lparr>trace := [Ext GetLibAdapter 0, Ext CfgLibDevice 0, Ext LdmLibOpen 0,
                  Ext (LdmLibMediaLookup ''P00002'') 0,
                  Ext (LdmLibMediaMove MED_LOC_DRIVE MED_LOC_DRIVE) (- 22),
                  Ext LdmLibClose 0, Ext ClockGettime 0,
                  Ext (ThreadSignalTimedWait \<lparr>tv_sec = 110, tv_nsec = 0\<rparr>) 0]\<rparr>"


section \<open>Time arithmetic\<close>


lemma is_older_or_equal_ns:
  "ts_norm a \<Longrightarrow> ts_norm b \<Longrightarrow> is_older_or_equal a b = (ts_ns a \<le> ts_ns b)"
  unfolding is_older_or_equal_def ts_norm_def ts_ns_def NSEC_PER_SEC_def
  by (auto; linarith)

lemma add_timespec_ns: "ts_ns (add_timespec a b) = ts_ns a + ts_ns b"
  unfolding add_timespec_def ts_ns_def NSEC_PER_SEC_def
  by (simp add: Let_def algebra_simps)

lemma add_timespec_norm: "ts_norm a \<Longrightarrow> ts_norm b \<Longrightarrow> ts_norm (add_timespec a b)"
  unfolding add_timespec_def ts_norm_def NSEC_PER_SEC_def
  by (simp add: Let_def)

lemma cmp_timespec_less:
  "ts_norm a \<Longrightarrow> ts_norm b \<Longrightarrow> (cmp_timespec a b = -1) = (ts_ns a < ts_ns b)"
  unfolding cmp_timespec_def ts_norm_def ts_ns_def NSEC_PER_SEC_def
  by (auto; linarith)

text \<open>The difference on its documented domain.\<close>

lemma diff_timespec_ns:
  "cmp_timespec a b \<noteq> -1 \<Longrightarrow> ts_ns (diff_timespec below a b) = ts_ns a - ts_ns b"
  unfolding diff_timespec_def ts_ns_def NSEC_PER_SEC_def
  by (simp add: Let_def algebra_simps)

lemma diff_timespec_norm:
  "cmp_timespec a b \<noteq> -1 \<Longrightarrow> ts_norm a \<Longrightarrow> ts_norm b \<Longrightarrow> ts_norm (diff_timespec below a b)"
  unfolding diff_timespec_def ts_norm_def NSEC_PER_SEC_def
  by (simp add: Let_def)

lemma diff_timespec_below:
  "cmp_timespec a b = -1 \<Longrightarrow> diff_timespec below a b = below a b"
  by (simp add: diff_timespec_def)


section \<open>The sync policy\<close>

text \<open>The flag after \<open>check_needs_sync\<close>, in terms of the recorded time \<open>oldest_tosync\<close>:
  the six conditions of the policy, with the recorded time in the place of the oldest pending
  release time, or a clock that cannot be read while the list is not empty.\<close>

lemma check_needs_sync_recorded:
  assumes "ts_norm (oldest_tosync w)" and "ts_norm (sync_time_ms w)"
    and "ts_norm (rp_now (script w (length (trace w))))"
  shows "ld_needs_sync (check_needs_sync w) \<longleftrightarrow>
           (tosync_array w \<noteq> [] \<and> length (tosync_array w) \<ge> sync_nb_req w)
         \<or> (tosync_array w \<noteq> [] \<and>
              ts_ns (rp_now (script w (length (trace w))))
                \<ge> ts_ns (oldest_tosync w) + ts_ns (sync_time_ms w))
         \<or> (tosync_array w \<noteq> [] \<and> tosync_size w \<ge> sync_wsize_kb w)
         \<or> (\<not> running w \<and> tosync_array w \<noteq> [])
         \<or> (thread_is_stopping w \<and> tosync_array w \<noteq> [])
         \<or> ld_last_client_rc w \<noteq> 0
         \<or> (tosync_array w \<noteq> [] \<and> rp_rc (script w (length (trace w))) \<noteq> 0)"
proof -
  let ?r = "script w (length (trace w))"
  let ?d = "add_timespec (oldest_tosync w) (sync_time_ms w)"
  have d: "ts_norm ?d" using assms by (simp add: add_timespec_norm)
  have p: "is_older_or_equal ?d (rp_now ?r)
             = (ts_ns (oldest_tosync w) + ts_ns (sync_time_ms w) \<le> ts_ns (rp_now ?r))"
    using d assms(3) by (simp add: is_older_or_equal_ns add_timespec_ns)
  show ?thesis
    using p
    by (auto simp: check_needs_sync_def is_past_def ext_def Let_def thread_is_stopping_def
             split: if_splits)
qed

text \<open>What \<open>remove_canceled_sync\<close> leaves alone.\<close>

lemma remove_canceled_loop_config:
  "script (snd (remove_canceled_loop n b w)) = script w
   \<and> sync_nb_req (snd (remove_canceled_loop n b w)) = sync_nb_req w
   \<and> sync_wsize_kb (snd (remove_canceled_loop n b w)) = sync_wsize_kb w
   \<and> sync_time_ms (snd (remove_canceled_loop n b w)) = sync_time_ms w
   \<and> running (snd (remove_canceled_loop n b w)) = running w
   \<and> thread_state (snd (remove_canceled_loop n b w)) = thread_state w
   \<and> ld_last_client_rc (snd (remove_canceled_loop n b w)) = ld_last_client_rc w
   \<and> ld_needs_sync (snd (remove_canceled_loop n b w)) = ld_needs_sync w
   \<and> ld_ongoing_io (snd (remove_canceled_loop n b w)) = ld_ongoing_io w
   \<and> ld_sub_request (snd (remove_canceled_loop n b w)) = ld_sub_request w"
  by (induction n arbitrary: b w)
     (simp_all add: Let_def upd_reqc_def sub_request_free_def sched_req_free_def ext_def)

lemma remove_canceled_sync_config:
  "script (remove_canceled_sync w) = script w"
  "sync_nb_req (remove_canceled_sync w) = sync_nb_req w"
  "sync_wsize_kb (remove_canceled_sync w) = sync_wsize_kb w"
  "sync_time_ms (remove_canceled_sync w) = sync_time_ms w"
  "running (remove_canceled_sync w) = running w"
  "thread_state (remove_canceled_sync w) = thread_state w"
  "ld_last_client_rc (remove_canceled_sync w) = ld_last_client_rc w"
  "ld_needs_sync (remove_canceled_sync w) = ld_needs_sync w"
  "ld_ongoing_io (remove_canceled_sync w) = ld_ongoing_io w"
  "ld_sub_request (remove_canceled_sync w) = ld_sub_request w"
  using remove_canceled_loop_config [of "length (tosync_array w)" False w]
  by (simp_all add: remove_canceled_sync_def update_queue_oldest_tosync_def split_def Let_def)

text \<open>When the recorded time is set and no pending release is older than it, which is what
  the pushes maintain, the scan of \<open>update_queue_oldest_tosync\<close> changes nothing: it cannot
  bring the recorded time forward after the oldest release has been removed.\<close>

lemma update_oldest_tosync_scan:
  assumes "\<not> ts_unset t"
    and "\<forall>c \<in> set cs. is_older_or_equal c t \<longrightarrow> c = t"
  shows "foldl update_oldest_tosync t cs = t"
  using assms
  by (induction cs) (auto simp: update_oldest_tosync_def ts_unset_def)

lemma update_queue_oldest_tosync_scan:
  assumes "tosync_array w \<noteq> []" and "\<not> ts_unset (oldest_tosync w)"
    and "\<forall>r \<in> set (tosync_array w).
           is_older_or_equal (rq_received_at (reqcs w (sr_reqc r))) (oldest_tosync w)
           \<longrightarrow> rq_received_at (reqcs w (sr_reqc r)) = oldest_tosync w"
  shows "update_queue_oldest_tosync w = w"
proof -
  have "foldl update_oldest_tosync (oldest_tosync w)
          (map (\<lambda>r. rq_received_at (reqcs w (sr_reqc r))) (tosync_array w)) = oldest_tosync w"
    using assms(2,3) by (intro update_oldest_tosync_scan) auto
  then show ?thesis
    using assms(1) by (simp add: update_queue_oldest_tosync_def foldl_map)
qed

text \<open>The scrub of the pending list on the drive of \<open>world_stale\<close>.\<close>

lemma world_stale_fields:
  "tosync_array world_stale
     = [\<lparr>sr_reqc = 1, sr_medium_index = 0, sr_failure_on_medium = False\<rparr>,
        \<lparr>sr_reqc = 0, sr_medium_index = 0, sr_failure_on_medium = False\<rparr>]"
  "reqcs world_stale (Suc 0) = reqc_cancelled" "reqcs world_stale 0 = reqc_late"
  "script world_stale n = reply0"
  "trace world_stale = []" "tosync_size world_stale = 14"
  "oldest_tosync world_stale = \<lparr>tv_sec = 90, tv_nsec = 0\<rparr>"
  "sync_nb_req world_stale = 5" "sync_wsize_kb world_stale = 1000"
  "sync_time_ms world_stale = \<lparr>tv_sec = 10, tv_nsec = 0\<rparr>" "running world_stale"
  "thread_state world_stale = THREAD_RUNNING" "ld_last_client_rc world_stale = 0"
  "ld_needs_sync world_stale = False" "ld_ongoing_io world_stale = False"
  "ld_sub_request world_stale = None"
  by (simp_all add: world_stale_def world0_def)

lemma remove_canceled_loop_stale_kept:
  "remove_canceled_loop (Suc (Suc 0)) False world_stale
     = remove_canceled_loop (Suc 0) False world_stale"
  by (simp add: world_stale_fields reqc_late_def reqc0_def)

lemma remove_canceled_loop_stale_removed:
  "tosync_array (snd (remove_canceled_loop (Suc 0) False world_stale))
     = [\<lparr>sr_reqc = 0, sr_medium_index = 0, sr_failure_on_medium = False\<rparr>]"
  "tosync_size (snd (remove_canceled_loop (Suc 0) False world_stale)) = 7"
  "fst (remove_canceled_loop (Suc 0) False world_stale)"
  "oldest_tosync (snd (remove_canceled_loop (Suc 0) False world_stale))
     = \<lparr>tv_sec = 90, tv_nsec = 0\<rparr>"
  "reqcs (snd (remove_canceled_loop (Suc 0) False world_stale)) 0 = reqc_late"
  "trace (snd (remove_canceled_loop (Suc 0) False world_stale)) = [Ext (SchedReqFree (Some 1)) 0]"
  by (simp_all add: world_stale_fields Let_def remove_index_fast_def written_size_at_def
        upd_reqc_def set_tosync_status_def is_request_tosync_ended_def sub_request_free_def
        sched_req_free_def ext_def reqc_cancelled_def reqc0_def reply0_def)

lemma remove_canceled_sync_stale:
  "tosync_array (remove_canceled_sync world_stale)
     = [\<lparr>sr_reqc = 0, sr_medium_index = 0, sr_failure_on_medium = False\<rparr>]"
  "tosync_size (remove_canceled_sync world_stale) = 7"
  "oldest_tosync (remove_canceled_sync world_stale) = \<lparr>tv_sec = 90, tv_nsec = 0\<rparr>"
  "reqcs (remove_canceled_sync world_stale) 0 = reqc_late"
  "trace (remove_canceled_sync world_stale) = [Ext (SchedReqFree (Some 1)) 0]"
  by (simp_all add: remove_canceled_sync_def world_stale_fields remove_canceled_loop_stale_kept
        remove_canceled_loop_stale_removed split_def update_queue_oldest_tosync_def
        update_oldest_tosync_def is_older_or_equal_def reqc_late_def reqc0_def
        del: remove_canceled_loop.simps)

text \<open>
  C1. The policy of the claim puts its second condition on the oldest pending release time.
  The code tests the recorded time \<open>oldest_tosync\<close>, and \<open>update_queue_oldest_tosync\<close>,
  called when \<open>remove_canceled_sync\<close> has removed entries, scans the entries left without
  resetting the recorded time, which \<open>update_oldest_tosync\<close> can only lower. On the drive
  of \<open>world_stale\<close> the head of a loop turn removes the cancelled release of 90 s; the
  release left was received at 99 s and the recorded time is still 90 s. The clock reads
  100 s and the delay is 10 s: the flag is set, and none of the six conditions of the claim
  holds (one entry for a threshold of five, 99 s + 10 s after 100 s, 7 written for a
  threshold of 1000, nothing stopping, no client error).
\<close>

theorem check_needs_sync_stale_oldest:
  "tosync_array (remove_canceled_sync world_stale)
     = [\<lparr>sr_reqc = 0, sr_medium_index = 0, sr_failure_on_medium = False\<rparr>]
   \<and> rq_received_at (reqcs (remove_canceled_sync world_stale) 0) = \<lparr>tv_sec = 99, tv_nsec = 0\<rparr>
   \<and> oldest_tosync (remove_canceled_sync world_stale) = \<lparr>tv_sec = 90, tv_nsec = 0\<rparr>
   \<and> script (remove_canceled_sync world_stale)
        (length (trace (remove_canceled_sync world_stale))) = reply0
   \<and> rp_rc reply0 = 0 \<and> rp_now reply0 = \<lparr>tv_sec = 100, tv_nsec = 0\<rparr>
   \<and> dev_thread_prologue world_stale = check_needs_sync (remove_canceled_sync world_stale)
   \<and> ld_needs_sync (dev_thread_prologue world_stale)
   \<and> \<not> ((tosync_array (remove_canceled_sync world_stale) \<noteq> []
           \<and> length (tosync_array (remove_canceled_sync world_stale))
               \<ge> sync_nb_req (remove_canceled_sync world_stale))
        \<or> (tosync_array (remove_canceled_sync world_stale) \<noteq> []
           \<and> ts_ns \<lparr>tv_sec = 100, tv_nsec = 0\<rparr>
               \<ge> ts_ns \<lparr>tv_sec = 99, tv_nsec = 0\<rparr>
                   + ts_ns (sync_time_ms (remove_canceled_sync world_stale)))
        \<or> (tosync_array (remove_canceled_sync world_stale) \<noteq> []
           \<and> tosync_size (remove_canceled_sync world_stale)
               \<ge> sync_wsize_kb (remove_canceled_sync world_stale))
        \<or> (\<not> running (remove_canceled_sync world_stale)
           \<and> tosync_array (remove_canceled_sync world_stale) \<noteq> [])
        \<or> (thread_is_stopping (remove_canceled_sync world_stale)
           \<and> tosync_array (remove_canceled_sync world_stale) \<noteq> [])
        \<or> ld_last_client_rc (remove_canceled_sync world_stale) \<noteq> 0)"
proof -
  have p: "dev_thread_prologue world_stale = check_needs_sync (remove_canceled_sync world_stale)"
    by (simp add: dev_thread_prologue_def Let_def world_stale_fields remove_canceled_sync_config
          check_needs_sync_def is_past_def ext_def split_def thread_is_stopping_def
          remove_canceled_sync_stale)
  have f: "ld_needs_sync (check_needs_sync (remove_canceled_sync world_stale))"
    by (simp add: check_needs_sync_def is_past_def ext_def split_def Let_def
          remove_canceled_sync_stale world_stale_fields remove_canceled_sync_config
          is_older_or_equal_def add_timespec_def NSEC_PER_SEC_def reply0_def)
  show ?thesis
    using f
    by (simp add: p remove_canceled_sync_stale remove_canceled_sync_config world_stale_fields
          reqc_late_def reqc0_def reply0_def ts_ns_def NSEC_PER_SEC_def thread_is_stopping_def)
qed


section \<open>The wakeup date\<close>

lemma MINSLEEP_norm: "ts_norm MINSLEEP"
  by (simp add: MINSLEEP_def ts_norm_def NSEC_PER_SEC_def)

text \<open>
  C2 (as amended). When the clock is read, \<open>dev_wait_for_signal\<close> waits on the condition
  variable with the date computed by \<open>compute_wakeup_date\<close>. When \<open>oldest_tosync\<close> is
  unset (the pending list is empty) the date is \<open>now + sync_time\<close>. When it is set and
  \<open>oldest_tosync + sync_time\<close> is not before now, the date is the later of now + 10 ms and
  \<open>oldest_tosync + sync_time\<close>. When it is set and \<open>oldest_tosync + sync_time\<close> is before
  now, \<open>diff_timespec\<close> is called out of its documented domain: the date is now + 10 ms when
  the value it returns there compares below 10 ms, and \<open>oldest_tosync + sync_time\<close>
  otherwise.
\<close>

theorem compute_wakeup_date_deadline:
  assumes ok: "rp_rc (script w (length (trace w))) = 0"
    and now: "now = rp_now (script w (length (trace w)))"
    and n1: "ts_norm now" and n2: "ts_norm (oldest_tosync w)" and n3: "ts_norm (sync_time_ms w)"
  shows "\<exists>date rc.
           trace (snd (dev_wait_for_signal w))
             = trace w @ [Ext ClockGettime 0, Ext (ThreadSignalTimedWait date) rc] \<and>
           fst (compute_wakeup_date w) = Inr date \<and> ts_norm date \<and>
           (if ts_unset (oldest_tosync w)
            then ts_ns date = ts_ns now + ts_ns (sync_time_ms w)
            else if ts_ns now \<le> ts_ns (oldest_tosync w) + ts_ns (sync_time_ms w)
            then ts_ns date = max (ts_ns now + ts_ns MINSLEEP)
                                  (ts_ns (oldest_tosync w) + ts_ns (sync_time_ms w))
            else date = (if cmp_timespec
                              (diff_below w (add_timespec (oldest_tosync w) (sync_time_ms w)) now)
                              MINSLEEP = -1
                         then add_timespec MINSLEEP now
                         else add_timespec (oldest_tosync w) (sync_time_ms w)))"
proof -
  let ?d = "add_timespec (oldest_tosync w) (sync_time_ms w)"
  let ?diff = "diff_timespec (diff_below w) ?d now"
  have d: "ts_norm ?d" using n2 n3 by (rule add_timespec_norm)
  have lt: "(cmp_timespec ?d now = -1)
              = (ts_ns (oldest_tosync w) + ts_ns (sync_time_ms w) < ts_ns now)"
    using d n1 by (simp add: cmp_timespec_less add_timespec_ns)
  have c: "(cmp_timespec ?diff MINSLEEP = -1)
             = (ts_ns (oldest_tosync w) + ts_ns (sync_time_ms w) - ts_ns now < ts_ns MINSLEEP)"
    if "ts_ns now \<le> ts_ns (oldest_tosync w) + ts_ns (sync_time_ms w)"
  proof -
    have dom: "cmp_timespec ?d now \<noteq> -1" using lt that by simp
    show ?thesis
      using d n1 dom
      by (simp add: cmp_timespec_less diff_timespec_norm MINSLEEP_norm diff_timespec_ns
            add_timespec_ns)
  qed
  have b: "?diff = diff_below w ?d now"
    if "\<not> ts_ns now \<le> ts_ns (oldest_tosync w) + ts_ns (sync_time_ms w)"
    using lt that by (simp add: diff_timespec_below)
  obtain date where date: "fst (compute_wakeup_date w) = Inr date"
    and w1: "snd (compute_wakeup_date w) = w\<lparr>trace := trace w @ [Ext ClockGettime 0]\<rparr>"
    and val: "date = (if ts_unset (oldest_tosync w) then add_timespec now (sync_time_ms w)
                      else if cmp_timespec ?diff MINSLEEP = -1
                           then add_timespec MINSLEEP now else ?d)"
    using ok now by (simp add: compute_wakeup_date_def ext_def Let_def ts_unset_def split_def)
  have norm: "ts_norm date"
    using val n1 n3 d by (simp add: add_timespec_norm MINSLEEP_norm)
  have ns: "if ts_unset (oldest_tosync w)
            then ts_ns date = ts_ns now + ts_ns (sync_time_ms w)
            else if ts_ns now \<le> ts_ns (oldest_tosync w) + ts_ns (sync_time_ms w)
            then ts_ns date = max (ts_ns now + ts_ns MINSLEEP)
                                  (ts_ns (oldest_tosync w) + ts_ns (sync_time_ms w))
            else date = (if cmp_timespec (diff_below w ?d now) MINSLEEP = -1
                         then add_timespec MINSLEEP now else ?d)"
    using val c b by (auto simp: add_timespec_ns)
  have tr: "trace (snd (dev_wait_for_signal w))
              = trace w @ [Ext ClockGettime 0,
                  Ext (ThreadSignalTimedWait date) (rp_rc (script w (Suc (length (trace w)))))]"
    using date w1 by (cases "compute_wakeup_date w") (simp add: dev_wait_for_signal_def ext_def Let_def)
  show ?thesis using tr date norm ns by blast
qed

theorem compute_wakeup_date_deadline_witness:
  "(\<exists>date rc.
      trace (snd (dev_wait_for_signal world_pending))
        = [Ext ClockGettime 0, Ext (ThreadSignalTimedWait date) rc] \<and>
      fst (compute_wakeup_date world_pending) = Inr date \<and> ts_ns date = 105000000000)
   \<and> fst (compute_wakeup_date
            (world_overdue\<lparr>diff_below := (\<lambda>a b. \<lparr>tv_sec = - 3, tv_nsec = 0\<rparr>)\<rparr>))
       = Inr \<lparr>tv_sec = 100, tv_nsec = 10000000\<rparr>
   \<and> fst (compute_wakeup_date
            (world_overdue\<lparr>diff_below := (\<lambda>a b. \<lparr>tv_sec = 3, tv_nsec = 0\<rparr>)\<rparr>))
       = Inr \<lparr>tv_sec = 97, tv_nsec = 0\<rparr>"
proof -
  let ?now = "\<lparr>tv_sec = 100, tv_nsec = 0\<rparr>"
  have h1: "rp_rc (script world_pending (length (trace world_pending))) = 0"
    by (simp add: world_pending_def world0_def reply0_def)
  have h2: "?now = rp_now (script world_pending (length (trace world_pending)))"
    by (simp add: world_pending_def world0_def reply0_def)
  have h3: "ts_norm ?now" by (simp add: ts_norm_def NSEC_PER_SEC_def)
  have h4: "ts_norm (oldest_tosync world_pending)"
    by (simp add: world_pending_def world0_def ts_norm_def NSEC_PER_SEC_def)
  have h5: "ts_norm (sync_time_ms world_pending)"
    by (simp add: world_pending_def world0_def ts_norm_def NSEC_PER_SEC_def)
  have u: "\<not> ts_unset (oldest_tosync world_pending)"
    by (simp add: world_pending_def world0_def ts_unset_def)
  have t: "trace world_pending = []" by (simp add: world_pending_def world0_def)
  have v: "ts_ns ?now \<le> ts_ns (oldest_tosync world_pending) + ts_ns (sync_time_ms world_pending)"
    "max (ts_ns ?now + ts_ns MINSLEEP)
             (ts_ns (oldest_tosync world_pending) + ts_ns (sync_time_ms world_pending))
           = 105000000000"
    by (simp_all add: world_pending_def world0_def ts_ns_def MINSLEEP_def NSEC_PER_SEC_def)
  from compute_wakeup_date_deadline [OF h1 h2 h3 h4 h5] u t v
  have a: "\<exists>date rc.
      trace (snd (dev_wait_for_signal world_pending))
        = [Ext ClockGettime 0, Ext (ThreadSignalTimedWait date) rc] \<and>
      fst (compute_wakeup_date world_pending) = Inr date \<and> ts_ns date = 105000000000"
    by auto
  have o: "fst (compute_wakeup_date
            (world_overdue\<lparr>diff_below := (\<lambda>a b. \<lparr>tv_sec = - 3, tv_nsec = 0\<rparr>)\<rparr>))
       = Inr \<lparr>tv_sec = 100, tv_nsec = 10000000\<rparr>"
    "fst (compute_wakeup_date
            (world_overdue\<lparr>diff_below := (\<lambda>a b. \<lparr>tv_sec = 3, tv_nsec = 0\<rparr>)\<rparr>))
       = Inr \<lparr>tv_sec = 97, tv_nsec = 0\<rparr>"
    by (simp_all add: compute_wakeup_date_def ext_def Let_def world_overdue_def world_pending_def
          world0_def reply0_def add_timespec_def diff_timespec_def cmp_timespec_def MINSLEEP_def
          NSEC_PER_SEC_def)
  show ?thesis using a o by blast
qed

text \<open>
  C2 as stated fails on an empty pending list: at 100 s with a delay of 10 s the date is
  110 s, not the later of 100.01 s and 10 s; and with a delay of zero the date is 100 s,
  earlier than now + 10 ms.
\<close>

theorem compute_wakeup_date_empty_counterexample:
  "fst (compute_wakeup_date world0) = Inr \<lparr>tv_sec = 110, tv_nsec = 0\<rparr> \<and>
   ts_ns \<lparr>tv_sec = 110, tv_nsec = 0\<rparr>
     \<noteq> max (ts_ns (add_timespec (rp_now (script world0 0)) MINSLEEP))
           (ts_ns (add_timespec (oldest_tosync world0) (sync_time_ms world0))) \<and>
   fst (compute_wakeup_date (world0\<lparr>sync_time_ms := \<lparr>tv_sec = 0, tv_nsec = 0\<rparr>\<rparr>))
     = Inr \<lparr>tv_sec = 100, tv_nsec = 0\<rparr> \<and>
   ts_ns \<lparr>tv_sec = 100, tv_nsec = 0\<rparr> < ts_ns (add_timespec (rp_now (script world0 0)) MINSLEEP)"
  by (simp add: compute_wakeup_date_def ext_def Let_def world0_def reply0_def ts_ns_def
        add_timespec_def MINSLEEP_def NSEC_PER_SEC_def)

section \<open>Draining the pending-sync list\<close>


lemma set_tosync_status_release_rc [simp]:
  "rq_release_rc (set_tosync_status i st rq) = rq_release_rc rq"
  by (simp add: set_tosync_status_def)

lemma error_calls_append [simp]:
  "error_calls rid (xs @ ys) = error_calls rid xs + error_calls rid ys"
  by (simp add: error_calls_def)

lemma error_resps_append [simp]:
  "error_resps rid (xs @ ys) = error_resps rid xs + error_resps rid ys"
  by (simp add: error_resps_def)

lemma error_calls_single [simp]:
  "error_calls rid [e] = (if is_error_call rid e then 1 else 0)"
  by (simp add: error_calls_def)

lemma error_resps_single [simp]:
  "error_resps rid [e] = (if is_error_resp rid e then 1 else 0)"
  by (simp add: error_resps_def)

lemma clean_tosync_body_array:
  "tosync_array (snd (clean_tosync_body rc req irc w)) = tosync_array w"
  by (simp add: clean_tosync_body_def queue_error_response_def queue_release_response_def
        sub_request_free_def sched_req_free_def ext_def Let_def split_def)

lemma clean_tosync_body_error:
  fixes rc irc :: int and req :: sub_request and w :: world and rid :: nat
  assumes "rc \<noteq> 0"
  defines "w' \<equiv> snd (clean_tosync_body rc req irc w)"
  defines "first \<equiv> (sr_reqc req = rid \<and> rq_release_rc (reqcs w rid) = 0)"
  shows "error_calls rid (trace w') = error_calls rid (trace w) + (if first then 1 else 0)"
    and "error_resps rid (ld_response_queue w')
           \<le> error_resps rid (ld_response_queue w) + (if first then 1 else 0)"
    and "rq_release_rc (reqcs w' rid) = (if first then rc else rq_release_rc (reqcs w rid))"
  using assms(1) unfolding w'_def first_def
  by (auto simp: clean_tosync_body_def queue_error_response_def queue_release_response_def
        sub_request_free_def sched_req_free_def ext_def Let_def split_def)


lemma clean_tosync_while_unfold:
  "tosync_array w \<noteq> [] \<Longrightarrow>
   clean_tosync_while rc irc w =
     clean_tosync_while rc
       (fst (clean_tosync_body rc (last (tosync_array w)) irc
               (w\<lparr>tosync_array := butlast (tosync_array w)\<rparr>)))
       (snd (clean_tosync_body rc (last (tosync_array w)) irc
               (w\<lparr>tosync_array := butlast (tosync_array w)\<rparr>)))"
  by (subst clean_tosync_while.simps) (simp add: Let_def split_def)

lemma clean_tosync_while_empty:
  "tosync_array w = [] \<Longrightarrow> clean_tosync_while rc irc w = (irc, w)"
  by (subst clean_tosync_while.simps) simp

lemma clean_tosync_while_drains:
  "tosync_array (snd (clean_tosync_while rc irc w)) = []"
proof (induction "length (tosync_array w)" arbitrary: irc w)
  case 0
  then show ?case by (simp add: clean_tosync_while_empty)
next
  case (Suc n)
  then have ne: "tosync_array w \<noteq> []" by auto
  let ?b = "clean_tosync_body rc (last (tosync_array w)) irc
              (w\<lparr>tosync_array := butlast (tosync_array w)\<rparr>)"
  have "n = length (tosync_array (snd ?b))"
    using Suc.hyps(2) by (simp add: clean_tosync_body_array)
  from Suc.hyps(1) [OF this] show ?case
    by (simp add: clean_tosync_while_unfold [OF ne])
qed

lemma clean_tosync_while_error:
  fixes rc :: int
  assumes rc: "rc \<noteq> 0"
  shows "error_calls rid (trace (snd (clean_tosync_while rc irc w)))
           = error_calls rid (trace w)
             + (if rq_release_rc (reqcs w rid) = 0 \<and> rid \<in> sr_reqc ` set (tosync_array w)
                then 1 else 0)
       \<and> error_resps rid (ld_response_queue (snd (clean_tosync_while rc irc w)))
           \<le> error_resps rid (ld_response_queue w)
             + (if rq_release_rc (reqcs w rid) = 0 \<and> rid \<in> sr_reqc ` set (tosync_array w)
                then 1 else 0)
       \<and> rq_release_rc (reqcs (snd (clean_tosync_while rc irc w)) rid)
           = (if rq_release_rc (reqcs w rid) = 0 \<and> rid \<in> sr_reqc ` set (tosync_array w)
              then rc else rq_release_rc (reqcs w rid))"
proof (induction "length (tosync_array w)" arbitrary: irc w)
  case 0
  then show ?case by (simp add: clean_tosync_while_empty)
next
  case (Suc n)
  then have ne: "tosync_array w \<noteq> []" by auto
  let ?w0 = "w\<lparr>tosync_array := butlast (tosync_array w)\<rparr>"
  let ?req = "last (tosync_array w)"
  let ?b = "clean_tosync_body rc ?req irc ?w0"
  have len: "n = length (tosync_array (snd ?b))"
    using Suc.hyps(2) by (simp add: clean_tosync_body_array)
  have arr: "tosync_array (snd ?b) = butlast (tosync_array w)"
    by (simp add: clean_tosync_body_array)
  have mem: "rid \<in> sr_reqc ` set (tosync_array w)
               \<longleftrightarrow> sr_reqc ?req = rid \<or> rid \<in> sr_reqc ` set (butlast (tosync_array w))"
  proof -
    have "tosync_array w = butlast (tosync_array w) @ [?req]" using ne by simp
    then have "set (tosync_array w) = insert ?req (set (butlast (tosync_array w)))"
      by (metis Un_insert_right append_Nil2 list.simps(15) set_append)
    then show ?thesis by auto
  qed
  note body = clean_tosync_body_error [OF rc, where req="?req" and rid=rid and w="?w0" and irc=irc]
  note ih = Suc.hyps(1) [OF len, of "fst ?b"]
  show ?case
    unfolding clean_tosync_while_unfold [OF ne]
    using ih body rc by (auto simp: arr mem)
qed


text \<open>
  C10. Whatever the code given to \<open>clean_tosync_array\<close>, afterwards the pending array is
  empty, \<open>tosync_size\<close> is 0, \<open>oldest_tosync\<close> is reset to 0 and \<open>ld_needs_sync\<close> is
  false. With a non-zero code, for every parent request: the code is recorded on the parent and
  one error response is requested for it exactly when the parent had no error yet and one of
  the drained entries belongs to it; otherwise its recorded error is unchanged and no error
  response is requested. So at most one error response is queued per parent.
\<close>

theorem clean_tosync_array_drains:
  "tosync_array (snd (clean_tosync_array rc w)) = [] \<and>
   tosync_size (snd (clean_tosync_array rc w)) = 0 \<and>
   oldest_tosync (snd (clean_tosync_array rc w)) = \<lparr>tv_sec = 0, tv_nsec = 0\<rparr> \<and>
   \<not> ld_needs_sync (snd (clean_tosync_array rc w)) \<and>
   (rc \<noteq> 0 \<longrightarrow>
      error_calls rid (trace (snd (clean_tosync_array rc w)))
        = error_calls rid (trace w)
          + (if rq_release_rc (reqcs w rid) = 0 \<and> rid \<in> sr_reqc ` set (tosync_array w)
             then 1 else 0) \<and>
      error_resps rid (ld_response_queue (snd (clean_tosync_array rc w)))
        \<le> error_resps rid (ld_response_queue w)
          + (if rq_release_rc (reqcs w rid) = 0 \<and> rid \<in> sr_reqc ` set (tosync_array w)
             then 1 else 0) \<and>
      rq_release_rc (reqcs (snd (clean_tosync_array rc w)) rid)
        = (if rq_release_rc (reqcs w rid) = 0 \<and> rid \<in> sr_reqc ` set (tosync_array w)
           then rc else rq_release_rc (reqcs w rid)))"
proof -
  have d: "tosync_array (snd (clean_tosync_while rc 0 w)) = []"
    by (rule clean_tosync_while_drains)
  have e: "rc \<noteq> 0 \<Longrightarrow> ?thesis"
    using clean_tosync_while_error [of rc rid 0 w] d
    by (simp add: clean_tosync_array_def split_def Let_def)
  show ?thesis
  proof (cases "rc = 0")
    case True
    then show ?thesis using d by (simp add: clean_tosync_array_def split_def Let_def)
  next
    case False
    then show ?thesis by (rule e)
  qed
qed

theorem clean_tosync_array_drains_witness:
  "(-5::int) \<noteq> 0 \<and>
   tosync_array (snd (clean_tosync_array (-5) world_two)) = [] \<and>
   error_calls 0 (trace (snd (clean_tosync_array (-5) world_two))) = 1 \<and>
   error_resps 0 (ld_response_queue (snd (clean_tosync_array (-5) world_two))) \<le> 1 \<and>
   rq_release_rc (reqcs (snd (clean_tosync_array (-5) world_two)) 0) = -5"
proof -
  have a: "error_calls 0 (trace world_two) = 0" "error_resps 0 (ld_response_queue world_two) = 0"
    by (simp_all add: world_two_def world0_def error_calls_def error_resps_def)
  have b: "rq_release_rc (reqcs world_two 0) = 0 \<and> 0 \<in> sr_reqc ` set (tosync_array world_two)"
    by (simp add: world_two_def world0_def reqc_two_def reqc0_def)
  show ?thesis
    using clean_tosync_array_drains [of "-5" world_two 0] a b by simp
qed

section \<open>Update of the medium statistics\<close>

text \<open>
  C7. In \<open>lrs_dev_media_update\<close>, when the filesystem adapter is found and \<open>df\<close> succeeds,
  the free space of the medium is the one \<open>df\<close> reports, and if it is zero the medium given to
  the DSS write has fs-status FULL (with the fs-status and free-space bits in the mask): after
  the update, no free space implies FULL.
\<close>

theorem lrs_dev_media_update_full:
  assumes a: "rp_rc (script w (length (trace w))) = 0"
    and d: "rp_rc (script w (Suc (length (trace w)))) = 0"
    and m': "m' = fst (snd (lrs_dev_media_update m sz mrc nb w))"
  shows "\<exists>fields rc3.
           trace (snd (snd (lrs_dev_media_update m sz mrc nb w)))
             = trace w @ [Ext GetFsAdapter 0, Ext LdmFsDf 0, Ext (DssMediaSet m' fields) rc3]
           \<and> mi_phys_spc_free m' = spc_avail (rp_space (script w (Suc (length (trace w)))))
           \<and> (mi_phys_spc_free m' = 0 \<longrightarrow>
                mi_fs_status m' = PHO_FS_STATUS_FULL \<and> FS_STATUS \<in> fields
                \<and> PHYS_SPC_FREE \<in> fields)"
  using a d unfolding m'
  by (simp add: lrs_dev_media_update_def ext_def Let_def split_def)

theorem lrs_dev_media_update_full_witness:
  "\<exists>fields rc3.
     trace (snd (snd (lrs_dev_media_update medium0 7 0 1 world_full)))
       = [Ext GetFsAdapter 0, Ext LdmFsDf 0,
          Ext (DssMediaSet (fst (snd (lrs_dev_media_update medium0 7 0 1 world_full))) fields) rc3]
     \<and> mi_phys_spc_free (fst (snd (lrs_dev_media_update medium0 7 0 1 world_full))) = 0
     \<and> mi_fs_status (fst (snd (lrs_dev_media_update medium0 7 0 1 world_full))) = PHO_FS_STATUS_FULL
     \<and> FS_STATUS \<in> fields"
proof -
  have h1: "rp_rc (script world_full (length (trace world_full))) = 0"
    by (simp add: world_full_def world_pending_def world0_def reply0_def)
  have h2: "rp_rc (script world_full (Suc (length (trace world_full)))) = 0"
    by (simp add: world_full_def world_pending_def world0_def reply0_def)
  have t: "trace world_full = []"
    by (simp add: world_full_def world_pending_def world0_def)
  have z: "spc_avail (rp_space (script world_full (Suc (length (trace world_full))))) = 0"
    by (simp add: world_full_def world_pending_def world0_def reply0_def)
  from lrs_dev_media_update_full [OF h1 h2 refl, of medium0 7 0 1] t z show ?thesis
    by auto
qed

section \<open>Loading a medium and the handlers\<close>


lemma ext_simps [simp]:
  "fst (ext c w) = script w (length (trace w))"
  "trace (snd (ext c w)) = trace w @ [Ext c (rp_rc (script w (length (trace w))))]"
  "script (snd (ext c w)) = script w"
  "ld_response_queue (snd (ext c w)) = ld_response_queue w"
  "ld_sub_request (snd (ext c w)) = ld_sub_request w"
  "ld_op_status (snd (ext c w)) = ld_op_status w"
  "ld_dss_media_info (snd (ext c w)) = ld_dss_media_info w"
  "ld_dss_dev_info (snd (ext c w)) = ld_dss_dev_info w"
  "ld_lib_dev_addr (snd (ext c w)) = ld_lib_dev_addr w"
  "reqcs (snd (ext c w)) = reqcs w"
  "sched_retry_queue (snd (ext c w)) = sched_retry_queue w"
  "sched_req_queue (snd (ext c w)) = sched_req_queue w"
  "tosync_array (snd (ext c w)) = tosync_array w"
  "thread_status (snd (ext c w)) = thread_status w"
  "thread_state (snd (ext c w)) = thread_state w"
  "ld_ongoing_io (snd (ext c w)) = ld_ongoing_io w"
  by (simp_all add: ext_def Let_def)

lemma wrap_lib_open_frame [simp]:
  "script (snd (wrap_lib_open f w)) = script w"
  "ld_response_queue (snd (wrap_lib_open f w)) = ld_response_queue w"
  "ld_sub_request (snd (wrap_lib_open f w)) = ld_sub_request w"
  "ld_op_status (snd (wrap_lib_open f w)) = ld_op_status w"
  "ld_dss_media_info (snd (wrap_lib_open f w)) = ld_dss_media_info w"
  "ld_dss_dev_info (snd (wrap_lib_open f w)) = ld_dss_dev_info w"
  "ld_lib_dev_addr (snd (wrap_lib_open f w)) = ld_lib_dev_addr w"
  "reqcs (snd (wrap_lib_open f w)) = reqcs w"
  by (simp_all add: wrap_lib_open_def split_def Let_def)





lemma dev_mount_ok:
  assumes "dev_mount w = (0, w1)"
  shows "ld_op_status w1 = PHO_DEV_OP_ST_MOUNTED"
    and "ld_dss_media_info w1 = ld_dss_media_info w"
    and "ld_dss_media_info w \<noteq> None"
    and "ld_response_queue w1 = ld_response_queue w"
    and "sched_retry_queue w1 = sched_retry_queue w"
    and "reqcs w1 = reqcs w"
    and "script w1 = script w"
  using assms
  by (auto simp: dev_mount_def with_medium_def set_op_status_def split_def Let_def
        EINVAL_def ENOMEM_def EFAULT_def split: option.splits if_splits)


lemma rw_alloc_result_requeue:
  assumes kw: "rq_kind (reqcs w (sr_reqc sr)) = REQ_WRITE"
    and noerr: "rq_rwalloc_rc (reqcs w (sr_reqc sr)) = 0"
    and rc: "rc \<noteq> 0"
  shows "fst (rw_alloc_result rc False True sr w) = 0"
    and "trace (snd (rw_alloc_result rc False True sr w)) = trace w"
    and "ld_op_status (snd (rw_alloc_result rc False True sr w)) = ld_op_status w"
    and "ld_dss_media_info (snd (rw_alloc_result rc False True sr w)) = ld_dss_media_info w"
    and "sched_retry_queue (snd (rw_alloc_result rc False True sr w)) = sched_retry_queue w @ [sr]"
    and "ld_sub_request (snd (rw_alloc_result rc False True sr w)) = None"
    and "ld_response_queue (snd (rw_alloc_result rc False True sr w)) = ld_response_queue w"
  using assms
  by (simp_all add: rw_alloc_result_def handle_rwalloc_sub_request_result_def
        locked_cancel_rwalloc_on_error_def rwalloc_can_be_requeued_def rwalloc_out_free_def
        rw_out_free_def upd_reqc_def split_def Let_def)

text \<open>
  C3 (as amended). For a write allocation, after a successful mount, when \<open>df\<close> reports the
  filesystem read-only, the worker sets the fs-status of the medium to FULL in memory and
  writes it to the DSS. If that write fails the worker returns its code at once and the
  sub-request stays in its slot with the failure-on-medium flag set. If it succeeds the
  sub-request, flagged failure-on-medium, is given to the result handler with \<open>-ENOSPC\<close>;
  for a parent without a recorded error it is pushed to the retry queue, the handler returns
  0, and the medium stays mounted in the drive: no unlock is issued.
\<close>

theorem rw_mount_read_only:
  assumes mount: "dev_mount w = (0, w1)"
    and med: "ld_dss_media_info w = Some m"
    and kw: "rq_kind (reqcs w (sr_reqc sr)) = REQ_WRITE"
    and ad: "rp_rc (script w (length (trace w1))) = 0"
    and df: "rp_rc (script w (Suc (length (trace w1)))) = 0"
    and ro: "spc_readonly (rp_space (script w (Suc (length (trace w1)))))"
    and rc: "rc = rp_rc (script w (Suc (Suc (length (trace w1)))))"
    and m1: "m1 = m\<lparr>mi_fs_status := PHO_FS_STATUS_FULL\<rparr>"
    and sr1: "sr1 = sr\<lparr>sr_failure_on_medium := True\<rparr>"
    and w3: "w3 = w1\<lparr>ld_dss_media_info := Some m1,
                     trace := trace w1 @ [Ext GetFsAdapter 0, Ext LdmFsDf 0,
                                            Ext (DssMediaSet m1 {FS_STATUS}) rc]\<rparr>"
  shows "(rc \<noteq> 0 \<longrightarrow> rw_mount sr w = (rc, w3\<lparr>ld_sub_request := Some sr1\<rparr>)) \<and>
         (rc = 0 \<longrightarrow>
            rw_mount sr w = rw_alloc_result (- ENOSPC) False True sr1 w3 \<and>
            (rq_rwalloc_rc (reqcs w (sr_reqc sr)) = 0 \<longrightarrow>
               fst (rw_mount sr w) = 0 \<and>
               trace (snd (rw_mount sr w)) = trace w3 \<and>
               ld_op_status (snd (rw_mount sr w)) = PHO_DEV_OP_ST_MOUNTED \<and>
               ld_dss_media_info (snd (rw_mount sr w)) = Some m1 \<and>
               sched_retry_queue (snd (rw_mount sr w)) = sched_retry_queue w @ [sr1] \<and>
               ld_sub_request (snd (rw_mount sr w)) = None \<and>
               ld_response_queue (snd (rw_mount sr w)) = ld_response_queue w))"
proof -
  note mo = dev_mount_ok [OF mount]
  have wr: "dev_mount_is_writable w1
              = (False, w1\<lparr>trace := trace w1 @ [Ext GetFsAdapter 0, Ext LdmFsDf 0]\<rparr>)"
    using ad df ro mo(7) by (simp add: dev_mount_is_writable_def ext_def Let_def)
  have step: "rw_mount sr w
                = (if rc \<noteq> 0 then (rc, w3\<lparr>ld_sub_request := Some sr1\<rparr>)
                   else rw_alloc_result (- ENOSPC) False True sr1 w3)"
    using mount wr kw med mo(2,6,7) rc
    by (simp add: rw_mount_def ext_def Let_def m1 sr1 w3)
  have k: "rq_kind (reqcs w3 (sr_reqc sr1)) = REQ_WRITE"
    using kw mo(6) by (simp add: w3 sr1)
  have e: "rq_rwalloc_rc (reqcs w (sr_reqc sr)) = 0 \<Longrightarrow> rq_rwalloc_rc (reqcs w3 (sr_reqc sr1)) = 0"
    using mo(6) by (simp add: w3 sr1)
  have n: "- ENOSPC \<noteq> 0" by (simp add: ENOSPC_def)
  show ?thesis
    using step rw_alloc_result_requeue [OF k e n] mo(1,4,5)
    by (auto simp: w3)
qed

text \<open>
  C3 as stated fails where it says the medium is released: on a loaded medium that mounts
  read-only, every call of \<open>dev_handle_read_write\<close> is listed here, the last one is the DSS
  write of FULL, none is an unlock, and the medium is still mounted in the drive.
\<close>

theorem read_only_medium_not_released_counterexample:
  "fst (dev_handle_read_write world_ro) = 0 \<and>
   trace (snd (dev_handle_read_write world_ro))
     = [Ext GetFsAdapter 0, Ext LdmFsMounted 0, OpStatus PHO_DEV_OP_ST_MOUNTED,
        Ext GetFsAdapter 0, Ext LdmFsDf 0,
        Ext (DssMediaSet (medium0\<lparr>mi_fs_status := PHO_FS_STATUS_FULL\<rparr>) {FS_STATUS}) 0] \<and>
   ld_op_status (snd (dev_handle_read_write world_ro)) = PHO_DEV_OP_ST_MOUNTED \<and>
   ld_dss_media_info (snd (dev_handle_read_write world_ro))
     = Some (medium0\<lparr>mi_fs_status := PHO_FS_STATUS_FULL\<rparr>)"
  by (simp add: dev_handle_read_write_def cancel_subrequest_on_error_def
        locked_cancel_rwalloc_on_error_def alloc_medium_at_def rw_mount_def dev_mount_def
        with_medium_def dev_mount_is_writable_def rw_alloc_result_def
        handle_rwalloc_sub_request_result_def rwalloc_can_be_requeued_def rwalloc_out_free_def
        rw_out_free_def upd_reqc_def upd_rwalloc_medium_def set_op_status_def ext_def
        world_ro_def world0_def reply0_def reqc0_def sr0_def ENOSPC_def split_def Let_def)


theorem rw_mount_read_only_witness:
  "dev_mount world_ro = (0, snd (dev_mount world_ro)) \<and>
   rq_kind (reqcs world_ro (sr_reqc sr0)) = REQ_WRITE \<and>
   fst (rw_mount sr0 world_ro) = 0 \<and>
   ld_op_status (snd (rw_mount sr0 world_ro)) = PHO_DEV_OP_ST_MOUNTED \<and>
   ld_dss_media_info (snd (rw_mount sr0 world_ro))
     = Some (medium0\<lparr>mi_fs_status := PHO_FS_STATUS_FULL\<rparr>) \<and>
   sched_retry_queue (snd (rw_mount sr0 world_ro)) = [sr0\<lparr>sr_failure_on_medium := True\<rparr>] \<and>
   ld_sub_request (snd (rw_mount sr0 world_ro)) = None"
proof -
  let ?w1 = "snd (dev_mount world_ro)"
  have f: "fst (dev_mount world_ro) = 0"
    by (simp add: dev_mount_def with_medium_def ext_def set_op_status_def world_ro_def
          world0_def reply0_def Let_def)
  have h1: "dev_mount world_ro = (0, ?w1)"
    using f by (metis prod.collapse)
  have h2: "ld_dss_media_info world_ro = Some medium0"
    by (simp add: world_ro_def world0_def)
  have h3: "rq_kind (reqcs world_ro (sr_reqc sr0)) = REQ_WRITE"
    by (simp add: world_ro_def world0_def)
  have s: "script world_ro n
             = reply0\<lparr>rp_space := \<lparr>spc_used = 1000, spc_avail = 10, spc_readonly = True\<rparr>\<rparr>" for n
    by (simp add: world_ro_def world0_def)
  have h4: "rp_rc (script world_ro (length (trace ?w1))) = 0"
    by (simp add: s reply0_def)
  have h5: "rp_rc (script world_ro (Suc (length (trace ?w1)))) = 0"
    by (simp add: s reply0_def)
  have h6: "spc_readonly (rp_space (script world_ro (Suc (length (trace ?w1)))))"
    by (simp add: s)
  have h7: "rp_rc (script world_ro (Suc (Suc (length (trace ?w1))))) = 0"
    by (simp add: s reply0_def)
  have q: "sched_retry_queue world_ro = []" "rq_rwalloc_rc (reqcs world_ro (sr_reqc sr0)) = 0"
    by (simp_all add: world_ro_def world0_def reqc0_def)
  from rw_mount_read_only [OF h1 h2 h3 h4 h5 h6 refl refl refl refl] h7 q(2)
  have b: "fst (rw_mount sr0 world_ro) = 0 \<and>
           ld_op_status (snd (rw_mount sr0 world_ro)) = PHO_DEV_OP_ST_MOUNTED \<and>
           ld_dss_media_info (snd (rw_mount sr0 world_ro))
             = Some (medium0\<lparr>mi_fs_status := PHO_FS_STATUS_FULL\<rparr>) \<and>
           sched_retry_queue (snd (rw_mount sr0 world_ro))
             = sched_retry_queue world_ro @ [sr0\<lparr>sr_failure_on_medium := True\<rparr>] \<and>
           ld_sub_request (snd (rw_mount sr0 world_ro)) = None"
    by blast
  show ?thesis using b h1 h3 q(1) by simp
qed

section \<open>Histories, frames and the state machine\<close>


lemma ext_snd [simp]:
  "snd (ext c w) = w\<lparr>trace := trace w @ [Ext c (rp_rc (script w (length (trace w))))]\<rparr>"
  by (simp add: ext_def Let_def)

lemma monitor_append:
  "monitor f s (xs @ ys) = (case monitor f s xs of None \<Rightarrow> None | Some s1 \<Rightarrow> monitor f s1 ys)"
  by (induction xs arbitrary: s) (auto split: option.splits)

lemma monitor_filter:
  assumes "\<And>s e. \<not> P e \<Longrightarrow> f s e = Some s"
  shows "monitor f s (filter P tr) = monitor f s tr"
  using assms by (induction tr arbitrary: s) (auto split: option.splits)

lemma walk_step_irrelevant: "\<not> walk_event e \<Longrightarrow> walk_step st e = Some st"
  by (cases e) (auto simp: walk_event_def walk_step_def)


lemma quiet_walk [simp]: "quiet walk_event"
  by (auto simp: quiet_def aux_event_def walk_event_def split: event.splits)

lemma quiet_lock [simp]: "quiet lock_event"
  by (auto simp: quiet_def aux_event_def lock_event_def split: event.splits)

lemma aux_event_simps [simp]:
  "aux_event (OpStatus s) = False"
  "aux_event (Ext c rc) = (\<not> move_call c \<and> \<not> lock_call c)"
  by (simp_all add: aux_event_def)

lemma filter_snoc_quiet:
  "quiet P \<Longrightarrow> aux_event e \<Longrightarrow> filter P (tr @ [e]) = filter P tr"
  by (simp add: quiet_def)

lemma call_class_simps [simp]:
  "move_call ClockGettime = False" "lock_call ClockGettime = False"
  "move_call (ThreadSignalTimedWait d) = False" "lock_call (ThreadSignalTimedWait d) = False"
  "move_call GetFsAdapter = False" "lock_call GetFsAdapter = False"
  "move_call GetIoAdapter = False" "lock_call GetIoAdapter = False"
  "move_call IoaMediumSync = False" "lock_call IoaMediumSync = False"
  "move_call LdmFsDf = False" "lock_call LdmFsDf = False"
  "move_call LdmFsUmount = True" "lock_call LdmFsUmount = False"
  "move_call LdmFsMounted = True" "lock_call LdmFsMounted = False"
  "move_call LdmFsMount = True" "lock_call LdmFsMount = False"
  "move_call LdmFsFormat = False" "lock_call LdmFsFormat = False"
  "move_call Basename = False" "lock_call Basename = False"
  "move_call MountPoint = False" "lock_call MountPoint = False"
  "move_call GetLibAdapter = False" "lock_call GetLibAdapter = False"
  "move_call CfgLibDevice = False" "lock_call CfgLibDevice = False"
  "move_call LdmLibOpen = False" "lock_call LdmLibOpen = False"
  "move_call (LdmLibMediaLookup n) = False" "lock_call (LdmLibMediaLookup n) = False"
  "move_call (LdmLibMediaMove a b) = True" "lock_call (LdmLibMediaMove a b) = False"
  "move_call LdmLibClose = False" "lock_call LdmLibClose = False"
  "move_call (DssMediaSet m f) = False" "lock_call (DssMediaSet m f) = True"
  "move_call (DssDeviceUpdateAdmStatus di) = False" "lock_call (DssDeviceUpdateAdmStatus di) = True"
  "move_call (DssUnlock t n) = False" "lock_call (DssUnlock t n) = True"
  "move_call (QueueErrorResponse r x) = False" "lock_call (QueueErrorResponse r x) = False"
  "move_call (AllocResponse r) = False" "lock_call (AllocResponse r) = False"
  "move_call (FillRwallocResp r) = False" "lock_call (FillRwallocResp r) = False"
  "move_call (RwallocCancelDoneDevices r) = False" "lock_call (RwallocCancelDoneDevices r) = False"
  "move_call (SchedReqFree ro) = False" "lock_call (SchedReqFree ro) = False"
  "move_call (FormatMediumRemove no) = False" "lock_call (FormatMediumRemove no) = False"
  by (simp_all add: move_call_def lock_call_def)

lemma event_class_simps [simp]:
  "walk_event (OpStatus s) = True"
  "walk_event (Ext c rc) = move_call c"
  "lock_event (OpStatus s) = False"
  "lock_event (Ext c rc) = lock_call c"
  by (simp_all add: walk_event_def lock_event_def)

lemma quiet_ext:
  "quiet P \<Longrightarrow> \<not> move_call c \<Longrightarrow> \<not> lock_call c \<Longrightarrow>
   filter P (trace (snd (ext c w))) = filter P (trace w)"
  by (simp add: quiet_def)


lemma set_op_status_simps [simp]:
  "trace (set_op_status s w) = trace w @ [OpStatus s]"
  "ld_op_status (set_op_status s w) = s"
  "script (set_op_status s w) = script w"
  "ld_dss_media_info (set_op_status s w) = ld_dss_media_info w"
  "ld_dss_dev_info (set_op_status s w) = ld_dss_dev_info w"
  "ld_lib_dev_addr (set_op_status s w) = ld_lib_dev_addr w"
  "ld_sub_request (set_op_status s w) = ld_sub_request w"
  "ld_response_queue (set_op_status s w) = ld_response_queue w"
  "reqcs (set_op_status s w) = reqcs w"
  "thread_status (set_op_status s w) = thread_status w"
  "thread_state (set_op_status s w) = thread_state w"
  "tosync_array (set_op_status s w) = tosync_array w"
  by (simp_all add: set_op_status_def)

text \<open>The functions that issue only calls of the third class and write no status.\<close>

lemma sched_req_free_quiet [simp]:
  "quiet P \<Longrightarrow> filter P (trace (sched_req_free r w)) = filter P (trace w)"
  "script (sched_req_free r w) = script w"
  "ld_op_status (sched_req_free r w) = ld_op_status w"
  "ld_dss_media_info (sched_req_free r w) = ld_dss_media_info w"
  "ld_dss_dev_info (sched_req_free r w) = ld_dss_dev_info w"
  "thread_status (sched_req_free r w) = thread_status w"
  "tosync_array (sched_req_free r w) = tosync_array w"
  "ld_sub_request (sched_req_free r w) = ld_sub_request w"
  "thread_state (sched_req_free r w) = thread_state w"
  "ld_ongoing_io (sched_req_free r w) = ld_ongoing_io w"
  by (simp_all add: sched_req_free_def quiet_def)

lemma sub_request_free_quiet [simp]:
  "quiet P \<Longrightarrow> filter P (trace (sub_request_free r w)) = filter P (trace w)"
  "script (sub_request_free r w) = script w"
  "ld_op_status (sub_request_free r w) = ld_op_status w"
  "ld_dss_media_info (sub_request_free r w) = ld_dss_media_info w"
  "ld_dss_dev_info (sub_request_free r w) = ld_dss_dev_info w"
  "thread_status (sub_request_free r w) = thread_status w"
  "tosync_array (sub_request_free r w) = tosync_array w"
  "ld_sub_request (sub_request_free r w) = ld_sub_request w"
  "thread_state (sub_request_free r w) = thread_state w"
  "ld_ongoing_io (sub_request_free r w) = ld_ongoing_io w"
  by (simp_all add: sub_request_free_def)

lemma queue_error_response_quiet [simp]:
  "quiet P \<Longrightarrow> filter P (trace (snd (queue_error_response rc rid w))) = filter P (trace w)"
  "script (snd (queue_error_response rc rid w)) = script w"
  "ld_op_status (snd (queue_error_response rc rid w)) = ld_op_status w"
  "ld_dss_media_info (snd (queue_error_response rc rid w)) = ld_dss_media_info w"
  "ld_dss_dev_info (snd (queue_error_response rc rid w)) = ld_dss_dev_info w"
  "thread_status (snd (queue_error_response rc rid w)) = thread_status w"
  "tosync_array (snd (queue_error_response rc rid w)) = tosync_array w"
  "ld_sub_request (snd (queue_error_response rc rid w)) = ld_sub_request w"
  by (simp_all add: queue_error_response_def split_def Let_def quiet_def)

lemma queue_release_response_quiet [simp]:
  "quiet P \<Longrightarrow> filter P (trace (snd (queue_release_response rid w))) = filter P (trace w)"
  "script (snd (queue_release_response rid w)) = script w"
  "ld_op_status (snd (queue_release_response rid w)) = ld_op_status w"
  "ld_dss_media_info (snd (queue_release_response rid w)) = ld_dss_media_info w"
  "ld_dss_dev_info (snd (queue_release_response rid w)) = ld_dss_dev_info w"
  "thread_status (snd (queue_release_response rid w)) = thread_status w"
  "tosync_array (snd (queue_release_response rid w)) = tosync_array w"
  "ld_sub_request (snd (queue_release_response rid w)) = ld_sub_request w"
  by (simp_all add: queue_release_response_def split_def Let_def quiet_def)

lemma queue_format_response_quiet [simp]:
  "quiet P \<Longrightarrow> filter P (trace (snd (queue_format_response rid w))) = filter P (trace w)"
  "script (snd (queue_format_response rid w)) = script w"
  "ld_op_status (snd (queue_format_response rid w)) = ld_op_status w"
  "ld_dss_media_info (snd (queue_format_response rid w)) = ld_dss_media_info w"
  "ld_dss_dev_info (snd (queue_format_response rid w)) = ld_dss_dev_info w"
  "thread_status (snd (queue_format_response rid w)) = thread_status w"
  "tosync_array (snd (queue_format_response rid w)) = tosync_array w"
  "ld_sub_request (snd (queue_format_response rid w)) = ld_sub_request w"
  by (simp_all add: queue_format_response_def split_def Let_def quiet_def)

lemma clean_tosync_body_quiet [simp]:
  "quiet P \<Longrightarrow> filter P (trace (snd (clean_tosync_body rc req irc w))) = filter P (trace w)"
  "script (snd (clean_tosync_body rc req irc w)) = script w"
  "ld_op_status (snd (clean_tosync_body rc req irc w)) = ld_op_status w"
  "ld_dss_media_info (snd (clean_tosync_body rc req irc w)) = ld_dss_media_info w"
  "ld_dss_dev_info (snd (clean_tosync_body rc req irc w)) = ld_dss_dev_info w"
  "thread_status (snd (clean_tosync_body rc req irc w)) = thread_status w"
  "ld_sub_request (snd (clean_tosync_body rc req irc w)) = ld_sub_request w"
  by (simp_all add: clean_tosync_body_def split_def Let_def)

lemma clean_tosync_while_quiet:
  "(quiet P \<longrightarrow> filter P (trace (snd (clean_tosync_while rc irc w))) = filter P (trace w))
   \<and> script (snd (clean_tosync_while rc irc w)) = script w
   \<and> ld_op_status (snd (clean_tosync_while rc irc w)) = ld_op_status w
   \<and> ld_dss_media_info (snd (clean_tosync_while rc irc w)) = ld_dss_media_info w
   \<and> ld_dss_dev_info (snd (clean_tosync_while rc irc w)) = ld_dss_dev_info w
   \<and> thread_status (snd (clean_tosync_while rc irc w)) = thread_status w
   \<and> ld_sub_request (snd (clean_tosync_while rc irc w)) = ld_sub_request w"
proof (induction "length (tosync_array w)" arbitrary: irc w)
  case 0
  then show ?case by (simp add: clean_tosync_while_empty)
next
  case (Suc n)
  then have ne: "tosync_array w \<noteq> []" by auto
  let ?b = "clean_tosync_body rc (last (tosync_array w)) irc
              (w\<lparr>tosync_array := butlast (tosync_array w)\<rparr>)"
  have "n = length (tosync_array (snd ?b))"
    using Suc.hyps(2) by (simp add: clean_tosync_body_array)
  from Suc.hyps(1) [OF this, of "fst ?b"] show ?case
    by (simp add: clean_tosync_while_unfold [OF ne])
qed

lemma clean_tosync_array_quiet [simp]:
  "quiet P \<Longrightarrow> filter P (trace (snd (clean_tosync_array rc w))) = filter P (trace w)"
  "script (snd (clean_tosync_array rc w)) = script w"
  "ld_op_status (snd (clean_tosync_array rc w)) = ld_op_status w"
  "ld_dss_media_info (snd (clean_tosync_array rc w)) = ld_dss_media_info w"
  "ld_dss_dev_info (snd (clean_tosync_array rc w)) = ld_dss_dev_info w"
  "thread_status (snd (clean_tosync_array rc w)) = thread_status w"
  "ld_sub_request (snd (clean_tosync_array rc w)) = ld_sub_request w"
  using clean_tosync_while_quiet [of P rc 0 w]
  by (simp_all add: clean_tosync_array_def split_def Let_def)

lemma clean_tosync_array_drained [simp]:
  "tosync_array (snd (clean_tosync_array rc w)) = []"
  using clean_tosync_while_drains [of rc 0 w]
  by (simp add: clean_tosync_array_def split_def Let_def)

lemma wrap_lib_open_quiet [simp]:
  "quiet P \<Longrightarrow> filter P (trace (snd (wrap_lib_open f w))) = filter P (trace w)"
  "thread_status (snd (wrap_lib_open f w)) = thread_status w"
  "tosync_array (snd (wrap_lib_open f w)) = tosync_array w"
  by (simp_all add: wrap_lib_open_def split_def Let_def quiet_def)

lemma medium_sync_quiet [simp]:
  "quiet P \<Longrightarrow> filter P (trace (snd (medium_sync w))) = filter P (trace w)"
  "script (snd (medium_sync w)) = script w"
  "ld_op_status (snd (medium_sync w)) = ld_op_status w"
  "ld_dss_media_info (snd (medium_sync w)) = ld_dss_media_info w"
  "ld_dss_dev_info (snd (medium_sync w)) = ld_dss_dev_info w"
  "thread_status (snd (medium_sync w)) = thread_status w"
  "tosync_array (snd (medium_sync w)) = tosync_array w"
  "ld_sub_request (snd (medium_sync w)) = ld_sub_request w"
  by (simp_all add: medium_sync_def split_def Let_def quiet_def)

lemma dev_mount_is_writable_quiet [simp]:
  "quiet P \<Longrightarrow> filter P (trace (snd (dev_mount_is_writable w))) = filter P (trace w)"
  "script (snd (dev_mount_is_writable w)) = script w"
  "ld_op_status (snd (dev_mount_is_writable w)) = ld_op_status w"
  "ld_dss_media_info (snd (dev_mount_is_writable w)) = ld_dss_media_info w"
  "ld_dss_dev_info (snd (dev_mount_is_writable w)) = ld_dss_dev_info w"
  "thread_status (snd (dev_mount_is_writable w)) = thread_status w"
  "ld_sub_request (snd (dev_mount_is_writable w)) = ld_sub_request w"
  by (simp_all add: dev_mount_is_writable_def split_def Let_def quiet_def)


lemma walk_ok_filter:
  "walk_ok s0 w \<longleftrightarrow>
     (\<exists>p. monitor walk_step (s0, None) (filter walk_event (trace w)) = Some (ld_op_status w, p))"
  by (auto simp: walk_ok_def monitor_filter [where P = walk_event, OF walk_step_irrelevant]
        split: option.splits)

lemma walk_ok_neutral:
  "filter walk_event (trace w') = filter walk_event (trace w) \<Longrightarrow>
   ld_op_status w' = ld_op_status w \<Longrightarrow> walk_ok s0 w' = walk_ok s0 w"
  by (simp add: walk_ok_filter)

text \<open>The functions that touch locks but neither move a medium nor write a status.\<close>

lemma dss_medium_release_walk [simp]:
  "filter walk_event (trace (snd (dss_medium_release m w))) = filter walk_event (trace w)"
  "script (snd (dss_medium_release m w)) = script w"
  "ld_op_status (snd (dss_medium_release m w)) = ld_op_status w"
  "ld_dss_media_info (snd (dss_medium_release m w)) = ld_dss_media_info w"
  "ld_dss_dev_info (snd (dss_medium_release m w)) = ld_dss_dev_info w"
  "thread_status (snd (dss_medium_release m w)) = thread_status w"
  "tosync_array (snd (dss_medium_release m w)) = tosync_array w"
  "ld_sub_request (snd (dss_medium_release m w)) = ld_sub_request w"
  by (simp_all add: dss_medium_release_def split_def Let_def)

lemma dss_device_release_walk [simp]:
  "filter walk_event (trace (snd (dss_device_release d w))) = filter walk_event (trace w)"
  "script (snd (dss_device_release d w)) = script w"
  "ld_op_status (snd (dss_device_release d w)) = ld_op_status w"
  "ld_dss_media_info (snd (dss_device_release d w)) = ld_dss_media_info w"
  "ld_dss_dev_info (snd (dss_device_release d w)) = ld_dss_dev_info w"
  "thread_status (snd (dss_device_release d w)) = thread_status w"
  "tosync_array (snd (dss_device_release d w)) = tosync_array w"
  "ld_sub_request (snd (dss_device_release d w)) = ld_sub_request w"
  by (simp_all add: dss_device_release_def split_def Let_def)

lemma fail_release_free_medium_walk [simp]:
  "filter walk_event (trace (snd (fail_release_free_medium m fr w))) = filter walk_event (trace w)"
  "script (snd (fail_release_free_medium m fr w)) = script w"
  "ld_op_status (snd (fail_release_free_medium m fr w)) = ld_op_status w"
  "ld_dss_media_info (snd (fail_release_free_medium m fr w)) = ld_dss_media_info w"
  "ld_dss_dev_info (snd (fail_release_free_medium m fr w)) = ld_dss_dev_info w"
  "thread_status (snd (fail_release_free_medium m fr w)) = thread_status w"
  "tosync_array (snd (fail_release_free_medium m fr w)) = tosync_array w"
  "ld_sub_request (snd (fail_release_free_medium m fr w)) = ld_sub_request w"
  by (simp_all add: fail_release_free_medium_def dss_set_medium_to_failed_def split_def Let_def)

text \<open>The five operations of the state machine.\<close>

lemma dev_umount_walk:
  assumes "ld_op_status w = PHO_DEV_OP_ST_MOUNTED" and "walk_ok s0 w"
  shows "walk_ok s0 (snd (dev_umount w))"
  using assms
  by (auto simp: walk_ok_filter dev_umount_def with_medium_def split_def Let_def monitor_append
        walk_step_def edge_call_def split: option.splits)

lemma dev_umount_status:
  "fst (dev_umount w) = 0 \<Longrightarrow> ld_op_status (snd (dev_umount w)) = PHO_DEV_OP_ST_LOADED"
  "fst (dev_umount w) \<noteq> 0 \<Longrightarrow> ld_dss_media_info w \<noteq> None \<Longrightarrow>
     ld_op_status (snd (dev_umount w)) = PHO_DEV_OP_ST_FAILED"
  by (auto simp: dev_umount_def with_medium_def split_def Let_def EFAULT_def
        split: option.splits if_splits)

lemma dev_unload_walk:
  assumes "ld_op_status w = PHO_DEV_OP_ST_LOADED" and "walk_ok s0 w"
  shows "walk_ok s0 (snd (dev_unload w))"
  using assms
  by (auto simp: walk_ok_filter dev_unload_def with_medium_def split_def Let_def monitor_append
        walk_step_def edge_call_def elvis_def split: option.splits)

lemma dev_unload_status:
  "fst (dev_unload w) = 0 \<Longrightarrow> ld_op_status (snd (dev_unload w)) = PHO_DEV_OP_ST_EMPTY"
  by (auto simp: dev_unload_def with_medium_def split_def Let_def EFAULT_def elvis_def
        split: option.splits if_splits)

lemma dev_empty_walk:
  assumes "walk_ok s0 w"
  shows "walk_ok s0 (snd (dev_empty w))"
  using assms dev_umount_walk [of w s0] dev_unload_walk [of "snd (dev_umount w)" s0]
    dev_unload_walk [of w s0]
  by (auto simp: dev_empty_def split_def Let_def)

lemma dev_empty_status:
  "fst (dev_empty w) = 0 \<Longrightarrow> ld_op_status (snd (dev_empty w)) = PHO_DEV_OP_ST_EMPTY"
  using dev_unload_status [of "snd (dev_umount w)"] dev_unload_status [of w]
  by (auto simp: dev_empty_def split_def Let_def EINVAL_def split: if_splits)

lemma dev_load_walk:
  assumes st: "ld_op_status w = PHO_DEV_OP_ST_EMPTY" and ok: "walk_ok s0 w"
  shows "walk_ok s0 (snd (dev_load m rel fr w))"
proof -
  from ok st obtain p where
    p: "monitor walk_step (s0, None) (filter walk_event (trace w)) = Some (PHO_DEV_OP_ST_EMPTY, p)"
    by (auto simp: walk_ok_filter)
  show ?thesis
    using st p
    by (simp add: walk_ok_filter dev_load_def dev_load_close_def split_def Let_def
          monitor_append walk_step_def edge_call_def)
qed

lemma dev_load_close_ok:
  "lo_rc (fst (dev_load_close lo w)) = 0 \<Longrightarrow>
     lo_rc lo = 0 \<and> ld_op_status (snd (dev_load_close lo w)) = ld_op_status w"
  by (auto simp: dev_load_close_def split_def Let_def elvis_def split: if_splits)

lemma dev_load_status:
  "lo_rc (fst (dev_load m rel fr w)) = 0 \<Longrightarrow>
     ld_op_status (snd (dev_load m rel fr w)) = PHO_DEV_OP_ST_LOADED"
  by (auto simp: dev_load_def split_def Let_def EBUSY_def
        split: if_splits dest!: dev_load_close_ok)

lemma dev_mount_walk:
  assumes "ld_op_status w = PHO_DEV_OP_ST_LOADED" and "walk_ok s0 w"
  shows "walk_ok s0 (snd (dev_mount w))"
  using assms
  by (auto simp: walk_ok_filter dev_mount_def with_medium_def split_def Let_def monitor_append
        walk_step_def edge_call_def split: option.splits)


lemma upd_reqc_simps [simp]:
  "trace (upd_reqc rid f w) = trace w"
  "script (upd_reqc rid f w) = script w"
  "ld_op_status (upd_reqc rid f w) = ld_op_status w"
  "ld_dss_media_info (upd_reqc rid f w) = ld_dss_media_info w"
  "ld_dss_dev_info (upd_reqc rid f w) = ld_dss_dev_info w"
  "ld_lib_dev_addr (upd_reqc rid f w) = ld_lib_dev_addr w"
  "thread_status (upd_reqc rid f w) = thread_status w"
  "thread_state (upd_reqc rid f w) = thread_state w"
  "ld_sub_request (upd_reqc rid f w) = ld_sub_request w"
  "tosync_array (upd_reqc rid f w) = tosync_array w"
  "ld_ongoing_io (upd_reqc rid f w) = ld_ongoing_io w"
  by (simp_all add: upd_reqc_def)

lemma locked_cancel_rwalloc_on_error_quiet [simp]:
  "trace (snd (locked_cancel_rwalloc_on_error sr w)) = trace w"
  "script (snd (locked_cancel_rwalloc_on_error sr w)) = script w"
  "ld_op_status (snd (locked_cancel_rwalloc_on_error sr w)) = ld_op_status w"
  "ld_dss_media_info (snd (locked_cancel_rwalloc_on_error sr w)) = ld_dss_media_info w"
  "ld_dss_dev_info (snd (locked_cancel_rwalloc_on_error sr w)) = ld_dss_dev_info w"
  "thread_status (snd (locked_cancel_rwalloc_on_error sr w)) = thread_status w"
  "thread_state (snd (locked_cancel_rwalloc_on_error sr w)) = thread_state w"
  "ld_sub_request (snd (locked_cancel_rwalloc_on_error sr w)) = ld_sub_request w"
  by (simp_all add: locked_cancel_rwalloc_on_error_def Let_def)

lemma cancel_subrequest_on_error_quiet [simp]:
  "quiet P \<Longrightarrow> filter P (trace (snd (cancel_subrequest_on_error sr w))) = filter P (trace w)"
  "script (snd (cancel_subrequest_on_error sr w)) = script w"
  "ld_op_status (snd (cancel_subrequest_on_error sr w)) = ld_op_status w"
  "ld_dss_media_info (snd (cancel_subrequest_on_error sr w)) = ld_dss_media_info w"
  "ld_dss_dev_info (snd (cancel_subrequest_on_error sr w)) = ld_dss_dev_info w"
  "thread_status (snd (cancel_subrequest_on_error sr w)) = thread_status w"
  "ld_sub_request (snd (cancel_subrequest_on_error sr w)) = ld_sub_request w"
  by (simp_all add: cancel_subrequest_on_error_def split_def Let_def)

lemma fill_rwalloc_resp_container_quiet [simp]:
  "quiet P \<Longrightarrow> filter P (trace (snd (fill_rwalloc_resp_container sr w))) = filter P (trace w)"
  "script (snd (fill_rwalloc_resp_container sr w)) = script w"
  "ld_op_status (snd (fill_rwalloc_resp_container sr w)) = ld_op_status w"
  "ld_dss_media_info (snd (fill_rwalloc_resp_container sr w)) = ld_dss_media_info w"
  "ld_dss_dev_info (snd (fill_rwalloc_resp_container sr w)) = ld_dss_dev_info w"
  "thread_status (snd (fill_rwalloc_resp_container sr w)) = thread_status w"
  by (simp_all add: fill_rwalloc_resp_container_def with_medium_def split_def Let_def quiet_def
        split: option.splits)

lemma rwalloc_out_free_quiet [simp]:
  "quiet P \<Longrightarrow>
     filter P (trace (snd (rwalloc_out_free rc rq cn fm en sr w))) = filter P (trace w)"
  "script (snd (rwalloc_out_free rc rq cn fm en sr w)) = script w"
  "ld_op_status (snd (rwalloc_out_free rc rq cn fm en sr w)) = ld_op_status w"
  "ld_dss_media_info (snd (rwalloc_out_free rc rq cn fm en sr w)) = ld_dss_media_info w"
  "ld_dss_dev_info (snd (rwalloc_out_free rc rq cn fm en sr w)) = ld_dss_dev_info w"
  "thread_status (snd (rwalloc_out_free rc rq cn fm en sr w)) = thread_status w"
  by (simp_all add: rwalloc_out_free_def split_def Let_def)

lemma rwalloc_try_send_quiet [simp]:
  "quiet P \<Longrightarrow> filter P (trace (snd (rwalloc_try_send rc src sr w))) = filter P (trace w)"
  "script (snd (rwalloc_try_send rc src sr w)) = script w"
  "ld_op_status (snd (rwalloc_try_send rc src sr w)) = ld_op_status w"
  "ld_dss_media_info (snd (rwalloc_try_send rc src sr w)) = ld_dss_media_info w"
  "ld_dss_dev_info (snd (rwalloc_try_send rc src sr w)) = ld_dss_dev_info w"
  "thread_status (snd (rwalloc_try_send rc src sr w)) = thread_status w"
  by (simp_all add: rwalloc_try_send_def split_def Let_def)

lemma handle_rwalloc_sub_request_result_quiet [simp]:
  "quiet P \<Longrightarrow>
     filter P (trace (snd (handle_rwalloc_sub_request_result sr src w))) = filter P (trace w)"
  "script (snd (handle_rwalloc_sub_request_result sr src w)) = script w"
  "ld_op_status (snd (handle_rwalloc_sub_request_result sr src w)) = ld_op_status w"
  "ld_dss_media_info (snd (handle_rwalloc_sub_request_result sr src w)) = ld_dss_media_info w"
  "ld_dss_dev_info (snd (handle_rwalloc_sub_request_result sr src w)) = ld_dss_dev_info w"
  "thread_status (snd (handle_rwalloc_sub_request_result sr src w)) = thread_status w"
  by (simp_all add: handle_rwalloc_sub_request_result_def split_def Let_def quiet_def)

lemma rw_out_free_quiet [simp]:
  "quiet P \<Longrightarrow> filter P (trace (snd (rw_out_free rc fd io rq w))) = filter P (trace w)"
  "script (snd (rw_out_free rc fd io rq w)) = script w"
  "ld_op_status (snd (rw_out_free rc fd io rq w)) = ld_op_status w"
  "ld_dss_media_info (snd (rw_out_free rc fd io rq w)) = ld_dss_media_info w"
  "ld_dss_dev_info (snd (rw_out_free rc fd io rq w)) = ld_dss_dev_info w"
  "thread_status (snd (rw_out_free rc fd io rq w)) = thread_status w"
  by (simp_all add: rw_out_free_def split_def Let_def)

lemma rw_alloc_result_quiet [simp]:
  "quiet P \<Longrightarrow> filter P (trace (snd (rw_alloc_result rc fd io sr w))) = filter P (trace w)"
  "script (snd (rw_alloc_result rc fd io sr w)) = script w"
  "ld_op_status (snd (rw_alloc_result rc fd io sr w)) = ld_op_status w"
  "ld_dss_media_info (snd (rw_alloc_result rc fd io sr w)) = ld_dss_media_info w"
  "ld_dss_dev_info (snd (rw_alloc_result rc fd io sr w)) = ld_dss_dev_info w"
  "thread_status (snd (rw_alloc_result rc fd io sr w)) = thread_status w"
  by (simp_all add: rw_alloc_result_def split_def Let_def)

lemma format_out_quiet [simp]:
  "quiet P \<Longrightarrow> filter P (trace (snd (format_out rc ptr m w))) = filter P (trace w)"
  "script (snd (format_out rc ptr m w)) = script w"
  "ld_op_status (snd (format_out rc ptr m w)) = ld_op_status w"
  "ld_dss_media_info (snd (format_out rc ptr m w)) = ld_dss_media_info w"
  "ld_dss_dev_info (snd (format_out rc ptr m w)) = ld_dss_dev_info w"
  "thread_status (snd (format_out rc ptr m w)) = thread_status w"
  by (simp_all add: format_out_def split_def Let_def quiet_def)

lemma format_out_response_quiet [simp]:
  "quiet P \<Longrightarrow> filter P (trace (snd (format_out_response rc rid m w))) = filter P (trace w)"
  "script (snd (format_out_response rc rid m w)) = script w"
  "ld_op_status (snd (format_out_response rc rid m w)) = ld_op_status w"
  "ld_dss_media_info (snd (format_out_response rc rid m w)) = ld_dss_media_info w"
  "ld_dss_dev_info (snd (format_out_response rc rid m w)) = ld_dss_dev_info w"
  "thread_status (snd (format_out_response rc rid m w)) = thread_status w"
  by (simp_all add: format_out_response_def split_def Let_def)

lemma remove_canceled_loop_quiet:
  "(quiet P \<longrightarrow> filter P (trace (snd (remove_canceled_loop n b w))) = filter P (trace w))
   \<and> script (snd (remove_canceled_loop n b w)) = script w
   \<and> ld_op_status (snd (remove_canceled_loop n b w)) = ld_op_status w
   \<and> ld_dss_media_info (snd (remove_canceled_loop n b w)) = ld_dss_media_info w
   \<and> ld_dss_dev_info (snd (remove_canceled_loop n b w)) = ld_dss_dev_info w
   \<and> thread_status (snd (remove_canceled_loop n b w)) = thread_status w
   \<and> thread_state (snd (remove_canceled_loop n b w)) = thread_state w
   \<and> ld_sub_request (snd (remove_canceled_loop n b w)) = ld_sub_request w"
  by (induction n arbitrary: b w) (simp_all add: Let_def)

lemma remove_canceled_sync_quiet [simp]:
  "quiet P \<Longrightarrow> filter P (trace (remove_canceled_sync w)) = filter P (trace w)"
  "script (remove_canceled_sync w) = script w"
  "ld_op_status (remove_canceled_sync w) = ld_op_status w"
  "ld_dss_media_info (remove_canceled_sync w) = ld_dss_media_info w"
  "ld_dss_dev_info (remove_canceled_sync w) = ld_dss_dev_info w"
  "thread_status (remove_canceled_sync w) = thread_status w"
  using remove_canceled_loop_quiet [of P "length (tosync_array w)" False w]
  by (simp_all add: remove_canceled_sync_def update_queue_oldest_tosync_def split_def Let_def)

lemma check_needs_sync_quiet [simp]:
  "quiet P \<Longrightarrow> filter P (trace (check_needs_sync w)) = filter P (trace w)"
  "script (check_needs_sync w) = script w"
  "ld_op_status (check_needs_sync w) = ld_op_status w"
  "ld_dss_media_info (check_needs_sync w) = ld_dss_media_info w"
  "ld_dss_dev_info (check_needs_sync w) = ld_dss_dev_info w"
  "thread_status (check_needs_sync w) = thread_status w"
  by (simp_all add: check_needs_sync_def is_past_def split_def Let_def quiet_def)

lemma dev_wait_for_signal_quiet [simp]:
  "quiet P \<Longrightarrow> filter P (trace (snd (dev_wait_for_signal w))) = filter P (trace w)"
  "script (snd (dev_wait_for_signal w)) = script w"
  "ld_op_status (snd (dev_wait_for_signal w)) = ld_op_status w"
  "ld_dss_media_info (snd (dev_wait_for_signal w)) = ld_dss_media_info w"
  "ld_dss_dev_info (snd (dev_wait_for_signal w)) = ld_dss_dev_info w"
  "thread_status (snd (dev_wait_for_signal w)) = thread_status w"
  by (simp_all add: dev_wait_for_signal_def compute_wakeup_date_def split_def Let_def quiet_def
        split: sum.splits)

lemma dev_thread_wait_quiet [simp]:
  "quiet P \<Longrightarrow> filter P (trace (snd (dev_thread_wait w))) = filter P (trace w)"
  "script (snd (dev_thread_wait w)) = script w"
  "ld_op_status (snd (dev_thread_wait w)) = ld_op_status w"
  "ld_dss_media_info (snd (dev_thread_wait w)) = ld_dss_media_info w"
  "ld_dss_dev_info (snd (dev_thread_wait w)) = ld_dss_dev_info w"
  by (simp_all add: dev_thread_wait_def split_def Let_def)

lemma dev_thread_prologue_quiet [simp]:
  "quiet P \<Longrightarrow> filter P (trace (dev_thread_prologue w)) = filter P (trace w)"
  "script (dev_thread_prologue w) = script w"
  "ld_op_status (dev_thread_prologue w) = ld_op_status w"
  "ld_dss_media_info (dev_thread_prologue w) = ld_dss_media_info w"
  "ld_dss_dev_info (dev_thread_prologue w) = ld_dss_dev_info w"
  "thread_status (dev_thread_prologue w) = thread_status w"
  by (simp_all add: dev_thread_prologue_def split_def Let_def split: option.splits)


lemma lrs_dev_media_update_walk [simp]:
  "filter walk_event (trace (snd (snd (lrs_dev_media_update m sz rc nb w))))
     = filter walk_event (trace w)"
  "script (snd (snd (lrs_dev_media_update m sz rc nb w))) = script w"
  "ld_op_status (snd (snd (lrs_dev_media_update m sz rc nb w))) = ld_op_status w"
  "ld_dss_media_info (snd (snd (lrs_dev_media_update m sz rc nb w))) = ld_dss_media_info w"
  "ld_dss_dev_info (snd (snd (lrs_dev_media_update m sz rc nb w))) = ld_dss_dev_info w"
  "thread_status (snd (snd (lrs_dev_media_update m sz rc nb w))) = thread_status w"
  "tosync_array (snd (snd (lrs_dev_media_update m sz rc nb w))) = tosync_array w"
  "tosync_size (snd (snd (lrs_dev_media_update m sz rc nb w))) = tosync_size w"
  "ld_last_client_rc (snd (snd (lrs_dev_media_update m sz rc nb w))) = ld_last_client_rc w"
  by (simp_all add: lrs_dev_media_update_def split_def Let_def)

lemma dev_sync_walk [simp]:
  "filter walk_event (trace (snd (dev_sync w))) = filter walk_event (trace w)"
  "script (snd (dev_sync w)) = script w"
  "ld_op_status (snd (dev_sync w)) = ld_op_status w"
  "ld_dss_dev_info (snd (dev_sync w)) = ld_dss_dev_info w"
  "thread_status (snd (dev_sync w)) = thread_status w"
  by (simp_all add: dev_sync_def with_medium_def split_def Let_def split: option.splits)

lemma dev_format_walk [simp]:
  "filter walk_event (trace (snd (dev_format u w))) = filter walk_event (trace w)"
  "script (snd (dev_format u w)) = script w"
  "ld_op_status (snd (dev_format u w)) = ld_op_status w"
  "ld_dss_dev_info (snd (dev_format u w)) = ld_dss_dev_info w"
  "thread_status (snd (dev_format u w)) = thread_status w"
  by (simp_all add: dev_format_def with_medium_def split_def Let_def split: option.splits)

lemma cancel_pending_format_walk [simp]:
  "filter walk_event (trace (cancel_pending_format w)) = filter walk_event (trace w)"
  "script (cancel_pending_format w) = script w"
  "ld_op_status (cancel_pending_format w) = ld_op_status w"
  "ld_dss_media_info (cancel_pending_format w) = ld_dss_media_info w"
  "ld_dss_dev_info (cancel_pending_format w) = ld_dss_dev_info w"
  "thread_status (cancel_pending_format w) = thread_status w"
  by (simp_all add: cancel_pending_format_def split_def Let_def split: option.splits)

lemma rw_mount_walk:
  assumes st: "ld_op_status w = PHO_DEV_OP_ST_LOADED" and ok: "walk_ok s0 w"
  shows "walk_ok s0 (snd (rw_mount sr w))"
proof -
  from dev_mount_walk [OF st ok] obtain p where
    p: "monitor walk_step (s0, None) (filter walk_event (trace (snd (dev_mount w))))
          = Some (ld_op_status (snd (dev_mount w)), p)"
    by (auto simp: walk_ok_filter)
  show ?thesis
    using p
    by (simp add: walk_ok_filter rw_mount_def split_def Let_def monitor_append walk_step_def
          split: option.splits)
qed

lemma dev_handle_read_write_walk:
  assumes ok: "walk_ok s0 w"
  shows "walk_ok s0 (snd (dev_handle_read_write w))"
proof (cases "ld_sub_request w")
  case None
  then show ?thesis using ok by (simp add: dev_handle_read_write_def)
next
  case (Some sr)
  let ?c = "cancel_subrequest_on_error sr w"
  let ?w0 = "snd ?c"
  have ok0: "walk_ok s0 ?w0" using ok by (simp add: walk_ok_filter)
  have out: "walk_ok s0 (snd (rw_out_free rc fd io rq ?w0))" for rc fd io rq
    using ok0 by (simp add: walk_ok_filter)
  have res: "walk_ok s0 v \<Longrightarrow> walk_ok s0 (snd (rw_alloc_result rc fd io sq v))" for rc fd io sq v
    by (simp add: walk_ok_filter)
  show ?thesis
  proof (cases "fst (fst ?c)")
    case True
    then show ?thesis using Some out by (simp add: dev_handle_read_write_def split_def Let_def)
  next
    case nc: False
    show ?thesis
    proof (cases "alloc_medium_at (sr_medium_index sr) (reqcs ?w0 (sr_reqc sr))")
      case None
      then show ?thesis
        using Some nc ok0 res rw_mount_walk [of ?w0 s0]
        by (simp add: dev_handle_read_write_def split_def Let_def)
    next
      case (Some mta)
      let ?e = "dev_empty ?w0"
      have ok1: "walk_ok s0 (snd ?e)" using ok0 by (rule dev_empty_walk)
      let ?l = "dev_load mta False True (snd ?e)"
      show ?thesis
      proof (cases "fst ?e = 0")
        case False
        then show ?thesis
          using \<open>ld_sub_request w = Some sr\<close> nc Some ok1 res
          by (simp add: dev_handle_read_write_def split_def Let_def)
      next
        case True
        then have e: "ld_op_status (snd ?e) = PHO_DEV_OP_ST_EMPTY" by (rule dev_empty_status)
        have ok2: "walk_ok s0 (snd ?l)" using e ok1 by (rule dev_load_walk)
        have up: "walk_ok s0 (snd ?l) \<Longrightarrow> walk_ok s0 ((snd ?l)\<lparr>ld_sub_request := x\<rparr>)" for x
          by (simp add: walk_ok_filter)
        have up2: "walk_ok s0 v \<Longrightarrow> walk_ok s0 (upd_reqc a f v)" for v a f
          by (simp add: walk_ok_filter)
        have ld: "lo_rc (fst ?l) = 0 \<Longrightarrow> ld_op_status (snd ?l) = PHO_DEV_OP_ST_LOADED"
          by (rule dev_load_status)
        have mnt: "lo_rc (fst ?l) = 0 \<Longrightarrow>
                     walk_ok s0 (snd (rw_mount sq (upd_reqc a f ((snd ?l)\<lparr>ld_sub_request := x\<rparr>))))"
          for sq a f x
          using ld ok2 by (intro rw_mount_walk) (simp_all add: walk_ok_filter)
        show ?thesis
          using \<open>ld_sub_request w = Some sr\<close> nc Some True ok2 res up up2 mnt
          by (simp add: dev_handle_read_write_def split_def Let_def)
      qed
    qed
  qed
qed



lemma dev_handle_format_walk:
  assumes ok: "walk_ok s0 w"
  shows "walk_ok s0 (snd (dev_handle_format w))"
proof (cases "ld_sub_request w")
  case None
  then show ?thesis using ok by (simp add: dev_handle_format_def)
next
  case (Some sr)
  show ?thesis
  proof (cases "rq_medium_to_format (reqcs w (sr_reqc sr))")
    case None
    then show ?thesis using Some ok by (simp add: dev_handle_format_def)
  next
    case mtf: (Some m)
    have resp: "walk_ok s0 v \<Longrightarrow> walk_ok s0 (snd (format_out_response rc rid x v))" for v rc rid x
      by (simp add: walk_ok_filter)
    have out: "walk_ok s0 v \<Longrightarrow> walk_ok s0 (snd (format_out rc ptr x v))" for v rc ptr x
      by (simp add: walk_ok_filter)
    have fmt: "walk_ok s0 v \<Longrightarrow> walk_ok s0 (snd (dev_format u v))" for v u
      by (simp add: walk_ok_filter)
    have qe: "walk_ok s0 v \<Longrightarrow> walk_ok s0 (snd (queue_error_response rc rid v))" for v rc rid
      by (simp add: walk_ok_filter)
    let ?e = "dev_empty w"
    have ok1: "walk_ok s0 (snd ?e)" using ok by (rule dev_empty_walk)
    have up0: "walk_ok s0 (snd ?e) \<Longrightarrow> walk_ok s0 ((snd ?e)\<lparr>sched_req_queue := q\<rparr>)" for q
      by (simp add: walk_ok_filter)
    let ?l = "dev_load m True False (snd ?e)"
    have ok2: "fst ?e = 0 \<Longrightarrow> walk_ok s0 (snd ?l)"
      using dev_empty_status [of w] ok1 by (intro dev_load_walk) simp_all
    have up: "walk_ok s0 (snd ?l) \<Longrightarrow> walk_ok s0 ((snd ?l)\<lparr>ld_sub_request := x\<rparr>)" for x
      by (simp add: walk_ok_filter)
    have up2: "walk_ok s0 (snd ?l)
                 \<Longrightarrow> walk_ok s0 ((snd ?l)\<lparr>ld_sub_request := x, reqcs := y\<rparr>)" for x y
      by (simp add: walk_ok_filter)
    show ?thesis
      using Some mtf ok ok1 ok2 resp out fmt qe up0 up up2
      by (simp add: dev_handle_format_def split_def Let_def)
  qed
qed

lemma dev_thread_work_walk:
  assumes ok: "walk_ok s0 w"
  shows "walk_ok s0 (snd (dev_thread_work w))"
proof -
  have sy: "walk_ok s0 (snd (dev_sync w))" using ok by (simp add: walk_ok_filter)
  have wt: "walk_ok s0 v \<Longrightarrow> walk_ok s0 (snd (dev_thread_wait v))" for v
    by (simp add: walk_ok_filter)
  have st: "walk_ok s0 v \<Longrightarrow> walk_ok s0 (v\<lparr>thread_status := x\<rparr>)" for v x
    by (simp add: walk_ok_filter)
  note hf = dev_handle_format_walk and hr = dev_handle_read_write_walk
  show ?thesis
    using ok sy wt st hf [of s0 w] hr [of s0 w] hf [of s0 "snd (dev_sync w)"]
      hr [of s0 "snd (dev_sync w)"]
    by (simp add: dev_thread_work_def split_def Let_def split: option.splits)
qed

lemma dev_thread_iteration_walk:
  assumes ok: "walk_ok s0 w"
  shows "walk_ok s0 (snd (dev_thread_iteration w))"
proof -
  have "walk_ok s0 (dev_thread_prologue w)" using ok by (simp add: walk_ok_filter)
  then show ?thesis unfolding dev_thread_iteration_def by (rule dev_thread_work_walk)
qed

lemma dev_thread_end_mounted_medium_walk:
  assumes ok: "walk_ok s0 w"
  shows "walk_ok s0 (dev_thread_end_mounted_medium w)"
proof (cases "ld_op_status w = PHO_DEV_OP_ST_MOUNTED")
  case False
  then show ?thesis using ok by (simp add: dev_thread_end_mounted_medium_def)
next
  case True
  have um: "walk_ok s0 (snd (dev_umount w))" using True ok by (rule dev_umount_walk)
  have a: "walk_ok s0 v \<Longrightarrow> walk_ok s0 (v\<lparr>thread_status := x\<rparr>)" for v x
    by (simp add: walk_ok_filter)
  have b: "walk_ok s0 v
             \<Longrightarrow> walk_ok s0 ((snd (fail_release_free_medium m True v))\<lparr>ld_dss_media_info := y\<rparr>)"
    for v m y
    by (simp add: walk_ok_filter)
  show ?thesis
    using True ok um a b
    by (simp add: dev_thread_end_mounted_medium_def split_def Let_def split: option.splits)
qed

lemma dev_thread_end_loaded_medium_walk:
  assumes ok: "walk_ok s0 w"
  shows "walk_ok s0 (dev_thread_end_loaded_medium w)"
  using ok
  by (auto simp: walk_ok_filter dev_thread_end_loaded_medium_def split_def Let_def
        split: option.splits)

lemma dev_thread_end_device_walk:
  assumes ok: "walk_ok s0 w"
  shows "walk_ok s0 (dev_thread_end_device w)"
proof -
  from ok obtain p where
    p: "monitor walk_step (s0, None) (filter walk_event (trace w)) = Some (ld_op_status w, p)"
    by (auto simp: walk_ok_filter)
  show ?thesis
    using p
    by (simp add: walk_ok_filter dev_thread_end_device_def split_def Let_def monitor_append
          walk_step_def)
qed

lemma dev_thread_end_walk:
  assumes ok: "walk_ok s0 w"
  shows "walk_ok s0 (dev_thread_end w)"
proof -
  have 1: "walk_ok s0 (if thread_is_running w then w\<lparr>thread_state := THREAD_STOPPING\<rparr> else w)"
    using ok by (simp add: walk_ok_filter)
  have 2: "walk_ok s0 v \<Longrightarrow> walk_ok s0 (cancel_pending_format v)" for v
    by (simp add: walk_ok_filter)
  show ?thesis
    unfolding dev_thread_end_def Let_def
    by (intro dev_thread_end_device_walk dev_thread_end_loaded_medium_walk
        dev_thread_end_mounted_medium_walk 2 1)
qed


lemma at_head_walk:
  assumes "at_head w0 w" and "walk_ok s0 w0"
  shows "walk_ok s0 w"
  using assms
proof (induction rule: at_head.induct)
  case start
  then show ?case by simp
next
  case (others w w')
  then have "walk_ok s0 w" by simp
  moreover from others(2) have "trace w' = trace w" "ld_op_status w' = ld_op_status w"
    by (simp_all add: interfere_def)
  ultimately show ?case by (auto simp: walk_ok_def split: option.splits)
next
  case (turn w w')
  then have "walk_ok s0 w" by simp
  then have "walk_ok s0 (snd (dev_thread_iteration w))" by (rule dev_thread_iteration_walk)
  then show ?case by (simp add: turn(3))
qed

lemma ended_walk:
  assumes "ended w0 w" and "walk_ok s0 w0"
  shows "walk_ok s0 w"
  using assms
proof (induction rule: ended.induct)
  case (stopped w)
  from at_head_walk [OF stopped(1) stopped(3)] show ?case by (rule dev_thread_end_walk)
next
  case (failed w w')
  from at_head_walk [OF failed(1) failed(4)]
  have "walk_ok s0 (snd (dev_thread_iteration w))" by (rule dev_thread_iteration_walk)
  then have "walk_ok s0 w'" by (simp add: failed(3))
  then show ?case by (rule dev_thread_end_walk)
qed


lemma walk_from_failed:
  "monitor walk_step (PHO_DEV_OP_ST_FAILED, p) tr = Some st \<Longrightarrow>
     set (op_writes tr) \<subseteq> {PHO_DEV_OP_ST_FAILED} \<and> fst st = PHO_DEV_OP_ST_FAILED"
proof (induction tr arbitrary: p)
  case Nil
  then show ?case by (auto simp: op_writes_def)
next
  case (Cons e tr)
  show ?case
  proof (cases e)
    case (Ext c rc)
    with Cons show ?thesis by (auto simp: walk_step_def op_writes_def)
  next
    case (OpStatus s)
    with Cons show ?thesis
      by (auto simp: walk_step_def op_writes_def edge_call_def split: if_splits option.splits)
  qed
qed

lemma walk_after_failed:
  assumes "monitor walk_step st0 (pre @ OpStatus PHO_DEV_OP_ST_FAILED # post) = Some st"
  shows "set (op_writes post) \<subseteq> {PHO_DEV_OP_ST_FAILED} \<and> fst st = PHO_DEV_OP_ST_FAILED"
proof -
  from assms obtain st1 where
    "monitor walk_step st1 (OpStatus PHO_DEV_OP_ST_FAILED # post) = Some st"
    by (auto simp: monitor_append split: option.splits)
  then have "monitor walk_step (PHO_DEV_OP_ST_FAILED, None) post = Some st"
    by (simp add: walk_step_def)
  then show ?thesis by (rule walk_from_failed)
qed

text \<open>
  C8. In every state of a run of the device thread, at the head of the loop or after the
  thread has ended, the history of the run agrees with the state machine: each write of an
  operational status other than FAILED follows an edge EMPTY to LOADED, LOADED to MOUNTED,
  MOUNTED to LOADED or LOADED to EMPTY, and comes after the successful return of the
  library or filesystem call of that operation, with no other status written in between; any
  status may be followed by FAILED; and once FAILED has been written, or when the run starts
  in FAILED, every later write is FAILED and the device ends in FAILED.
\<close>

theorem op_status_state_machine:
  assumes t0: "trace w0 = []" and run: "at_head w0 w \<or> ended w0 w"
  shows "walk_ok (ld_op_status w0) w
       \<and> (\<forall>pre post. trace w = pre @ OpStatus PHO_DEV_OP_ST_FAILED # post \<longrightarrow>
            set (op_writes post) \<subseteq> {PHO_DEV_OP_ST_FAILED}
            \<and> ld_op_status w = PHO_DEV_OP_ST_FAILED)
       \<and> (ld_op_status w0 = PHO_DEV_OP_ST_FAILED \<longrightarrow>
            set (op_writes (trace w)) \<subseteq> {PHO_DEV_OP_ST_FAILED}
            \<and> ld_op_status w = PHO_DEV_OP_ST_FAILED)"
proof -
  have w0: "walk_ok (ld_op_status w0) w0" using t0 by (simp add: walk_ok_def)
  have ok: "walk_ok (ld_op_status w0) w"
    using run at_head_walk [OF _ w0] ended_walk [OF _ w0] by blast
  then obtain st where
    st: "monitor walk_step (ld_op_status w0, None) (trace w) = Some st"
    and fin: "fst st = ld_op_status w"
    by (auto simp: walk_ok_def split: option.splits)
  have a: "set (op_writes post) \<subseteq> {PHO_DEV_OP_ST_FAILED}
           \<and> ld_op_status w = PHO_DEV_OP_ST_FAILED"
    if "trace w = pre @ OpStatus PHO_DEV_OP_ST_FAILED # post" for pre post
    using walk_after_failed [of "(ld_op_status w0, None)" pre post st] st fin that by simp
  have b: "set (op_writes (trace w)) \<subseteq> {PHO_DEV_OP_ST_FAILED}
           \<and> ld_op_status w = PHO_DEV_OP_ST_FAILED"
    if "ld_op_status w0 = PHO_DEV_OP_ST_FAILED"
    using walk_from_failed [of None "trace w" st] st fin that by simp
  show ?thesis using ok a b by blast
qed

theorem op_status_state_machine_witness:
  "trace world_stopped = [] \<and>
   ended world_stopped (dev_thread_end world_stopped) \<and>
   walk_ok PHO_DEV_OP_ST_MOUNTED (dev_thread_end world_stopped) \<and>
   ld_op_status (dev_thread_end world_stopped) = PHO_DEV_OP_ST_LOADED"
proof -
  have h1: "trace world_stopped = []" by (simp add: world_stopped_def world0_def)
  have s: "thread_is_stopped world_stopped"
    by (simp add: thread_is_stopped_def world_stopped_def)
  have h2: "ended world_stopped (dev_thread_end world_stopped)"
    by (rule ended.stopped [OF at_head.start s])
  have m: "ld_op_status world_stopped = PHO_DEV_OP_ST_MOUNTED"
    by (simp add: world_stopped_def world0_def)
  have l: "ld_op_status (dev_thread_end world_stopped) = PHO_DEV_OP_ST_LOADED"
    by (simp add: dev_thread_end_def cancel_pending_format_def dev_thread_end_mounted_medium_def
          dev_thread_end_loaded_medium_def dev_thread_end_device_def dev_umount_def
          with_medium_def clean_tosync_array_def clean_tosync_while_empty dss_medium_release_def
          dss_device_release_def thread_is_running_def ext_def set_op_status_def
          world_stopped_def world0_def reply0_def split_def Let_def)
  from op_status_state_machine [OF h1 disjI2 [OF h2]] m
  have "walk_ok PHO_DEV_OP_ST_MOUNTED (dev_thread_end world_stopped)" by simp
  then show ?thesis using h1 h2 l by simp
qed


section \<open>The sync tick\<close>

text \<open>Flushing the pending-sync list only exchanges with the scheduler and the response
  queue.\<close>

lemma clean_tosync_body_answers:
  assumes "\<And>r e x. \<not> P (Ext (QueueErrorResponse r e) x)"
    and "\<And>r x. \<not> P (Ext (AllocResponse r) x)"
    and "\<And>p x. \<not> P (Ext (SchedReqFree p) x)"
  shows "filter P (trace (snd (clean_tosync_body rc req irc w))) = filter P (trace w)"
  using assms
  by (simp add: clean_tosync_body_def queue_error_response_def queue_release_response_def
        sub_request_free_def sched_req_free_def split_def Let_def)

lemma clean_tosync_while_answers:
  assumes "\<And>r e x. \<not> P (Ext (QueueErrorResponse r e) x)"
    and "\<And>r x. \<not> P (Ext (AllocResponse r) x)"
    and "\<And>p x. \<not> P (Ext (SchedReqFree p) x)"
  shows "filter P (trace (snd (clean_tosync_while rc irc w))) = filter P (trace w)"
proof (induction "length (tosync_array w)" arbitrary: irc w)
  case 0
  then show ?case by (simp add: clean_tosync_while_empty)
next
  case (Suc n)
  then have ne: "tosync_array w \<noteq> []" by auto
  let ?b = "clean_tosync_body rc (last (tosync_array w)) irc
              (w\<lparr>tosync_array := butlast (tosync_array w)\<rparr>)"
  have "n = length (tosync_array (snd ?b))"
    using Suc.hyps(2) by (simp add: clean_tosync_body_array)
  from Suc.hyps(1) [OF this, of "fst ?b"] show ?case
    by (simp add: clean_tosync_while_unfold [OF ne] clean_tosync_body_answers [of P, OF assms])
qed

lemma clean_tosync_array_sync [simp]:
  "filter sync_call (trace (snd (clean_tosync_array rc w))) = filter sync_call (trace w)"
  using clean_tosync_while_answers [of sync_call rc 0 w]
  by (simp add: clean_tosync_array_def split_def Let_def sync_call_def)

lemma lrs_dev_media_update_sync [simp]:
  "filter sync_call (trace (snd (snd (lrs_dev_media_update m sz rc nb w))))
     = filter sync_call (trace w)"
  by (simp add: lrs_dev_media_update_def split_def Let_def sync_call_def)

lemma lrs_dev_media_update_failed:
  assumes "media_rc \<noteq> 0"
  shows "mi_adm_status (fst (snd (lrs_dev_media_update m sz media_rc nb w)))
           = PHO_RSC_ADM_ST_FAILED"
    and "\<exists>f r. ADM_STATUS \<in> f
           \<and> filter lock_event (trace (snd (snd (lrs_dev_media_update m sz media_rc nb w))))
               = filter lock_event (trace w)
                   @ [Ext (DssMediaSet (fst (snd (lrs_dev_media_update m sz media_rc nb w))) f) r]"
  using assms by (simp_all add: lrs_dev_media_update_def split_def Let_def)

lemma dev_sync_flush:
  assumes "ld_dss_media_info w = Some m" and "ld_last_client_rc w = 0"
  shows "filter sync_call (trace (snd (dev_sync w)))
           = filter sync_call (trace w)
               @ Ext GetIoAdapter (rp_rc (script w (length (trace w))))
               # (if rp_rc (script w (length (trace w))) = 0
                  then [Ext IoaMediumSync (rp_rc (script w (Suc (length (trace w)))))]
                  else [])"
  using assms
  by (simp add: dev_sync_def with_medium_def medium_sync_def split_def Let_def sync_call_def)

lemma dev_sync_skip:
  assumes med: "ld_dss_media_info w = Some m" and rc: "ld_last_client_rc w \<noteq> 0"
  shows "filter sync_call (trace (snd (dev_sync w))) = filter sync_call (trace w)"
    and "fst (dev_sync w) = ld_last_client_rc w"
    and "\<exists>m' f r. ld_dss_media_info (snd (dev_sync w)) = Some m'
           \<and> mi_adm_status m' = PHO_RSC_ADM_ST_FAILED \<and> ADM_STATUS \<in> f
           \<and> filter lock_event (trace (snd (dev_sync w)))
               = filter lock_event (trace w) @ [Ext (DssMediaSet m' f) r]"
proof -
  show "filter sync_call (trace (snd (dev_sync w))) = filter sync_call (trace w)"
    using med rc by (simp add: dev_sync_def with_medium_def split_def Let_def)
  show "fst (dev_sync w) = ld_last_client_rc w"
    using med rc by (simp add: dev_sync_def with_medium_def split_def Let_def elvis_def)
  let ?u = "lrs_dev_media_update m (tosync_size w) (ld_last_client_rc w)
              (int (length (tosync_array w))) w"
  from lrs_dev_media_update_failed(2) [OF rc, of m "tosync_size w" "int (length (tosync_array w))" w]
  obtain f r where f: "ADM_STATUS \<in> f"
    and tr: "filter lock_event (trace (snd (snd ?u)))
               = filter lock_event (trace w) @ [Ext (DssMediaSet (fst (snd ?u)) f) r]"
    by blast
  have 1: "ld_dss_media_info (snd (dev_sync w)) = Some (fst (snd ?u))"
    using med rc by (simp add: dev_sync_def with_medium_def split_def Let_def)
  have 2: "filter lock_event (trace (snd (dev_sync w))) = filter lock_event (trace (snd (snd ?u)))"
    using med rc by (simp add: dev_sync_def with_medium_def split_def Let_def)
  from 1 2 f tr lrs_dev_media_update_failed(1) [OF rc, of m "tosync_size w" "int (length (tosync_array w))" w]
  show "\<exists>m' f r. ld_dss_media_info (snd (dev_sync w)) = Some m'
           \<and> mi_adm_status m' = PHO_RSC_ADM_ST_FAILED \<and> ADM_STATUS \<in> f
           \<and> filter lock_event (trace (snd (dev_sync w)))
               = filter lock_event (trace w) @ [Ext (DssMediaSet m' f) r]"
    by auto
qed

text \<open>The head of a turn keeps the error of the client and asks for the sync.\<close>

lemma remove_canceled_loop_client:
  "ld_last_client_rc (snd (remove_canceled_loop n b w)) = ld_last_client_rc w
   \<and> ld_ongoing_io (snd (remove_canceled_loop n b w)) = ld_ongoing_io w
   \<and> ld_needs_sync (snd (remove_canceled_loop n b w)) = ld_needs_sync w"
  by (induction n arbitrary: b w)
     (simp_all add: Let_def upd_reqc_def sub_request_free_def sched_req_free_def)

lemma dev_thread_prologue_client:
  "ld_last_client_rc (dev_thread_prologue w) = ld_last_client_rc w"
  "ld_ongoing_io (dev_thread_prologue w) = ld_ongoing_io w"
  "ld_last_client_rc w \<noteq> 0 \<Longrightarrow> ld_needs_sync (dev_thread_prologue w)"
  using remove_canceled_loop_client
  by (simp_all add: dev_thread_prologue_def remove_canceled_sync_def check_needs_sync_def
        update_queue_oldest_tosync_def cancel_subrequest_on_error_def
        locked_cancel_rwalloc_on_error_def upd_reqc_def sub_request_free_def sched_req_free_def
        is_past_def split_def Let_def split: option.splits)

text \<open>A thread that ends with an error leaves the device FAILED.\<close>

lemma dev_thread_end_mounted_medium_error:
  "thread_status w \<noteq> 0 \<Longrightarrow> thread_status (dev_thread_end_mounted_medium w) = thread_status w"
  by (simp add: dev_thread_end_mounted_medium_def split_def Let_def split: option.splits)

lemma dev_thread_end_loaded_medium_error:
  "thread_status w \<noteq> 0 \<Longrightarrow> thread_status (dev_thread_end_loaded_medium w) = thread_status w"
  by (simp add: dev_thread_end_loaded_medium_def split_def Let_def split: option.splits)

lemma dev_thread_end_device_status:
  "thread_status (dev_thread_end_device w) \<noteq> 0
     \<Longrightarrow> ld_op_status (dev_thread_end_device w) = PHO_DEV_OP_ST_FAILED"
  "thread_status w \<noteq> 0 \<Longrightarrow> thread_status (dev_thread_end_device w) = thread_status w"
  by (simp_all add: dev_thread_end_device_def dss_device_release_def split_def Let_def
        split: if_splits)

lemma dev_thread_end_error:
  "thread_status (dev_thread_end w) \<noteq> 0
     \<Longrightarrow> ld_op_status (dev_thread_end w) = PHO_DEV_OP_ST_FAILED"
  "thread_status w \<noteq> 0 \<Longrightarrow> thread_status (dev_thread_end w) = thread_status w"
  by (simp_all add: dev_thread_end_def Let_def dev_thread_end_device_status
        dev_thread_end_loaded_medium_error dev_thread_end_mounted_medium_error)

lemma dev_thread_iteration_client_error:
  assumes med: "ld_dss_media_info w = Some m" and rc: "ld_last_client_rc w \<noteq> 0"
    and io: "\<not> ld_ongoing_io w"
  shows "fst (dev_thread_iteration w) = EndThread"
    and "thread_status (snd (dev_thread_iteration w)) = ld_last_client_rc w"
proof -
  let ?p = "dev_thread_prologue w"
  have m: "ld_dss_media_info ?p = Some m" using med by simp
  have c: "ld_last_client_rc ?p \<noteq> 0" using rc by (simp add: dev_thread_prologue_client)
  have r: "fst (dev_sync ?p) = ld_last_client_rc w"
    using dev_sync_skip(2) [OF m c] by (simp add: dev_thread_prologue_client)
  show "fst (dev_thread_iteration w) = EndThread"
    using r rc io dev_thread_prologue_client(3) [OF rc]
    by (simp add: dev_thread_iteration_def dev_thread_work_def dev_thread_prologue_client
          split_def Let_def)
  show "thread_status (snd (dev_thread_iteration w)) = ld_last_client_rc w"
    using r rc io dev_thread_prologue_client(3) [OF rc]
    by (simp add: dev_thread_iteration_def dev_thread_work_def dev_thread_prologue_client
          split_def Let_def)
qed


text \<open>
  C6. A sync tick is a run of \<open>dev_sync\<close> on a device that holds a medium. If the last
  return code recorded from a client is zero, the tick starts with the physical sync: the
  lookup of the I/O adapter, followed by the flush when the adapter is found. If that code is
  not zero, the tick issues no call of the physical sync, its result is that code, and the
  update of the statistics that follows gives the DSS the medium with admin-status FAILED and
  the admin-status bit in the mask; the medium kept in memory is FAILED too. In the loop of
  the thread, when no I/O is ongoing, such a turn jumps to the end of the thread with that code
  as thread status, and the end of the thread leaves the device FAILED.
\<close>

theorem dev_sync_client_error:
  assumes med: "ld_dss_media_info w = Some m"
  shows "(ld_last_client_rc w = 0 \<longrightarrow>
            filter sync_call (trace (snd (dev_sync w)))
              = filter sync_call (trace w)
                  @ Ext GetIoAdapter (rp_rc (script w (length (trace w))))
                  # (if rp_rc (script w (length (trace w))) = 0
                     then [Ext IoaMediumSync (rp_rc (script w (Suc (length (trace w)))))]
                     else []))
       \<and> (ld_last_client_rc w \<noteq> 0 \<longrightarrow>
            filter sync_call (trace (snd (dev_sync w))) = filter sync_call (trace w)
            \<and> fst (dev_sync w) = ld_last_client_rc w
            \<and> (\<exists>m' f r. ld_dss_media_info (snd (dev_sync w)) = Some m'
                  \<and> mi_adm_status m' = PHO_RSC_ADM_ST_FAILED \<and> ADM_STATUS \<in> f
                  \<and> filter lock_event (trace (snd (dev_sync w)))
                      = filter lock_event (trace w) @ [Ext (DssMediaSet m' f) r])
            \<and> (\<not> ld_ongoing_io w \<longrightarrow>
                  fst (dev_thread_iteration w) = EndThread
                  \<and> thread_status (snd (dev_thread_iteration w)) = ld_last_client_rc w
                  \<and> ld_op_status (dev_thread_end (snd (dev_thread_iteration w)))
                      = PHO_DEV_OP_ST_FAILED))"
proof (intro conjI impI)
  assume "ld_last_client_rc w = 0"
  with med show "filter sync_call (trace (snd (dev_sync w)))
              = filter sync_call (trace w)
                  @ Ext GetIoAdapter (rp_rc (script w (length (trace w))))
                  # (if rp_rc (script w (length (trace w))) = 0
                     then [Ext IoaMediumSync (rp_rc (script w (Suc (length (trace w)))))]
                     else [])"
    by (rule dev_sync_flush)
next
  assume rc: "ld_last_client_rc w \<noteq> 0"
  from med rc show "filter sync_call (trace (snd (dev_sync w))) = filter sync_call (trace w)"
    by (rule dev_sync_skip(1))
  from med rc show "fst (dev_sync w) = ld_last_client_rc w"
    by (rule dev_sync_skip(2))
  from med rc show "\<exists>m' f r. ld_dss_media_info (snd (dev_sync w)) = Some m'
                  \<and> mi_adm_status m' = PHO_RSC_ADM_ST_FAILED \<and> ADM_STATUS \<in> f
                  \<and> filter lock_event (trace (snd (dev_sync w)))
                      = filter lock_event (trace w) @ [Ext (DssMediaSet m' f) r]"
    by (rule dev_sync_skip(3))
  assume io: "\<not> ld_ongoing_io w"
  from med rc io show "fst (dev_thread_iteration w) = EndThread"
    by (rule dev_thread_iteration_client_error(1))
  from med rc io show st: "thread_status (snd (dev_thread_iteration w)) = ld_last_client_rc w"
    by (rule dev_thread_iteration_client_error(2))
  have ne: "thread_status (snd (dev_thread_iteration w)) \<noteq> 0" using st rc by simp
  show "ld_op_status (dev_thread_end (snd (dev_thread_iteration w))) = PHO_DEV_OP_ST_FAILED"
    using dev_thread_end_error(2) [OF ne] ne
    by (intro dev_thread_end_error(1)) simp
qed

theorem dev_sync_client_error_witness:
  "ld_dss_media_info world_client_error = Some medium0
   \<and> ld_last_client_rc world_client_error = - 5
   \<and> \<not> ld_ongoing_io world_client_error
   \<and> filter sync_call (trace (snd (dev_sync world_client_error))) = []
   \<and> fst (dev_sync world_client_error) = - 5
   \<and> fst (dev_thread_iteration world_client_error) = EndThread
   \<and> thread_status (snd (dev_thread_iteration world_client_error)) = - 5
   \<and> ld_op_status (dev_thread_end (snd (dev_thread_iteration world_client_error)))
       = PHO_DEV_OP_ST_FAILED
   \<and> ld_last_client_rc world_pending = 0
   \<and> filter sync_call (trace (snd (dev_sync world_pending)))
       = [Ext GetIoAdapter 0, Ext IoaMediumSync 0]"
proof -
  have e: "ld_dss_media_info world_client_error = Some medium0"
    "ld_last_client_rc world_client_error = - 5" "\<not> ld_ongoing_io world_client_error"
    "trace world_client_error = []"
    by (simp_all add: world_client_error_def world_pending_def world0_def)
  have p: "ld_dss_media_info world_pending = Some medium0"
    "ld_last_client_rc world_pending = 0" "trace world_pending = []"
    "rp_rc (script world_pending 0) = 0" "rp_rc (script world_pending (Suc 0)) = 0"
    by (simp_all add: world_pending_def world0_def reply0_def)
  from dev_sync_client_error [OF e(1)] dev_sync_client_error [OF p(1)] e p
  show ?thesis by simp
qed


section \<open>The locks at the end of the thread\<close>

lemma quiet_nonaux [simp]: "quiet (\<lambda>e. \<not> aux_event e)"
  by (simp add: quiet_def)

lemma fail_release_free_medium_events:
  "trace (snd (fail_release_free_medium m fm w))
     = trace w @ medium_failed_events m (rp_rc (script w (length (trace w))))
                   (rp_rc (script w (Suc (length (trace w)))))"
  by (simp add: fail_release_free_medium_def dss_set_medium_to_failed_def dss_medium_release_def
        medium_failed_events_def split_def Let_def)

lemma fail_release_free_medium_lock:
  "\<exists>r1 r2. filter lock_event (trace (snd (fail_release_free_medium m fm w)))
             = filter lock_event (trace w) @ medium_failed_events m r1 r2"
  by (simp add: fail_release_free_medium_def dss_set_medium_to_failed_def dss_medium_release_def
        medium_failed_events_def split_def Let_def)

lemma dev_umount_frame [simp]:
  "filter lock_event (trace (snd (dev_umount w))) = filter lock_event (trace w)"
  "ld_dss_media_info (snd (dev_umount w)) = ld_dss_media_info w"
  "ld_dss_dev_info (snd (dev_umount w)) = ld_dss_dev_info w"
  "thread_status (snd (dev_umount w)) = thread_status w"
  "ld_sub_request (snd (dev_umount w)) = ld_sub_request w"
  by (simp_all add: dev_umount_def with_medium_def split_def Let_def split: option.splits)

lemma dev_umount_done:
  assumes "ld_dss_media_info w = Some m" and "fst (dev_umount w) = 0"
  shows "filter (\<lambda>e. \<not> aux_event e) (trace (snd (dev_umount w)))
           = filter (\<lambda>e. \<not> aux_event e) (trace w) @ [Ext LdmFsUmount 0, OpStatus PHO_DEV_OP_ST_LOADED]"
  using assms
  by (simp add: dev_umount_def with_medium_def split_def Let_def split: if_splits)

text \<open>The three stages of the end of the thread, entered without error.\<close>

lemma dev_thread_end_mounted_medium_stage:
  assumes st: "thread_status w = 0" and op: "ld_op_status w = PHO_DEV_OP_ST_MOUNTED"
    and med: "ld_dss_media_info w = Some m"
  shows "(thread_status (dev_thread_end_mounted_medium w) = 0
          \<and> ld_op_status (dev_thread_end_mounted_medium w) = PHO_DEV_OP_ST_LOADED
          \<and> ld_dss_media_info (dev_thread_end_mounted_medium w) = Some m
          \<and> filter (\<lambda>e. \<not> aux_event e) (trace (dev_thread_end_mounted_medium w))
              = filter (\<lambda>e. \<not> aux_event e) (trace w)
                  @ [Ext LdmFsUmount 0, OpStatus PHO_DEV_OP_ST_LOADED]
          \<and> filter lock_event (trace (dev_thread_end_mounted_medium w))
              = filter lock_event (trace w))
       \<or> (thread_status (dev_thread_end_mounted_medium w) \<noteq> 0
          \<and> ld_op_status (dev_thread_end_mounted_medium w) = PHO_DEV_OP_ST_FAILED
          \<and> (\<exists>r1 r2. filter lock_event (trace (dev_thread_end_mounted_medium w))
                        = filter lock_event (trace w) @ medium_failed_events m r1 r2))"
proof (cases "fst (dev_umount w) = 0")
  case True
  have eq: "dev_thread_end_mounted_medium w = snd (dev_umount w)"
    using st op True by (simp add: dev_thread_end_mounted_medium_def split_def Let_def)
  show ?thesis
    using dev_umount_done [OF med True] dev_umount_status(1) [OF True] st med
    by (simp add: eq)
next
  case False
  let ?v = "(snd (dev_umount w))\<lparr>thread_status := fst (dev_umount w)\<rparr>"
  have eq: "dev_thread_end_mounted_medium w
              = (snd (fail_release_free_medium m True ?v))\<lparr>ld_dss_media_info := None\<rparr>"
    using st op False med
    by (simp add: dev_thread_end_mounted_medium_def fail_release_free_medium_def split_def Let_def)
  have f: "ld_op_status (snd (dev_umount w)) = PHO_DEV_OP_ST_FAILED"
    using dev_umount_status(2) [OF False] med by simp
  from fail_release_free_medium_lock [of m True ?v] obtain r1 r2 where
    "filter lock_event (trace (snd (fail_release_free_medium m True ?v)))
       = filter lock_event (trace ?v) @ medium_failed_events m r1 r2" by blast
  then show ?thesis
    using False f by (auto simp: eq)
qed

lemma dev_thread_end_mounted_medium_frame [simp]:
  "ld_dss_dev_info (dev_thread_end_mounted_medium w) = ld_dss_dev_info w"
  "ld_op_status w \<noteq> PHO_DEV_OP_ST_MOUNTED \<Longrightarrow> dev_thread_end_mounted_medium w = w"
  by (simp_all add: dev_thread_end_mounted_medium_def split_def Let_def split: option.splits)

lemma dev_thread_end_loaded_medium_stage:
  assumes st: "thread_status w = 0" and op: "ld_op_status w = PHO_DEV_OP_ST_LOADED"
    and med: "ld_dss_media_info w = Some m"
  shows "(thread_status (dev_thread_end_loaded_medium w) = 0
          \<and> ld_op_status (dev_thread_end_loaded_medium w) = PHO_DEV_OP_ST_LOADED
          \<and> filter (\<lambda>e. \<not> aux_event e) (trace (dev_thread_end_loaded_medium w))
              = filter (\<lambda>e. \<not> aux_event e) (trace w) @ [Ext (DssUnlock DSS_MEDIA (mi_name m)) 0]
          \<and> filter lock_event (trace (dev_thread_end_loaded_medium w))
              = filter lock_event (trace w) @ [Ext (DssUnlock DSS_MEDIA (mi_name m)) 0])
       \<or> (thread_status (dev_thread_end_loaded_medium w) \<noteq> 0
          \<and> (\<exists>r0 r1 r2. r0 \<noteq> 0
                \<and> filter lock_event (trace (dev_thread_end_loaded_medium w))
                    = filter lock_event (trace w)
                        @ Ext (DssUnlock DSS_MEDIA (mi_name m)) r0 # medium_failed_events m r1 r2))"
proof (cases "fst (dss_medium_release m w) = 0")
  case True
  then show ?thesis
    using st op med
    by (simp add: dev_thread_end_loaded_medium_def dss_medium_release_def split_def Let_def)
next
  case False
  let ?v = "(snd (dss_medium_release m w))\<lparr>thread_status := fst (dss_medium_release m w)\<rparr>"
  have eq: "dev_thread_end_loaded_medium w
              = (snd (fail_release_free_medium m True ?v))\<lparr>ld_dss_media_info := None\<rparr>"
    using st op False med
    by (simp add: dev_thread_end_loaded_medium_def fail_release_free_medium_def split_def Let_def)
  from fail_release_free_medium_lock [of m True ?v] obtain r1 r2 where
    "filter lock_event (trace (snd (fail_release_free_medium m True ?v)))
       = filter lock_event (trace ?v) @ medium_failed_events m r1 r2" by blast
  then show ?thesis
    using False by (auto simp: eq dss_medium_release_def split_def Let_def)
qed

lemma dev_thread_end_loaded_medium_frame [simp]:
  "ld_dss_dev_info (dev_thread_end_loaded_medium w) = ld_dss_dev_info w"
  "ld_op_status w \<noteq> PHO_DEV_OP_ST_LOADED \<Longrightarrow> dev_thread_end_loaded_medium w = w"
  by (simp_all add: dev_thread_end_loaded_medium_def split_def Let_def split: option.splits)

lemma dev_thread_end_device_error:
  assumes st: "thread_status w \<noteq> 0"
  shows "\<exists>r1 r2. filter lock_event (trace (dev_thread_end_device w))
                   = filter lock_event (trace w) @ device_failed_events (ld_dss_dev_info w) r1 r2"
  using st
  by (simp add: dev_thread_end_device_def dss_device_release_def device_failed_events_def
        split_def Let_def)

lemma dev_thread_end_device_stage:
  assumes st: "thread_status w = 0"
  shows "(thread_status (dev_thread_end_device w) = 0
          \<and> ld_op_status (dev_thread_end_device w) = ld_op_status w
          \<and> filter (\<lambda>e. \<not> aux_event e) (trace (dev_thread_end_device w))
              = filter (\<lambda>e. \<not> aux_event e) (trace w)
                  @ [Ext (DssUnlock DSS_DEVICE (di_name (ld_dss_dev_info w))) 0])
       \<or> (thread_status (dev_thread_end_device w) \<noteq> 0
          \<and> (\<exists>r0 r1 r2. r0 \<noteq> 0
                \<and> filter lock_event (trace (dev_thread_end_device w))
                    = filter lock_event (trace w)
                        @ Ext (DssUnlock DSS_DEVICE (di_name (ld_dss_dev_info w))) r0
                        # device_failed_events (ld_dss_dev_info w) r1 r2))"
  using st
  by (simp add: dev_thread_end_device_def dss_device_release_def device_failed_events_def
        split_def Let_def)


lemma dev_thread_end_idle:
  assumes sub: "ld_sub_request w = None"
  shows "\<exists>w1. dev_thread_end w
              = dev_thread_end_device (dev_thread_end_loaded_medium (dev_thread_end_mounted_medium w1))
           \<and> trace w1 = trace w \<and> thread_status w1 = thread_status w
           \<and> ld_op_status w1 = ld_op_status w \<and> ld_dss_media_info w1 = ld_dss_media_info w
           \<and> ld_dss_dev_info w1 = ld_dss_dev_info w \<and> script w1 = script w"
proof -
  let ?w1 = "if thread_is_running w then w\<lparr>thread_state := THREAD_STOPPING\<rparr> else w"
  have "dev_thread_end w
          = dev_thread_end_device (dev_thread_end_loaded_medium (dev_thread_end_mounted_medium ?w1))"
    using sub by (simp add: dev_thread_end_def cancel_pending_format_def Let_def)
  then show ?thesis
    by (intro exI [of _ ?w1]) simp
qed

text \<open>
  C9. The end of the thread, entered without error and with nothing pending, on a device that
  holds a medium and is MOUNTED or LOADED. Apart from the calls of the third class,

  \<^item> if the thread ends without error, the history grows by the unmount and the write of
    LOADED when the device was MOUNTED, then by the unlock of the medium and, after it, the
    unlock of the device, all of them successful: no medium is moved, and the device ends
    LOADED;

  \<^item> if the thread ends with an error, the device ends FAILED and the DSS calls on status and
    locks end with the update of the device to FAILED, followed by the unlock of the device
    only when that update has succeeded. Before it come: after a failed unmount, the update
    of the medium to FAILED and its unlock only when the update has succeeded; or the failed
    unlock of the medium, followed by the same; or the successful unlock of the medium and the
    failed unlock of the device.
\<close>

theorem dev_thread_end_releases:
  assumes sub: "ld_sub_request w = None" and st: "thread_status w = 0"
    and med: "ld_dss_media_info w = Some m"
    and op: "ld_op_status w = PHO_DEV_OP_ST_MOUNTED \<or> ld_op_status w = PHO_DEV_OP_ST_LOADED"
  shows "(thread_status (dev_thread_end w) = 0 \<longrightarrow>
            ld_op_status (dev_thread_end w) = PHO_DEV_OP_ST_LOADED
            \<and> filter (\<lambda>e. \<not> aux_event e) (trace (dev_thread_end w))
                = filter (\<lambda>e. \<not> aux_event e) (trace w)
                    @ (if ld_op_status w = PHO_DEV_OP_ST_MOUNTED
                       then [Ext LdmFsUmount 0, OpStatus PHO_DEV_OP_ST_LOADED] else [])
                    @ [Ext (DssUnlock DSS_MEDIA (mi_name m)) 0,
                       Ext (DssUnlock DSS_DEVICE (di_name (ld_dss_dev_info w))) 0])
       \<and> (thread_status (dev_thread_end w) \<noteq> 0 \<longrightarrow>
            ld_op_status (dev_thread_end w) = PHO_DEV_OP_ST_FAILED
            \<and> (\<exists>pre r1 r2 r3 r4 r5.
                  filter lock_event (trace (dev_thread_end w))
                    = filter lock_event (trace w) @ pre
                        @ device_failed_events (ld_dss_dev_info w) r4 r5
                  \<and> (pre = medium_failed_events m r2 r3
                      \<or> r1 \<noteq> 0
                        \<and> pre = Ext (DssUnlock DSS_MEDIA (mi_name m)) r1
                                 # medium_failed_events m r2 r3
                      \<or> r1 \<noteq> 0
                        \<and> pre = [Ext (DssUnlock DSS_MEDIA (mi_name m)) 0,
                                  Ext (DssUnlock DSS_DEVICE (di_name (ld_dss_dev_info w))) r1])))"
proof -
  from dev_thread_end_idle [OF sub] obtain w1 where
    e: "dev_thread_end w
          = dev_thread_end_device (dev_thread_end_loaded_medium (dev_thread_end_mounted_medium w1))"
    and w1: "trace w1 = trace w" "thread_status w1 = thread_status w"
      "ld_op_status w1 = ld_op_status w" "ld_dss_media_info w1 = ld_dss_media_info w"
      "ld_dss_dev_info w1 = ld_dss_dev_info w"
    by blast
  let ?um = "if ld_op_status w = PHO_DEV_OP_ST_MOUNTED
             then [Ext LdmFsUmount 0, OpStatus PHO_DEV_OP_ST_LOADED] else []"
  let ?x = "dev_thread_end_mounted_medium w1"
  let ?y = "dev_thread_end_loaded_medium ?x"
  let ?z = "dev_thread_end_device ?y"
  let ?Um = "Ext (DssUnlock DSS_MEDIA (mi_name m))"
  let ?Ud = "Ext (DssUnlock DSS_DEVICE (di_name (ld_dss_dev_info w)))"
  have dx: "ld_dss_dev_info ?x = ld_dss_dev_info w" "ld_dss_dev_info ?y = ld_dss_dev_info w"
    using w1 by simp_all
  have fin: "thread_status ?z \<noteq> 0 \<Longrightarrow> ld_op_status ?z = PHO_DEV_OP_ST_FAILED"
    by (rule dev_thread_end_device_status(1))
  consider
    (A1) "thread_status ?x = 0" "ld_op_status ?x = PHO_DEV_OP_ST_LOADED"
      "ld_dss_media_info ?x = Some m"
      "filter (\<lambda>e. \<not> aux_event e) (trace ?x) = filter (\<lambda>e. \<not> aux_event e) (trace w) @ ?um"
      "filter lock_event (trace ?x) = filter lock_event (trace w)"
  | (A2) r2 r3 where "thread_status ?x \<noteq> 0" "ld_op_status ?x = PHO_DEV_OP_ST_FAILED"
      "filter lock_event (trace ?x) = filter lock_event (trace w) @ medium_failed_events m r2 r3"
  proof (cases "ld_op_status w = PHO_DEV_OP_ST_MOUNTED")
    case True
    from dev_thread_end_mounted_medium_stage [of w1 m] st med True w1
    show ?thesis using A1 A2 by auto
  next
    case False
    then have "?x = w1" using w1 by simp
    then show ?thesis using A1 False op st med w1 by simp
  qed
  then show ?thesis
  proof cases
    case A2
    have y: "?y = ?x" using A2(2) by simp
    from dev_thread_end_device_error [OF A2(1)] obtain r4 r5 where
      z: "filter lock_event (trace (dev_thread_end_device ?x))
            = filter lock_event (trace ?x) @ device_failed_events (ld_dss_dev_info ?x) r4 r5"
      by blast
    have s: "thread_status ?z \<noteq> 0"
      using dev_thread_end_device_status(2) [OF A2(1)] A2(1) y by simp
    have "filter lock_event (trace ?z)
            = filter lock_event (trace w) @ medium_failed_events m r2 r3
                @ device_failed_events (ld_dss_dev_info w) r4 r5"
      using z A2(3) y dx by simp
    then show ?thesis using s fin [OF s] unfolding e by blast
  next
    case A1
    consider
      (B1) "thread_status ?y = 0" "ld_op_status ?y = PHO_DEV_OP_ST_LOADED"
        "filter (\<lambda>e. \<not> aux_event e) (trace ?y)
           = filter (\<lambda>e. \<not> aux_event e) (trace w) @ ?um @ [?Um 0]"
        "filter lock_event (trace ?y) = filter lock_event (trace w) @ [?Um 0]"
    | (B2) r1 r2 r3 where "thread_status ?y \<noteq> 0" "r1 \<noteq> 0"
        "filter lock_event (trace ?y)
           = filter lock_event (trace w) @ ?Um r1 # medium_failed_events m r2 r3"
      using dev_thread_end_loaded_medium_stage [OF A1(1) A1(2) A1(3)] A1(4) A1(5)
      by auto
    then show ?thesis
    proof cases
      case B2
      from dev_thread_end_device_error [OF B2(1)] obtain r4 r5 where
        z: "filter lock_event (trace ?z)
              = filter lock_event (trace ?y) @ device_failed_events (ld_dss_dev_info ?y) r4 r5"
        by blast
      have s: "thread_status ?z \<noteq> 0"
        using dev_thread_end_device_status(2) [OF B2(1)] B2(1) by simp
      have "filter lock_event (trace ?z)
              = filter lock_event (trace w) @ (?Um r1 # medium_failed_events m r2 r3)
                  @ device_failed_events (ld_dss_dev_info w) r4 r5"
        using z B2(3) dx by simp
      then show ?thesis using s fin [OF s] B2(2) unfolding e by blast
    next
      case B1
      from dev_thread_end_device_stage [OF B1(1)]
      consider
        (C1) "thread_status ?z = 0" "ld_op_status ?z = PHO_DEV_OP_ST_LOADED"
          "filter (\<lambda>e. \<not> aux_event e) (trace ?z)
             = filter (\<lambda>e. \<not> aux_event e) (trace w) @ ?um @ [?Um 0, ?Ud 0]"
      | (C2) r1 r4 r5 where "thread_status ?z \<noteq> 0" "r1 \<noteq> 0"
          "filter lock_event (trace ?z)
             = filter lock_event (trace w) @ [?Um 0, ?Ud r1]
                 @ device_failed_events (ld_dss_dev_info w) r4 r5"
        using B1(2) B1(3) B1(4) dx by auto
      then show ?thesis
      proof cases
        case C1
        then show ?thesis unfolding e by simp
      next
        case C2
        then show ?thesis using fin [OF C2(1)] unfolding e by blast
      qed
    qed
  qed
qed

theorem dev_thread_end_releases_witness:
  "ld_sub_request world_stopped = None \<and> thread_status world_stopped = 0
   \<and> ld_dss_media_info world_stopped = Some medium0
   \<and> ld_op_status world_stopped = PHO_DEV_OP_ST_MOUNTED
   \<and> thread_status (dev_thread_end world_stopped) = 0
   \<and> ld_op_status (dev_thread_end world_stopped) = PHO_DEV_OP_ST_LOADED
   \<and> filter (\<lambda>e. \<not> aux_event e) (trace (dev_thread_end world_stopped))
       = [Ext LdmFsUmount 0, OpStatus PHO_DEV_OP_ST_LOADED,
          Ext (DssUnlock DSS_MEDIA ''P00001'') 0, Ext (DssUnlock DSS_DEVICE ''st0'') 0]
   \<and> thread_status (dev_thread_end world_umount_fails) = - 5
   \<and> ld_op_status (dev_thread_end world_umount_fails) = PHO_DEV_OP_ST_FAILED"
proof -
  have h: "ld_sub_request world_stopped = None" "thread_status world_stopped = 0"
    "ld_dss_media_info world_stopped = Some medium0"
    "ld_op_status world_stopped = PHO_DEV_OP_ST_MOUNTED"
    "trace world_stopped = []" "di_name (ld_dss_dev_info world_stopped) = ''st0''"
    "mi_name medium0 = ''P00001''"
    by (simp_all add: world_stopped_def world0_def medium0_def)
  have k: "ld_sub_request world_umount_fails = None" "thread_status world_umount_fails = 0"
    "ld_dss_media_info world_umount_fails = Some medium0"
    "ld_op_status world_umount_fails = PHO_DEV_OP_ST_MOUNTED"
    by (simp_all add: world_umount_fails_def world_stopped_def world0_def)
  have s0: "thread_status (dev_thread_end world_stopped) = 0"
    by (simp add: dev_thread_end_def cancel_pending_format_def dev_thread_end_mounted_medium_def
          dev_thread_end_loaded_medium_def dev_thread_end_device_def dev_umount_def
          with_medium_def clean_tosync_array_def clean_tosync_while_empty dss_medium_release_def
          dss_device_release_def thread_is_running_def ext_def set_op_status_def
          world_stopped_def world0_def reply0_def split_def Let_def)
  have s1: "thread_status (dev_thread_end world_umount_fails) = - 5"
    by (simp add: dev_thread_end_def cancel_pending_format_def dev_thread_end_mounted_medium_def
          dev_thread_end_loaded_medium_def dev_thread_end_device_def dev_umount_def
          with_medium_def clean_tosync_array_def clean_tosync_while_empty dss_medium_release_def
          dss_device_release_def fail_release_free_medium_def dss_set_medium_to_failed_def
          thread_is_running_def ext_def set_op_status_def
          world_umount_fails_def world_stopped_def world0_def reply0_def split_def Let_def)
  from dev_thread_end_releases [OF h(1) h(2) h(3) disjI1 [OF h(4)]] s0 h
  have a: "ld_op_status (dev_thread_end world_stopped) = PHO_DEV_OP_ST_LOADED
           \<and> filter (\<lambda>e. \<not> aux_event e) (trace (dev_thread_end world_stopped))
               = [Ext LdmFsUmount 0, OpStatus PHO_DEV_OP_ST_LOADED,
                  Ext (DssUnlock DSS_MEDIA ''P00001'') 0, Ext (DssUnlock DSS_DEVICE ''st0'') 0]"
    by simp
  from dev_thread_end_releases [OF k(1) k(2) k(3) disjI1 [OF k(4)]] s1
  have b: "ld_op_status (dev_thread_end world_umount_fails) = PHO_DEV_OP_ST_FAILED"
    by simp
  show ?thesis using h s0 s1 a b by simp
qed


section \<open>Marking a medium FAILED\<close>

lemma dev_load_close_lock [simp]:
  "filter lock_event (trace (snd (dev_load_close lo w))) = filter lock_event (trace w)"
  "lo_failure_on_medium (fst (dev_load_close lo w)) = lo_failure_on_medium lo"
  by (simp_all add: dev_load_close_def split_def Let_def)

lemma dev_load_marks_failed:
  assumes "lo_failure_on_medium (fst (dev_load medium rel fm w))"
  shows "\<exists>r1 r2. filter lock_event (trace (snd (dev_load medium rel fm w)))
                   = filter lock_event (trace w) @ medium_failed_events medium r1 r2"
proof -
  have a: "\<exists>r1 r2. filter lock_event (trace (snd (fail_release_free_medium medium fm v)))
                     = filter lock_event (trace w) @ medium_failed_events medium r1 r2"
    if "filter lock_event (trace v) = filter lock_event (trace w)" for v
    using fail_release_free_medium_lock [of medium fm v] that by simp
  show ?thesis
    using assms
    by (auto simp: dev_load_def split_def Let_def split: if_splits intro!: a)
qed

lemma dev_mount_frame [simp]:
  "filter lock_event (trace (snd (dev_mount w))) = filter lock_event (trace w)"
  "ld_dss_media_info (snd (dev_mount w)) = ld_dss_media_info w"
  by (simp_all add: dev_mount_def with_medium_def split_def Let_def split: option.splits)

lemma rw_mount_marks_failed:
  assumes med: "ld_dss_media_info w = Some m" and rc: "fst (dev_mount w) \<noteq> 0"
  shows "\<exists>r1 r2. filter lock_event (trace (snd (rw_mount sr w)))
                   = filter lock_event (trace w) @ medium_failed_events m r1 r2"
proof -
  let ?v = "set_op_status PHO_DEV_OP_ST_FAILED (snd (dev_mount w))"
  from fail_release_free_medium_lock [of m True ?v] obtain r1 r2 where
    "filter lock_event (trace (snd (fail_release_free_medium m True ?v)))
       = filter lock_event (trace ?v) @ medium_failed_events m r1 r2" by blast
  then show ?thesis
    using med rc by (auto simp: rw_mount_def split_def Let_def)
qed

text \<open>The end of a thread that has met an error.\<close>

lemma cancel_pending_format_error:
  assumes "thread_status w \<noteq> 0"
    and "\<forall>sr. ld_sub_request w = Some sr \<longrightarrow> rq_medium_to_format (reqcs w (sr_reqc sr)) = None"
  shows "filter lock_event (trace (cancel_pending_format w)) = filter lock_event (trace w)"
  using assms
  by (simp add: cancel_pending_format_def split_def Let_def split: option.splits)

lemma dev_thread_end_medium_error:
  assumes st: "thread_status w \<noteq> 0" and med: "ld_dss_media_info w = Some m"
    and op: "ld_op_status w = PHO_DEV_OP_ST_MOUNTED \<or> ld_op_status w = PHO_DEV_OP_ST_LOADED"
  shows "\<exists>r1 r2. filter lock_event
                    (trace (dev_thread_end_loaded_medium (dev_thread_end_mounted_medium w)))
                   = filter lock_event (trace w) @ medium_failed_events m r1 r2"
proof -
  from fail_release_free_medium_lock [of m True w] obtain r1 r2 where
    f: "filter lock_event (trace (snd (fail_release_free_medium m True w)))
          = filter lock_event (trace w) @ medium_failed_events m r1 r2" by blast
  from op show ?thesis
  proof
    assume mo: "ld_op_status w = PHO_DEV_OP_ST_MOUNTED"
    have "dev_thread_end_mounted_medium w
            = (snd (fail_release_free_medium m True w))\<lparr>ld_dss_media_info := None\<rparr>"
      using st med mo
      by (simp add: dev_thread_end_mounted_medium_def fail_release_free_medium_def split_def
            Let_def)
    then show ?thesis using f mo by auto
  next
    assume lo: "ld_op_status w = PHO_DEV_OP_ST_LOADED"
    have "dev_thread_end_loaded_medium w
            = (snd (fail_release_free_medium m True w))\<lparr>ld_dss_media_info := None\<rparr>"
      using st med lo
      by (simp add: dev_thread_end_loaded_medium_def fail_release_free_medium_def split_def
            Let_def)
    then show ?thesis using f lo by auto
  qed
qed

lemma dev_thread_end_on_error:
  assumes st: "thread_status w \<noteq> 0" and med: "ld_dss_media_info w = Some m"
    and op: "ld_op_status w = PHO_DEV_OP_ST_MOUNTED \<or> ld_op_status w = PHO_DEV_OP_ST_LOADED"
    and sub: "\<forall>sr. ld_sub_request w = Some sr
                \<longrightarrow> rq_medium_to_format (reqcs w (sr_reqc sr)) = None"
  shows "\<exists>r1 r2 r3 r4. filter lock_event (trace (dev_thread_end w))
           = filter lock_event (trace w) @ medium_failed_events m r1 r2
               @ device_failed_events (ld_dss_dev_info w) r3 r4"
proof -
  let ?w1 = "if thread_is_running w then w\<lparr>thread_state := THREAD_STOPPING\<rparr> else w"
  let ?c = "cancel_pending_format ?w1"
  let ?y = "dev_thread_end_loaded_medium (dev_thread_end_mounted_medium ?c)"
  have e: "dev_thread_end w = dev_thread_end_device ?y"
    by (simp add: dev_thread_end_def Let_def)
  have c: "filter lock_event (trace ?c) = filter lock_event (trace w)"
    using cancel_pending_format_error [of ?w1] st sub by simp
  have cs: "thread_status ?c \<noteq> 0" "ld_dss_media_info ?c = Some m"
    "ld_op_status ?c = PHO_DEV_OP_ST_MOUNTED \<or> ld_op_status ?c = PHO_DEV_OP_ST_LOADED"
    "ld_dss_dev_info ?c = ld_dss_dev_info w"
    using st med op by simp_all
  from dev_thread_end_medium_error [OF cs(1) cs(2) cs(3)] obtain r1 r2 where
    y: "filter lock_event (trace ?y) = filter lock_event (trace ?c) @ medium_failed_events m r1 r2"
    by blast
  have ys: "thread_status ?y \<noteq> 0"
    using cs(1) by (simp add: dev_thread_end_loaded_medium_error dev_thread_end_mounted_medium_error)
  have yd: "ld_dss_dev_info ?y = ld_dss_dev_info w" using cs(4) by simp
  from dev_thread_end_device_error [OF ys] obtain r3 r4 where
    "filter lock_event (trace (dev_thread_end_device ?y))
       = filter lock_event (trace ?y) @ device_failed_events (ld_dss_dev_info ?y) r3 r4"
    by blast
  then show ?thesis using y c yd unfolding e by auto
qed


lemma cancel_pending_format_lock:
  "filter lock_event (trace (cancel_pending_format w)) = filter lock_event (trace w)
   \<or> (\<exists>mf r0 r1. filter lock_event (trace (cancel_pending_format w))
         = filter lock_event (trace w)
             @ Ext (DssUnlock DSS_MEDIA (mi_name mf)) r0
             # (if r0 \<noteq> 0
                then [Ext (DssMediaSet (mf\<lparr>mi_adm_status := PHO_RSC_ADM_ST_FAILED\<rparr>) {ADM_STATUS}) r1]
                else []))"
proof (cases "ld_sub_request w")
  case None
  then show ?thesis by (simp add: cancel_pending_format_def)
next
  case (Some sr)
  show ?thesis
  proof (cases "rq_medium_to_format (reqcs w (sr_reqc sr))")
    case None
    then show ?thesis
      using Some by (simp add: cancel_pending_format_def split_def Let_def)
  next
    case (Some mf)
    have "filter lock_event (trace (cancel_pending_format w))
            = filter lock_event (trace w)
                @ Ext (DssUnlock DSS_MEDIA (mi_name mf)) (rp_rc (script w (Suc (length (trace w)))))
                # (if rp_rc (script w (Suc (length (trace w)))) \<noteq> 0
                   then [Ext (DssMediaSet (mf\<lparr>mi_adm_status := PHO_RSC_ADM_ST_FAILED\<rparr>) {ADM_STATUS})
                           (rp_rc (script w (Suc (Suc (length (trace w))))))]
                   else [])"
      using Some \<open>ld_sub_request w = Some sr\<close>
      by (simp add: cancel_pending_format_def dss_medium_release_def split_def Let_def)
    then show ?thesis by blast
  qed
qed

text \<open>
  C5. Every function that marks a medium FAILED in the DSS and holds its lock goes through
  \<open>fail_release_free_medium\<close>, whose history is the update of the medium to FAILED followed
  by the unlock of the medium only when the update has answered 0. Among the DSS calls on
  status and locks,

  \<^item> a load that fails on the medium (\<open>dev_load\<close>), a mount that fails (\<open>dev_handle_read_write\<close>
    from its label \<open>mount\<close>) and the end of a thread that has met an error, on a MOUNTED or
    LOADED device, issue for the medium exactly that update and, only after its success, the
    unlock;

  \<^item> the end of a thread that has met an error issues for the device the update to FAILED and,
    only after its success, the unlock of the device;

  \<^item> the cancellation of a pending format at the end of the thread unlocks the medium to format
    first and marks it FAILED when that unlock has failed: no unlock follows the update.
\<close>

theorem failed_update_keeps_lock:
  "trace (snd (fail_release_free_medium m fm w))
     = trace w @ medium_failed_events m (rp_rc (script w (length (trace w))))
                   (rp_rc (script w (Suc (length (trace w)))))
   \<and> (lo_failure_on_medium (fst (dev_load m rel fm w)) \<longrightarrow>
        (\<exists>r1 r2. filter lock_event (trace (snd (dev_load m rel fm w)))
                   = filter lock_event (trace w) @ medium_failed_events m r1 r2))
   \<and> (ld_dss_media_info w = Some m \<and> fst (dev_mount w) \<noteq> 0 \<longrightarrow>
        (\<exists>r1 r2. filter lock_event (trace (snd (rw_mount sr w)))
                   = filter lock_event (trace w) @ medium_failed_events m r1 r2))
   \<and> (thread_status w \<noteq> 0 \<and> ld_dss_media_info w = Some m
        \<and> (ld_op_status w = PHO_DEV_OP_ST_MOUNTED \<or> ld_op_status w = PHO_DEV_OP_ST_LOADED)
        \<and> (\<forall>s. ld_sub_request w = Some s \<longrightarrow> rq_medium_to_format (reqcs w (sr_reqc s)) = None)
        \<longrightarrow>
        (\<exists>r1 r2 r3 r4. filter lock_event (trace (dev_thread_end w))
           = filter lock_event (trace w) @ medium_failed_events m r1 r2
               @ device_failed_events (ld_dss_dev_info w) r3 r4))
   \<and> (thread_status w \<noteq> 0 \<longrightarrow>
        (\<exists>r1 r2. filter lock_event (trace (dev_thread_end_device w))
                   = filter lock_event (trace w) @ device_failed_events (ld_dss_dev_info w) r1 r2))
   \<and> (filter lock_event (trace (cancel_pending_format w)) = filter lock_event (trace w)
       \<or> (\<exists>mf r0 r1. filter lock_event (trace (cancel_pending_format w))
             = filter lock_event (trace w)
                 @ Ext (DssUnlock DSS_MEDIA (mi_name mf)) r0
                 # (if r0 \<noteq> 0
                    then [Ext (DssMediaSet (mf\<lparr>mi_adm_status := PHO_RSC_ADM_ST_FAILED\<rparr>)
                                 {ADM_STATUS}) r1]
                    else [])))"
proof (intro conjI impI)
  show "trace (snd (fail_release_free_medium m fm w))
     = trace w @ medium_failed_events m (rp_rc (script w (length (trace w))))
                   (rp_rc (script w (Suc (length (trace w)))))"
    by (rule fail_release_free_medium_events)
next
  assume "lo_failure_on_medium (fst (dev_load m rel fm w))"
  then show "\<exists>r1 r2. filter lock_event (trace (snd (dev_load m rel fm w)))
                   = filter lock_event (trace w) @ medium_failed_events m r1 r2"
    by (rule dev_load_marks_failed)
next
  assume "ld_dss_media_info w = Some m \<and> fst (dev_mount w) \<noteq> 0"
  then show "\<exists>r1 r2. filter lock_event (trace (snd (rw_mount sr w)))
                   = filter lock_event (trace w) @ medium_failed_events m r1 r2"
    using rw_mount_marks_failed [of w m sr] by simp
next
  assume "thread_status w \<noteq> 0 \<and> ld_dss_media_info w = Some m
        \<and> (ld_op_status w = PHO_DEV_OP_ST_MOUNTED \<or> ld_op_status w = PHO_DEV_OP_ST_LOADED)
        \<and> (\<forall>s. ld_sub_request w = Some s \<longrightarrow> rq_medium_to_format (reqcs w (sr_reqc s)) = None)"
  then show "\<exists>r1 r2 r3 r4. filter lock_event (trace (dev_thread_end w))
           = filter lock_event (trace w) @ medium_failed_events m r1 r2
               @ device_failed_events (ld_dss_dev_info w) r3 r4"
    using dev_thread_end_on_error [of w m] by simp
next
  assume "thread_status w \<noteq> 0"
  then show "\<exists>r1 r2. filter lock_event (trace (dev_thread_end_device w))
                   = filter lock_event (trace w) @ device_failed_events (ld_dss_dev_info w) r1 r2"
    by (rule dev_thread_end_device_error)
next
  show "filter lock_event (trace (cancel_pending_format w)) = filter lock_event (trace w)
       \<or> (\<exists>mf r0 r1. filter lock_event (trace (cancel_pending_format w))
             = filter lock_event (trace w)
                 @ Ext (DssUnlock DSS_MEDIA (mi_name mf)) r0
                 # (if r0 \<noteq> 0
                    then [Ext (DssMediaSet (mf\<lparr>mi_adm_status := PHO_RSC_ADM_ST_FAILED\<rparr>)
                                 {ADM_STATUS}) r1]
                    else []))"
    by (rule cancel_pending_format_lock)
qed

theorem failed_update_keeps_lock_witness:
  "lo_failure_on_medium (fst (dev_load medium1 True False world_lookup_fails))
   \<and> (\<exists>r1 r2. filter lock_event (trace (snd (dev_load medium1 True False world_lookup_fails)))
                = filter lock_event (trace world_lookup_fails)
                    @ medium_failed_events medium1 r1 r2)
   \<and> filter lock_event (trace (snd (dev_load medium1 True False world_lookup_fails)))
       = [Ext (DssMediaSet (medium1\<lparr>mi_adm_status := PHO_RSC_ADM_ST_FAILED\<rparr>) {ADM_STATUS}) (- 5)]
   \<and> ld_dss_media_info world_mount_fails = Some medium0
   \<and> fst (dev_mount world_mount_fails) \<noteq> 0
   \<and> (\<exists>r1 r2. filter lock_event (trace (snd (rw_mount sr0 world_mount_fails)))
                = filter lock_event (trace world_mount_fails) @ medium_failed_events medium0 r1 r2)
   \<and> thread_status world_failed \<noteq> 0
   \<and> ld_dss_media_info world_failed = Some medium0
   \<and> ld_op_status world_failed = PHO_DEV_OP_ST_MOUNTED
   \<and> ld_sub_request world_failed = None
   \<and> (\<exists>r1 r2 r3 r4. filter lock_event (trace (dev_thread_end world_failed))
         = filter lock_event (trace world_failed) @ medium_failed_events medium0 r1 r2
             @ device_failed_events (ld_dss_dev_info world_failed) r3 r4)
   \<and> (\<exists>r1 r2. filter lock_event (trace (dev_thread_end_device world_failed))
         = filter lock_event (trace world_failed)
             @ device_failed_events (ld_dss_dev_info world_failed) r1 r2)"
proof -
  have l: "lo_failure_on_medium (fst (dev_load medium1 True False world_lookup_fails))"
    by (simp add: dev_load_def wrap_lib_open_def dev_load_close_def fail_release_free_medium_def
          dss_set_medium_to_failed_def dss_medium_release_def ext_def set_op_status_def
          world_lookup_fails_def world_d2d_format_def world0_def reply0_def medium1_def
          split_def Let_def)
  have lt: "filter lock_event (trace (snd (dev_load medium1 True False world_lookup_fails)))
       = [Ext (DssMediaSet (medium1\<lparr>mi_adm_status := PHO_RSC_ADM_ST_FAILED\<rparr>) {ADM_STATUS}) (- 5)]"
    by (simp add: dev_load_def wrap_lib_open_def dev_load_close_def fail_release_free_medium_def
          dss_set_medium_to_failed_def dss_medium_release_def ext_def set_op_status_def
          world_lookup_fails_def world_d2d_format_def world0_def reply0_def
          split_def Let_def)
  have mo: "ld_dss_media_info world_mount_fails = Some medium0"
    "fst (dev_mount world_mount_fails) \<noteq> 0"
    by (simp_all add: dev_mount_def with_medium_def ext_def world_mount_fails_def world_ro_def
          world0_def reply0_def split_def Let_def)
  have f: "thread_status world_failed \<noteq> 0" "ld_dss_media_info world_failed = Some medium0"
    "ld_op_status world_failed = PHO_DEV_OP_ST_MOUNTED" "ld_sub_request world_failed = None"
    by (simp_all add: world_failed_def world0_def)
  note a = failed_update_keeps_lock [of medium1 False world_lookup_fails True sr0]
  note b = failed_update_keeps_lock [of medium0 False world_mount_fails True sr0]
  note c = failed_update_keeps_lock [of medium0 False world_failed True sr0]
  have 1: "\<exists>r1 r2. filter lock_event (trace (snd (dev_load medium1 True False world_lookup_fails)))
                = filter lock_event (trace world_lookup_fails)
                    @ medium_failed_events medium1 r1 r2"
    using a l by blast
  have 2: "\<exists>r1 r2. filter lock_event (trace (snd (rw_mount sr0 world_mount_fails)))
                = filter lock_event (trace world_mount_fails) @ medium_failed_events medium0 r1 r2"
    using b mo by blast
  have 3: "\<exists>r1 r2 r3 r4. filter lock_event (trace (dev_thread_end world_failed))
         = filter lock_event (trace world_failed) @ medium_failed_events medium0 r1 r2
             @ device_failed_events (ld_dss_dev_info world_failed) r3 r4"
    using c f by simp
  have 4: "\<exists>r1 r2. filter lock_event (trace (dev_thread_end_device world_failed))
         = filter lock_event (trace world_failed)
             @ device_failed_events (ld_dss_dev_info world_failed) r1 r2"
    using c f by blast
  show ?thesis using l lt mo f 1 2 3 4 by blast
qed


section \<open>The refused move between two drives\<close>


lemma wrap_lib_open_retrace [simp]:
  "(snd (wrap_lib_open f w))\<lparr>trace := t\<rparr> = w\<lparr>trace := t\<rparr>"
  by (simp add: wrap_lib_open_def ext_def split_def Let_def)








lemma check_needs_sync_reqc [simp]:
  "reqcs (check_needs_sync w) = reqcs w"
  "ld_sub_request (check_needs_sync w) = ld_sub_request w"
  by (simp_all add: check_needs_sync_def is_past_def split_def Let_def)




text \<open>The refused format on the drive of \<open>world_d2d_format\<close>, turn by turn.\<close>

lemma world_d2d_format_fields:
  "ld_sub_request world_d2d_format = Some sr0"
  "rq_medium_to_format (reqcs world_d2d_format n) = Some medium1"
  "rq_kind (reqcs world_d2d_format n) = REQ_FORMAT"
  "rq_format_unlock (reqcs world_d2d_format n) = False"
  "ld_op_status world_d2d_format = PHO_DEV_OP_ST_EMPTY"
  "ld_dss_media_info world_d2d_format = None"
  "\<not> ld_ongoing_io world_d2d_format" "\<not> ld_needs_sync world_d2d_format"
  "tosync_array world_d2d_format = []" "trace world_d2d_format = []"
  "script world_d2d_format = script_d2d"
  "thread_state world_d2d_format = THREAD_RUNNING"
  "ld_last_client_rc world_d2d_format = 0" "running world_d2d_format"
  "ld_response_queue world_d2d_format = []"
  "sched_req_queue world_d2d_format = []"
  "di_family (ld_dss_dev_info world_d2d_format) = PHO_RSC_TAPE"
  "ld_lib_dev_addr world_d2d_format = MED_LOC_DRIVE"
  "oldest_tosync world_d2d_format = \<lparr>tv_sec = 0, tv_nsec = 0\<rparr>"
  "sync_time_ms world_d2d_format = \<lparr>tv_sec = 10, tv_nsec = 0\<rparr>"
  by (simp_all add: world_d2d_format_def world0_def reqc0_def)





lemma sr0_flag [simp]: "sr0\<lparr>sr_failure_on_medium := False\<rparr> = sr0" "sr_reqc sr0 = 0"
  by (simp_all add: sr0_def)



lemma world_d2d_retry_fields:
  "ld_sub_request world_d2d_retry = Some sr0"
  "rq_medium_to_format (reqcs world_d2d_retry n) = Some medium1"
  "rq_kind (reqcs world_d2d_retry n) = REQ_FORMAT"
  "rq_format_unlock (reqcs world_d2d_retry n) = False"
  "ld_op_status world_d2d_retry = PHO_DEV_OP_ST_EMPTY"
  "ld_dss_media_info world_d2d_retry = None"
  "\<not> ld_ongoing_io world_d2d_retry" "\<not> ld_needs_sync world_d2d_retry"
  "tosync_array world_d2d_retry = []"
  "length (trace world_d2d_retry) = 8"
  "script world_d2d_retry = script_d2d"
  "thread_state world_d2d_retry = THREAD_RUNNING"
  "ld_last_client_rc world_d2d_retry = 0" "running world_d2d_retry"
  "ld_response_queue world_d2d_retry = []"
  "sched_req_queue world_d2d_retry = []"
  "di_family (ld_dss_dev_info world_d2d_retry) = PHO_RSC_TAPE"
  "ld_lib_dev_addr world_d2d_retry = MED_LOC_DRIVE"
  "oldest_tosync world_d2d_retry = \<lparr>tv_sec = 0, tv_nsec = 0\<rparr>"
  "sync_time_ms world_d2d_retry = \<lparr>tv_sec = 10, tv_nsec = 0\<rparr>"
  by (simp_all add: world_d2d_retry_def world_d2d_format_fields)


lemma retry_load:
  "lo_rc (fst (dev_load medium1 True False world_d2d_retry)) = 0"
  "\<not> lo_can_retry (fst (dev_load medium1 True False world_d2d_retry))"
  "ld_op_status (snd (dev_load medium1 True False world_d2d_retry)) = PHO_DEV_OP_ST_LOADED"
  "ld_dss_media_info (snd (dev_load medium1 True False world_d2d_retry)) = Some medium1"
  "filter walk_event (trace (snd (dev_load medium1 True False world_d2d_retry)))
     = filter walk_event (trace world_d2d_retry)
         @ [Ext (LdmLibMediaMove MED_LOC_SLOT MED_LOC_DRIVE) 0, OpStatus PHO_DEV_OP_ST_LOADED]"
  by (simp_all add: dev_load_def dev_load_close_def wrap_lib_open_def world_d2d_retry_fields
        script_d2d_def reply0_def EINVAL_def split_def Let_def)





















end
